theory Spec2Isabelle
  imports Complex_Main "HOL-Library.Word" "HOL-Library.Product_Lexorder"
    "HOL-Library.Multiset" "HOL-Library.AList"
begin

section \<open>Python values used by the marketplace\<close>

text \<open>
  A Python \<open>str\<close> is a list of code points. The model writes it as a \<^typ>\<open>string\<close>
  whose characters are the code points 0..255; code points above 255 are outside the
  model. On that range \<open>str.lower\<close>, \<open>str.isspace\<close> and \<open>str.isdigit\<close> are the
  functions below. Python floats (\<open>time.time()\<close>, prices) are modelled as reals: only
  their order, sums and differences are used, and NaN is outside the model.
\<close>

definition lower_char :: "char \<Rightarrow> char" where
  "lower_char c =
     (let n = (of_char c :: nat)
      in if (65 \<le> n \<and> n \<le> 90) \<or> (192 \<le> n \<and> n \<le> 222 \<and> n \<noteq> 215)
         then char_of (n + 32) else c)"

definition lower :: "string \<Rightarrow> string" where
  "lower s = map lower_char s"

definition isspace :: "char \<Rightarrow> bool" where
  "isspace c =
     (let n = (of_char c :: nat)
      in (9 \<le> n \<and> n \<le> 13) \<or> (28 \<le> n \<and> n \<le> 32) \<or> n = 133 \<or> n = 160)"

definition strip :: "string \<Rightarrow> string" where
  "strip s = rev (dropWhile isspace (rev (dropWhile isspace s)))"

text \<open>The character class \<open>[a-z0-9]\<close> of \<open>ProductDB._tokenize_name\<close>.\<close>

definition is_az09 :: "char \<Rightarrow> bool" where
  "is_az09 c =
     (let n = (of_char c :: nat) in (97 \<le> n \<and> n \<le> 122) \<or> (48 \<le> n \<and> n \<le> 57))"

text \<open>
  \<open>[t for t in re.split(r"[^a-z0-9]+", s) if t]\<close>: the non-empty maximal runs of
  characters of the class; \<open>cur\<close> is the run being read.
\<close>

fun split_runs :: "string \<Rightarrow> string \<Rightarrow> string list" where
  "split_runs cur [] = (if cur = [] then [] else [cur])"
| "split_runs cur (c # cs) =
     (if is_az09 c then split_runs (cur @ [c]) cs
      else (if cur = [] then [] else [cur]) @ split_runs [] cs)"

section \<open>Wire protocol (src/common/protocol.py)\<close>

type_synonym byte = "8 word"

text \<open>
  The values \<open>json.loads\<close> returns. The JSON codec itself is the Python standard
  library's, not code of the repository: \<open>dumps\<close> stands for
  \<open>json.dumps(obj, separators=(",", ":"), ensure_ascii=False).encode("utf-8")\<close> and
  \<open>loads\<close> for \<open>json.loads(payload.decode("utf-8"))\<close>, \<open>None\<close> when it raises; both
  are parameters of the functions below.
\<close>

datatype json =
    JNull
  | JBool bool
  | JInt int
  | JFloat real
  | JStr string
  | JArr "json list"
  | JObj "(string \<times> json) list"

fun is_dict :: "json \<Rightarrow> bool" where
  "is_dict (JObj kvs) = True"
| "is_dict _ = False"

datatype protocol_error =
    StructError
  | ConnectionClosed
  | InvalidPayloadLength nat
  | InvalidJsonPayload
  | PayloadNotObject

text \<open>\<open>_LEN = struct.Struct(">I")\<close>: \<open>pack\<close> raises \<open>struct.error\<close> outside 0..2^32-1.\<close>

definition LEN_size :: nat where
  "LEN_size = 4"

definition LEN_pack :: "nat \<Rightarrow> protocol_error + byte list" where
  "LEN_pack n =
     (if n < 2 ^ 32
      then Inr [of_nat (n div 2 ^ 24), of_nat (n div 2 ^ 16), of_nat (n div 2 ^ 8), of_nat n]
      else Inl StructError)"

fun LEN_unpack :: "byte list \<Rightarrow> nat" where
  "LEN_unpack [a, b, c, d] = unat a * 2 ^ 24 + unat b * 2 ^ 16 + unat c * 2 ^ 8 + unat d"
| "LEN_unpack _ = 0"

definition encode_message :: "(json \<Rightarrow> byte list) \<Rightarrow> json \<Rightarrow> protocol_error + byte list" where
  "encode_message dumps obj =
     (let payload = dumps obj
      in case LEN_pack (length payload) of
           Inl e \<Rightarrow> Inl e
         | Inr header \<Rightarrow> Inr (header @ payload))"

text \<open>
  The reader is the bytes still to come, followed by end of file (the test feeds the
  frame and then EOF). \<open>read_exactly\<close> returns the bytes read and the rest of the stream.
\<close>

definition read_exactly :: "byte list \<Rightarrow> nat \<Rightarrow> protocol_error + (byte list \<times> byte list)" where
  "read_exactly reader n =
     (if n \<le> length reader then Inr (take n reader, drop n reader) else Inl ConnectionClosed)"

definition default_max_bytes :: nat where
  "default_max_bytes = 4 * 1024 * 1024"

definition read_message ::
  "(byte list \<Rightarrow> json option) \<Rightarrow> byte list \<Rightarrow> nat \<Rightarrow> protocol_error + (json \<times> byte list)" where
  "read_message loads reader max_bytes =
     (case read_exactly reader LEN_size of
        Inl e \<Rightarrow> Inl e
      | Inr (header, rest) \<Rightarrow>
          (let n = LEN_unpack header
           in if n \<le> 0 \<or> n > max_bytes then Inl (InvalidPayloadLength n)
              else (case read_exactly rest n of
                      Inl e \<Rightarrow> Inl e
                    | Inr (payload, rest') \<Rightarrow>
                        (case loads payload of
                           None \<Rightarrow> Inl InvalidJsonPayload
                         | Some obj \<Rightarrow>
                             if is_dict obj then Inr (obj, rest') else Inl PayloadNotObject))))"

section \<open>Data model (src/common/models.py)\<close>

text \<open>
  Field names that several dataclasses share are prefixed, since a record field is a
  global constant: \<open>Item\<close> uses the names of its public dictionary, \<open>Seller\<close> and
  \<open>Buyer\<close> the prefixes \<open>s_\<close> and \<open>b_\<close>, \<open>Transaction\<close> the prefix \<open>txn_\<close>.
\<close>

record Feedback =
  thumbs_up :: int
  thumbs_down :: int

record ItemId =
  category :: int
  number :: int

record Item =
  item_id :: ItemId
  seller_id :: int
  item_name :: string
  item_category :: int
  item_keywords :: "string list"
  condition :: string
  sale_price :: real
  quantity :: int
  item_feedback :: Feedback
  created_at :: real

record Seller =
  s_id :: int
  s_name :: string
  s_feedback :: Feedback
  items_sold :: int
  s_password_hash :: string
  s_created_at :: real

record Buyer =
  b_id :: int
  b_name :: string
  items_purchased :: int
  b_password_hash :: string
  b_created_at :: real

record TransactionLine =
  line_item_id :: ItemId
  line_seller_id :: int
  qty :: int
  price_each :: real

record Transaction =
  txn_id :: string
  txn_buyer_id :: int
  txn_items :: "TransactionLine list"
  total :: real
  txn_created_at :: real

text \<open>
  Every \<open>ValueError\<close> the stores raise and every error response the handlers return,
  one constructor per message.
\<close>

datatype error =
    ItemNameLength
  | BadCondition
  | PriceNegative
  | QuantityNegative
  | TooManyKeywords
  | KeywordLength
  | UnknownItemId
  | NotOwner
  | RemoveNotPositive
  | RemoveMoreThanAvailable
  | BadVote
  | InvalidRole
  | NameLength
  | InvalidCredentials
  | AmbiguousUsername
  | InvalidIntLiteral
  | MissingAccount
  | InvalidSession
  | RoleMismatch
  | InvalidBuyerSession
  | QuantityNotPositive
  | ItemNotInCart
  | CannotRemoveMore
  | NameRequired
  | NotLoggedIn
  | ItemNotFound
  | ItemNotAvailable
  | InsufficientInventory
  | BuyerNotFound
  | SellerNotFound
  | CartEmpty
  | CartInvalidQuantity
  | RemoveNegative
  | InsufficientUnits
  | ItemIdExists

text \<open>
  A Python dictionary that the code iterates over is an association list with distinct
  keys in insertion order: \<open>d.get(k)\<close> is \<^const>\<open>map_of\<close>, \<open>d[k] = v\<close> is
  \<^const>\<open>AList.update\<close> (in place for a key that is there, appended otherwise) and
  \<open>d.pop(k, None)\<close> is \<^const>\<open>AList.delete\<close>. A value object mutated in place
  (\<open>item.quantity -= n\<close>) is written back under its key.

  An item key is the string \<open>ItemId.key()\<close> builds, "category:number". The product
  store and the handlers only ever look items up under keys built by \<open>key()\<close> from an
  \<open>ItemId\<close> (\<open>ItemId.from_any\<close> followed by \<open>key()\<close>), so the model identifies such a
  key with its \<open>ItemId\<close>; parsing a request's \<open>item_id\<close> is outside the model.
\<close>

definition feedback_score :: "Item \<Rightarrow> int" where
  "feedback_score it = thumbs_up (item_feedback it) - thumbs_down (item_feedback it)"

section \<open>Product store (src/backend/product_db_server.py)\<close>

record ProductDB =
  next_in_category :: "int \<rightharpoonup> int"
  items :: "(ItemId \<times> Item) list"

definition ProductDB_init :: ProductDB where
  "ProductDB_init = \<lparr>next_in_category = Map.empty, items = []\<rparr>"

definition new_item_id :: "ProductDB \<Rightarrow> int \<Rightarrow> ItemId \<times> ProductDB" where
  "new_item_id db c =
     (let n = (case next_in_category db c of None \<Rightarrow> 1 | Some m \<Rightarrow> m)
      in (\<lparr>category = c, number = n\<rparr>,
          db\<lparr>next_in_category := (next_in_category db)(c \<mapsto> n + 1)\<rparr>))"

text \<open>
  The attributes of a registration request, already of the types the code coerces them
  to (\<open>str\<close>, \<open>int\<close>, \<open>float\<close>, list of \<open>str\<close>); a missing field or a failed coercion is
  outside the model.
\<close>

record ItemAttrs =
  a_item_name :: string
  a_item_category :: int
  a_condition :: string
  a_sale_price :: real
  a_item_quantity :: int
  a_keywords :: "string list"

definition validate_item_fields :: "ItemAttrs \<Rightarrow> error + ItemAttrs" where
  "validate_item_fields a =
     (if length (a_item_name a) = 0 \<or> length (a_item_name a) > 32 then Inl ItemNameLength
      else let cond = lower (strip (a_condition a))
           in if cond \<noteq> ''new'' \<and> cond \<noteq> ''used'' then Inl BadCondition
              else if a_sale_price a < 0 then Inl PriceNegative
              else if a_item_quantity a < 0 then Inl QuantityNegative
              else if length (a_keywords a) > 5 then Inl TooManyKeywords
              else if list_ex (\<lambda>s. length s = 0 \<or> length s > 8) (a_keywords a)
                   then Inl KeywordLength
              else Inr (a\<lparr>a_condition := cond\<rparr>))"

definition tokenize_name :: "string \<Rightarrow> string list" where
  "tokenize_name name = split_runs [] (lower name)"

definition register_item ::
  "ProductDB \<Rightarrow> int \<Rightarrow> ItemAttrs \<Rightarrow> real \<Rightarrow> (error + ItemId) \<times> ProductDB" where
  "register_item db sid attrs now =
     (case validate_item_fields attrs of
        Inl e \<Rightarrow> (Inl e, db)
      | Inr a \<Rightarrow>
          (let (iid, db1) = new_item_id db (a_item_category a);
               item = \<lparr>item_id = iid, seller_id = sid, item_name = a_item_name a,
                       item_category = a_item_category a, item_keywords = a_keywords a,
                       condition = a_condition a, sale_price = a_sale_price a,
                       quantity = a_item_quantity a,
                       item_feedback = \<lparr>thumbs_up = 0, thumbs_down = 0\<rparr>,
                       created_at = now\<rparr>
           in (Inr iid, db1\<lparr>items := AList.update iid item (items db1)\<rparr>)))"

definition change_item_price ::
  "ProductDB \<Rightarrow> int \<Rightarrow> ItemId \<Rightarrow> real \<Rightarrow> (error + bool) \<times> ProductDB" where
  "change_item_price db sid iid new_price =
     (if new_price < 0 then (Inl PriceNegative, db)
      else case map_of (items db) iid of
             None \<Rightarrow> (Inl UnknownItemId, db)
           | Some item \<Rightarrow>
               if seller_id item \<noteq> sid then (Inl NotOwner, db)
               else (Inr True,
                     db\<lparr>items := AList.update iid (item\<lparr>sale_price := new_price\<rparr>) (items db)\<rparr>))"

definition update_units_remove ::
  "ProductDB \<Rightarrow> int \<Rightarrow> ItemId \<Rightarrow> int \<Rightarrow> (error + int) \<times> ProductDB" where
  "update_units_remove db sid iid qty_remove =
     (if qty_remove \<le> 0 then (Inl RemoveNotPositive, db)
      else case map_of (items db) iid of
             None \<Rightarrow> (Inl UnknownItemId, db)
           | Some item \<Rightarrow>
               if seller_id item \<noteq> sid then (Inl NotOwner, db)
               else if qty_remove > quantity item then (Inl RemoveMoreThanAvailable, db)
               else (Inr (quantity item - qty_remove),
                     db\<lparr>items :=
                          AList.update iid (item\<lparr>quantity := quantity item - qty_remove\<rparr>)
                            (items db)\<rparr>))"

definition provide_feedback ::
  "ProductDB \<Rightarrow> ItemId \<Rightarrow> string \<Rightarrow> (error + Feedback) \<times> ProductDB" where
  "provide_feedback db iid vote =
     (let v = lower (strip vote)
      in if v \<noteq> ''up'' \<and> v \<noteq> ''down'' then (Inl BadVote, db)
         else case map_of (items db) iid of
                None \<Rightarrow> (Inl UnknownItemId, db)
              | Some item \<Rightarrow>
                  (let fb = item_feedback item;
                       fb' = (if v = ''up'' then fb\<lparr>thumbs_up := thumbs_up fb + 1\<rparr>
                              else fb\<lparr>thumbs_down := thumbs_down fb + 1\<rparr>)
                   in (Inr fb',
                       db\<lparr>items := AList.update iid (item\<lparr>item_feedback := fb'\<rparr>) (items db)\<rparr>)))"

text \<open>The two sort keys of \<open>ProductDB.search\<close>, tuples compared lexicographically.\<close>

definition search_key :: "Item \<Rightarrow> int \<times> real \<times> int \<times> int" where
  "search_key it =
     (- feedback_score it, sale_price it, category (item_id it), number (item_id it))"

definition match_score :: "string list \<Rightarrow> Item \<Rightarrow> int" where
  "match_score q it =
     int (length (filter (\<lambda>k. k \<in> set (map lower (item_keywords it))
                               \<or> k \<in> set (tokenize_name (item_name it))) q))"

definition search_sort_key :: "int \<times> Item \<Rightarrow> int \<times> int \<times> real \<times> int \<times> int" where
  "search_sort_key pair =
     (case pair of (s, it) \<Rightarrow>
        (- s, - feedback_score it, sale_price it, category (item_id it), number (item_id it)))"

text \<open>
  \<open>to_public_dict\<close> copies every field of an item into the response; the model
  returns the items themselves. The result of \<open>search\<close> does not change the store.
\<close>

definition search :: "ProductDB \<Rightarrow> int \<Rightarrow> string list \<Rightarrow> error + Item list" where
  "search db cat kws =
     (let q = map lower (filter (\<lambda>k. strip k \<noteq> []) kws)
      in if length q > 5 then Inl TooManyKeywords
         else if list_ex (\<lambda>k. length k > 8) q then Inl KeywordLength
         else (let candidates =
                     filter (\<lambda>it. item_category it = cat \<and> quantity it > 0) (map snd (items db))
               in if q = [] then Inr (sort_key search_key candidates)
                  else (let scored = filter (\<lambda>p. fst p > 0)
                                       (map (\<lambda>it. (match_score q it, it)) candidates)
                        in Inr (map snd (sort_key search_sort_key scored)))))"

text \<open>The requests the product store serves, and a run of them from the empty store.\<close>

datatype product_op =
    RegisterItem int ItemAttrs real
  | ChangeItemPrice int ItemId real
  | UpdateUnitsRemove int ItemId int
  | ProvideFeedback ItemId string
  | Search int "string list"

fun product_step :: "ProductDB \<Rightarrow> product_op \<Rightarrow> ProductDB" where
  "product_step db (RegisterItem sid attrs now) = snd (register_item db sid attrs now)"
| "product_step db (ChangeItemPrice sid iid p) = snd (change_item_price db sid iid p)"
| "product_step db (UpdateUnitsRemove sid iid n) = snd (update_units_remove db sid iid n)"
| "product_step db (ProvideFeedback iid vote) = snd (provide_feedback db iid vote)"
| "product_step db (Search cat kws) = db"

definition product_run :: "product_op list \<Rightarrow> ProductDB" where
  "product_run ops = foldl product_step ProductDB_init ops"

section \<open>Single-process store (src/server/db/inmemory.py)\<close>

type_synonym cart = "(ItemId \<times> int) list"

record InMemoryDB =
  sellers_by_id :: "int \<rightharpoonup> Seller"
  sellers_by_name :: "string \<rightharpoonup> int list"
  buyers_by_id :: "int \<rightharpoonup> Buyer"
  buyers_by_name :: "string \<rightharpoonup> int list"
  next_seller_id :: int
  next_buyer_id :: int
  items_by_key :: "(ItemId \<times> Item) list"
  items_by_seller :: "int \<rightharpoonup> ItemId list"
  next_item_number_by_category :: "int \<rightharpoonup> int"
  transactions_by_id :: "string \<rightharpoonup> Transaction"
  transactions_by_buyer :: "int \<rightharpoonup> string list"
  saved_carts_by_buyer :: "int \<rightharpoonup> cart"

definition InMemoryDB_init :: InMemoryDB where
  "InMemoryDB_init =
     \<lparr>sellers_by_id = Map.empty, sellers_by_name = Map.empty,
      buyers_by_id = Map.empty, buyers_by_name = Map.empty,
      next_seller_id = 1, next_buyer_id = 1,
      items_by_key = [], items_by_seller = Map.empty,
      next_item_number_by_category = Map.empty,
      transactions_by_id = Map.empty, transactions_by_buyer = Map.empty,
      saved_carts_by_buyer = Map.empty\<rparr>"

text \<open>\<open>d.setdefault(k, []).append(v)\<close> on a dictionary of lists.\<close>

definition setdefault_append :: "('k \<rightharpoonup> 'v list) \<Rightarrow> 'k \<Rightarrow> 'v \<Rightarrow> ('k \<rightharpoonup> 'v list)" where
  "setdefault_append m k v = m(k \<mapsto> (case m k of None \<Rightarrow> [] | Some vs \<Rightarrow> vs) @ [v])"

definition add_seller :: "InMemoryDB \<Rightarrow> string \<Rightarrow> string \<Rightarrow> real \<Rightarrow> (error + Seller) \<times> InMemoryDB" where
  "add_seller d name password_hash now =
     (if length name > 32 then (Inl NameLength, d)
      else (let sid = next_seller_id d;
                s = \<lparr>s_id = sid, s_name = name, s_feedback = \<lparr>thumbs_up = 0, thumbs_down = 0\<rparr>,
                     items_sold = 0, s_password_hash = password_hash, s_created_at = now\<rparr>
            in (Inr s,
                d\<lparr>next_seller_id := sid + 1,
                  sellers_by_id := (sellers_by_id d)(sid \<mapsto> s),
                  sellers_by_name := setdefault_append (sellers_by_name d) name sid\<rparr>)))"

definition add_buyer :: "InMemoryDB \<Rightarrow> string \<Rightarrow> string \<Rightarrow> real \<Rightarrow> (error + Buyer) \<times> InMemoryDB" where
  "add_buyer d name password_hash now =
     (if length name > 32 then (Inl NameLength, d)
      else (let bid = next_buyer_id d;
                b = \<lparr>b_id = bid, b_name = name, items_purchased = 0,
                     b_password_hash = password_hash, b_created_at = now\<rparr>
            in (Inr b,
                d\<lparr>next_buyer_id := bid + 1,
                  buyers_by_id := (buyers_by_id d)(bid \<mapsto> b),
                  buyers_by_name := setdefault_append (buyers_by_name d) name bid\<rparr>)))"

definition get_seller :: "InMemoryDB \<Rightarrow> int \<Rightarrow> Seller option" where
  "get_seller d sid = sellers_by_id d sid"

definition get_buyer :: "InMemoryDB \<Rightarrow> int \<Rightarrow> Buyer option" where
  "get_buyer d bid = buyers_by_id d bid"

definition find_sellers_by_name :: "InMemoryDB \<Rightarrow> string \<Rightarrow> Seller list" where
  "find_sellers_by_name d name =
     List.map_filter (sellers_by_id d) (case sellers_by_name d name of None \<Rightarrow> [] | Some ids \<Rightarrow> ids)"

definition find_buyers_by_name :: "InMemoryDB \<Rightarrow> string \<Rightarrow> Buyer list" where
  "find_buyers_by_name d name =
     List.map_filter (buyers_by_id d) (case buyers_by_name d name of None \<Rightarrow> [] | Some ids \<Rightarrow> ids)"

definition inc_seller_items_sold :: "InMemoryDB \<Rightarrow> int \<Rightarrow> int \<Rightarrow> error + InMemoryDB" where
  "inc_seller_items_sold d sid delta =
     (case sellers_by_id d sid of
        None \<Rightarrow> Inl SellerNotFound
      | Some s \<Rightarrow> Inr (d\<lparr>sellers_by_id := (sellers_by_id d)(sid \<mapsto> s\<lparr>items_sold := items_sold s + delta\<rparr>)\<rparr>))"

definition inc_buyer_items_purchased :: "InMemoryDB \<Rightarrow> int \<Rightarrow> int \<Rightarrow> error + InMemoryDB" where
  "inc_buyer_items_purchased d bid delta =
     (case buyers_by_id d bid of
        None \<Rightarrow> Inl BuyerNotFound
      | Some b \<Rightarrow>
          Inr (d\<lparr>buyers_by_id := (buyers_by_id d)(bid \<mapsto> b\<lparr>items_purchased := items_purchased b + delta\<rparr>)\<rparr>))"

definition allocate_item_id :: "InMemoryDB \<Rightarrow> int \<Rightarrow> ItemId \<times> InMemoryDB" where
  "allocate_item_id d c =
     (let n = (case next_item_number_by_category d c of None \<Rightarrow> 1 | Some m \<Rightarrow> m)
      in (\<lparr>category = c, number = n\<rparr>,
          d\<lparr>next_item_number_by_category := (next_item_number_by_category d)(c \<mapsto> n + 1)\<rparr>))"

definition add_item :: "InMemoryDB \<Rightarrow> Item \<Rightarrow> error + InMemoryDB" where
  "add_item d item =
     (let k = item_id item
      in if map_of (items_by_key d) k \<noteq> None then Inl ItemIdExists
         else Inr (d\<lparr>items_by_key := AList.update k item (items_by_key d),
                     items_by_seller := setdefault_append (items_by_seller d) (seller_id item) k\<rparr>))"

definition list_items :: "InMemoryDB \<Rightarrow> Item list" where
  "list_items d = map snd (items_by_key d)"

definition get_item :: "InMemoryDB \<Rightarrow> ItemId \<Rightarrow> Item option" where
  "get_item d iid = map_of (items_by_key d) iid"

definition update_item_quantity :: "InMemoryDB \<Rightarrow> ItemId \<Rightarrow> int \<Rightarrow> error + InMemoryDB" where
  "update_item_quantity d iid new_qty =
     (case map_of (items_by_key d) iid of
        None \<Rightarrow> Inl ItemNotFound
      | Some it \<Rightarrow> Inr (d\<lparr>items_by_key := AList.update iid (it\<lparr>quantity := new_qty\<rparr>) (items_by_key d)\<rparr>))"

definition update_item_price :: "InMemoryDB \<Rightarrow> ItemId \<Rightarrow> real \<Rightarrow> error + InMemoryDB" where
  "update_item_price d iid new_price =
     (case map_of (items_by_key d) iid of
        None \<Rightarrow> Inl ItemNotFound
      | Some it \<Rightarrow> Inr (d\<lparr>items_by_key := AList.update iid (it\<lparr>sale_price := new_price\<rparr>) (items_by_key d)\<rparr>))"

definition add_item_feedback :: "InMemoryDB \<Rightarrow> ItemId \<Rightarrow> int \<Rightarrow> int \<Rightarrow> error + InMemoryDB" where
  "add_item_feedback d iid up down =
     (if up < 0 \<or> down < 0 then Inl BadVote
      else case map_of (items_by_key d) iid of
             None \<Rightarrow> Inl ItemNotFound
           | Some it \<Rightarrow>
               (let fb = item_feedback it;
                    fb' = fb\<lparr>thumbs_up := thumbs_up fb + up, thumbs_down := thumbs_down fb + down\<rparr>
                in Inr (d\<lparr>items_by_key := AList.update iid (it\<lparr>item_feedback := fb'\<rparr>) (items_by_key d)\<rparr>)))"

definition remove_units_for_sale :: "InMemoryDB \<Rightarrow> ItemId \<Rightarrow> int \<Rightarrow> (error + int) \<times> InMemoryDB" where
  "remove_units_for_sale d iid rq =
     (if rq < 0 then (Inl RemoveNegative, d)
      else case map_of (items_by_key d) iid of
             None \<Rightarrow> (Inl ItemNotFound, d)
           | Some it \<Rightarrow>
               if quantity it < rq then (Inl InsufficientUnits, d)
               else (Inr (quantity it - rq),
                     d\<lparr>items_by_key := AList.update iid (it\<lparr>quantity := quantity it - rq\<rparr>) (items_by_key d)\<rparr>))"

definition save_cart :: "InMemoryDB \<Rightarrow> int \<Rightarrow> cart \<Rightarrow> InMemoryDB" where
  "save_cart d bid c =
     (let clean = filter (\<lambda>kv. snd kv > 0) c
      in d\<lparr>saved_carts_by_buyer := (saved_carts_by_buyer d)(bid \<mapsto> clean)\<rparr>)"

definition load_saved_cart :: "InMemoryDB \<Rightarrow> int \<Rightarrow> cart" where
  "load_saved_cart d bid = (case saved_carts_by_buyer d bid of None \<Rightarrow> [] | Some c \<Rightarrow> c)"

definition add_transaction :: "InMemoryDB \<Rightarrow> Transaction \<Rightarrow> InMemoryDB" where
  "add_transaction d txn =
     d\<lparr>transactions_by_id := (transactions_by_id d)(txn_id txn \<mapsto> txn),
       transactions_by_buyer := setdefault_append (transactions_by_buyer d) (txn_buyer_id txn) (txn_id txn)\<rparr>"

definition list_transactions_for_buyer :: "InMemoryDB \<Rightarrow> int \<Rightarrow> Transaction list" where
  "list_transactions_for_buyer d bid =
     List.map_filter (transactions_by_id d)
       (case transactions_by_buyer d bid of None \<Rightarrow> [] | Some ids \<Rightarrow> ids)"

section \<open>Single-process state (src/server/state.py)\<close>

record Session =
  principal_id :: int
  role :: string
  session_created_at :: real

record MarketState =
  db :: InMemoryDB
  sessions :: "string \<rightharpoonup> Session"
  carts :: "int \<rightharpoonup> cart"

definition MarketState_init :: MarketState where
  "MarketState_init = \<lparr>db = InMemoryDB_init, sessions = Map.empty, carts = Map.empty\<rparr>"

text \<open>
  \<open>uuid.uuid4().hex\<close>, \<open>time.time()\<close> and \<open>new_id("txn")\<close> are inputs of the model:
  the functions that call them take the value they return as an argument.
\<close>

definition create_session :: "MarketState \<Rightarrow> string \<Rightarrow> int \<Rightarrow> string \<Rightarrow> real \<Rightarrow> MarketState" where
  "create_session st r pid token now =
     st\<lparr>sessions := (sessions st)(token \<mapsto> \<lparr>principal_id = pid, role = r, session_created_at = now\<rparr>)\<rparr>"

definition get_session :: "MarketState \<Rightarrow> string \<Rightarrow> Session option" where
  "get_session st token = (if token = [] then None else sessions st token)"

definition delete_session :: "MarketState \<Rightarrow> string \<Rightarrow> MarketState" where
  "delete_session st token = st\<lparr>sessions := (sessions st)(token := None)\<rparr>"

section \<open>Buyer handler (src/server/handlers/buyer.py)\<close>

text \<open>
  Each branch of \<open>handle\<close> is one function from the state and the request's fields to
  the response (\<open>Inl\<close> an error response) and the state the branch leaves behind; an
  exception caught by \<open>handle\<close> keeps the mutations made before it was raised. A
  password enters as \<open>hash_password(password)\<close>, the SHA-256 digest computed by the
  standard library.
\<close>

definition parse_keywords :: "string list \<Rightarrow> error + string list" where
  "parse_keywords v =
     (let kws = filter (\<lambda>x. x \<noteq> []) v
      in if length kws > 5 then Inl TooManyKeywords
         else if list_ex (\<lambda>k. length k > 8) kws then Inl KeywordLength
         else Inr kws)"

definition require_buyer_session :: "MarketState \<Rightarrow> string \<Rightarrow> (string \<times> int) option" where
  "require_buyer_session st token =
     (case get_session st token of
        None \<Rightarrow> None
      | Some sess \<Rightarrow> if role sess \<noteq> ''buyer'' then None else Some (token, principal_id sess))"

definition score_item_keywords :: "string list \<Rightarrow> string list \<Rightarrow> int" where
  "score_item_keywords item_kws query_kws =
     (if query_kws = [] then 0
      else int (length (filter (\<lambda>q. lower q \<in> set (map lower item_kws)) query_kws)))"

text \<open>The first loop of \<open>_do_purchase\<close>: the first error it raises, if any.\<close>

fun validate_cart :: "InMemoryDB \<Rightarrow> cart \<Rightarrow> error option" where
  "validate_cart d [] = None"
| "validate_cart d ((k, q) # rest) =
     (case get_item d k of
        None \<Rightarrow> Some ItemNotFound
      | Some it \<Rightarrow>
          if q \<le> 0 then Some CartInvalidQuantity
          else if quantity it < q then Some InsufficientInventory
          else validate_cart d rest)"

text \<open>
  The second loop: the running \<open>total\<close>, \<open>lines\<close> and \<open>total_units\<close>, and the store
  as updated so far (also when a call raises).
\<close>

fun apply_cart ::
  "InMemoryDB \<Rightarrow> cart \<Rightarrow> real \<Rightarrow> TransactionLine list \<Rightarrow> int
     \<Rightarrow> (error + (real \<times> TransactionLine list \<times> int)) \<times> InMemoryDB" where
  "apply_cart d [] tot lines units = (Inr (tot, lines, units), d)"
| "apply_cart d ((k, q) # rest) tot lines units =
     (case get_item d k of
        None \<Rightarrow> (Inl ItemNotFound, d)
      | Some it \<Rightarrow>
          (let tot' = tot + sale_price it * real_of_int q;
               units' = units + q;
               lines' = lines @ [\<lparr>line_item_id = k, line_seller_id = seller_id it,
                                  qty = q, price_each = sale_price it\<rparr>]
           in case update_item_quantity d k (quantity it - q) of
                Inl e \<Rightarrow> (Inl e, d)
              | Inr d1 \<Rightarrow>
                  (case inc_seller_items_sold d1 (seller_id it) q of
                     Inl e \<Rightarrow> (Inl e, d1)
                   | Inr d2 \<Rightarrow> apply_cart d2 rest tot' lines' units')))"

definition do_purchase ::
  "MarketState \<Rightarrow> int \<Rightarrow> string \<Rightarrow> real \<Rightarrow> (error + Transaction) \<times> MarketState" where
  "do_purchase st bid new_txn_id now =
     (case get_buyer (db st) bid of
        None \<Rightarrow> (Inl BuyerNotFound, st)
      | Some buyer \<Rightarrow>
          (let c = (case carts st bid of None \<Rightarrow> [] | Some c \<Rightarrow> c);
               st1 = st\<lparr>carts := (carts st)(bid \<mapsto> [])\<rparr>
           in if c = [] then (Inl CartEmpty, st1)
              else case validate_cart (db st1) c of
                     Some e \<Rightarrow> (Inl e, st1)
                   | None \<Rightarrow>
                       (case apply_cart (db st1) c 0 [] 0 of
                          (Inl e, d1) \<Rightarrow> (Inl e, st1\<lparr>db := d1\<rparr>)
                        | (Inr (tot, lines, units), d1) \<Rightarrow>
                            (case inc_buyer_items_purchased d1 bid units of
                               Inl e \<Rightarrow> (Inl e, st1\<lparr>db := d1\<rparr>)
                             | Inr d2 \<Rightarrow>
                                 (let txn = \<lparr>txn_id = new_txn_id, txn_buyer_id = bid,
                                              txn_items = lines, total = tot,
                                              txn_created_at = now\<rparr>
                                  in (Inr txn, st1\<lparr>db := add_transaction d2 txn\<rparr>))))))"

definition buyer_create_account ::
  "MarketState \<Rightarrow> string \<Rightarrow> string \<Rightarrow> real \<Rightarrow> (error + Buyer) \<times> MarketState" where
  "buyer_create_account st name pw_hash now =
     (if name = [] then (Inl NameRequired, st)
      else case add_buyer (db st) name pw_hash now of
             (Inl e, d) \<Rightarrow> (Inl e, st\<lparr>db := d\<rparr>)
           | (Inr b, d) \<Rightarrow> (Inr b, st\<lparr>db := d\<rparr>))"

text \<open>
  Login: \<open>bid\<close> is the request's \<open>buyer_id\<close> field (\<open>None\<close> when absent) and \<open>name\<close> is
  \<open>str(data.get("buyer_name") or data.get("username") or "")\<close>. The response carries
  the buyer and the session token.
\<close>

definition buyer_login_ok :: "MarketState \<Rightarrow> Buyer \<Rightarrow> string \<Rightarrow> real \<Rightarrow> MarketState" where
  "buyer_login_ok st b token now =
     (let st1 = create_session st ''buyer'' (b_id b) token now;
          saved = load_saved_cart (db st1) (b_id b)
      in st1\<lparr>carts := (carts st1)(b_id b \<mapsto> saved)\<rparr>)"

definition buyer_login ::
  "MarketState \<Rightarrow> int option \<Rightarrow> string \<Rightarrow> string \<Rightarrow> string \<Rightarrow> real
     \<Rightarrow> (error + (int \<times> string)) \<times> MarketState" where
  "buyer_login st bid name pw_hash token now =
     (case bid of
        Some buyer_id \<Rightarrow>
          (case get_buyer (db st) buyer_id of
             None \<Rightarrow> (Inl InvalidCredentials, st)
           | Some b \<Rightarrow>
               if b_password_hash b \<noteq> pw_hash then (Inl InvalidCredentials, st)
               else (Inr (b_id b, token), buyer_login_ok st (b\<lparr>b_id := buyer_id\<rparr>) token now))
      | None \<Rightarrow>
          if name = [] then (Inl NameRequired, st)
          else (case find_buyers_by_name (db st) name of
                  [] \<Rightarrow> (Inl InvalidCredentials, st)
                | [b] \<Rightarrow>
                    if b_password_hash b \<noteq> pw_hash then (Inl InvalidCredentials, st)
                    else (Inr (b_id b, token), buyer_login_ok st b token now)
                | _ \<Rightarrow> (Inl AmbiguousUsername, st)))"

definition buyer_logout :: "MarketState \<Rightarrow> string \<Rightarrow> MarketState" where
  "buyer_logout st token =
     (let st1 = (case get_session st token of
                   None \<Rightarrow> st
                 | Some sess \<Rightarrow>
                     if role sess = ''buyer''
                     then st\<lparr>carts := (carts st)(principal_id sess \<mapsto> [])\<rparr> else st)
      in if token \<noteq> [] then delete_session st1 token else st1)"

definition handler_sort_key :: "int \<times> real \<times> real \<times> Item \<Rightarrow> int \<times> real \<times> real" where
  "handler_sort_key x = (case x of (score, up, created, it) \<Rightarrow> (- score, - up, - created))"

text \<open>
  \<open>search_items_for_sale\<close>: the items in response order, each with the \<open>match_score\<close>
  the response adds to its public dictionary.
\<close>

definition buyer_search ::
  "MarketState \<Rightarrow> string \<Rightarrow> int \<Rightarrow> string list \<Rightarrow> error + (Item \<times> int) list" where
  "buyer_search st token cat kws_in =
     (case require_buyer_session st token of
        None \<Rightarrow> Inl NotLoggedIn
      | Some sess \<Rightarrow>
          (case parse_keywords kws_in of
             Inl e \<Rightarrow> Inl e
           | Inr kws \<Rightarrow>
               (let candidates = filter (\<lambda>it. item_category it = cat \<and> quantity it > 0)
                                   (list_items (db st));
                    scored = map (\<lambda>it. (score_item_keywords (item_keywords it) kws,
                                         real_of_int (thumbs_up (item_feedback it)),
                                         created_at it, it))
                               (filter (\<lambda>it. \<not> (kws \<noteq> []
                                                  \<and> score_item_keywords (item_keywords it) kws = 0))
                                  candidates)
                in Inr (map (\<lambda>x. case x of (score, up, created, it) \<Rightarrow> (it, score))
                          (sort_key handler_sort_key scored)))))"

definition buyer_add_item_to_cart ::
  "MarketState \<Rightarrow> string \<Rightarrow> ItemId \<Rightarrow> int \<Rightarrow> (error + (int \<times> cart)) \<times> MarketState" where
  "buyer_add_item_to_cart st token iid q =
     (case require_buyer_session st token of
        None \<Rightarrow> (Inl NotLoggedIn, st)
      | Some (tok, bid) \<Rightarrow>
          if q \<le> 0 then (Inl QuantityNotPositive, st)
          else (case get_item (db st) iid of
                  None \<Rightarrow> (Inl ItemNotFound, st)
                | Some it \<Rightarrow>
                    if quantity it \<le> 0 then (Inl ItemNotAvailable, st)
                    else (let c = (case carts st bid of None \<Rightarrow> [] | Some c \<Rightarrow> c);
                              already = (case map_of c iid of None \<Rightarrow> 0 | Some n \<Rightarrow> n)
                          in if already + q > quantity it
                             then (Inl InsufficientInventory, st\<lparr>carts := (carts st)(bid \<mapsto> c)\<rparr>)
                             else (let c' = AList.update iid (already + q) c
                                   in (Inr (bid, c'), st\<lparr>carts := (carts st)(bid \<mapsto> c')\<rparr>)))))"

definition buyer_remove_item_from_cart ::
  "MarketState \<Rightarrow> string \<Rightarrow> ItemId \<Rightarrow> int \<Rightarrow> (error + (int \<times> cart)) \<times> MarketState" where
  "buyer_remove_item_from_cart st token iid q =
     (case require_buyer_session st token of
        None \<Rightarrow> (Inl NotLoggedIn, st)
      | Some (tok, bid) \<Rightarrow>
          if q \<le> 0 then (Inl QuantityNotPositive, st)
          else (let c = (case carts st bid of None \<Rightarrow> [] | Some c \<Rightarrow> c);
                    st1 = st\<lparr>carts := (carts st)(bid \<mapsto> c)\<rparr>
                in case map_of c iid of
                     None \<Rightarrow> (Inl ItemNotInCart, st1)
                   | Some cur \<Rightarrow>
                       if q > cur then (Inl CannotRemoveMore, st1)
                       else (let c' = (if cur - q = 0 then AList.delete iid c
                                       else AList.update iid (cur - q) c)
                             in (Inr (bid, c'), st\<lparr>carts := (carts st)(bid \<mapsto> c')\<rparr>))))"

definition buyer_save_cart :: "MarketState \<Rightarrow> string \<Rightarrow> (error + cart) \<times> MarketState" where
  "buyer_save_cart st token =
     (case require_buyer_session st token of
        None \<Rightarrow> (Inl NotLoggedIn, st)
      | Some (tok, bid) \<Rightarrow>
          (let c = (case carts st bid of None \<Rightarrow> [] | Some c \<Rightarrow> c)
           in (Inr c, st\<lparr>db := save_cart (db st) bid c\<rparr>)))"

definition buyer_clear_cart :: "MarketState \<Rightarrow> string \<Rightarrow> (error + bool) \<times> MarketState" where
  "buyer_clear_cart st token =
     (case require_buyer_session st token of
        None \<Rightarrow> (Inl NotLoggedIn, st)
      | Some (tok, bid) \<Rightarrow> (Inr True, st\<lparr>carts := (carts st)(bid \<mapsto> [])\<rparr>))"

definition buyer_display_cart :: "MarketState \<Rightarrow> string \<Rightarrow> error + cart" where
  "buyer_display_cart st token =
     (case require_buyer_session st token of
        None \<Rightarrow> Inl NotLoggedIn
      | Some (tok, bid) \<Rightarrow> Inr (case carts st bid of None \<Rightarrow> [] | Some c \<Rightarrow> c))"

definition buyer_make_purchase ::
  "MarketState \<Rightarrow> string \<Rightarrow> string \<Rightarrow> real \<Rightarrow> (error + Transaction) \<times> MarketState" where
  "buyer_make_purchase st token new_txn_id now =
     (case require_buyer_session st token of
        None \<Rightarrow> (Inl NotLoggedIn, st)
      | Some (tok, bid) \<Rightarrow> do_purchase st bid new_txn_id now)"

text \<open>\<open>provide_feedback\<close>: \<open>up\<close> tells which of the two accepted votes the request holds.\<close>

definition buyer_provide_feedback ::
  "MarketState \<Rightarrow> string \<Rightarrow> ItemId \<Rightarrow> bool \<Rightarrow> (error + Feedback) \<times> MarketState" where
  "buyer_provide_feedback st token iid up =
     (case require_buyer_session st token of
        None \<Rightarrow> (Inl NotLoggedIn, st)
      | Some (tok, bid) \<Rightarrow>
          (case add_item_feedback (db st) iid (if up then 1 else 0) (if up then 0 else 1) of
             Inl e \<Rightarrow> (Inl e, st)
           | Inr d \<Rightarrow>
               (case get_item d iid of
                  None \<Rightarrow> (Inl ItemNotFound, st\<lparr>db := d\<rparr>)
                | Some it \<Rightarrow> (Inr (item_feedback it), st\<lparr>db := d\<rparr>))))"

section \<open>Seller handler (src/server/handlers/seller.py)\<close>

definition require_seller_session :: "MarketState \<Rightarrow> string \<Rightarrow> (string \<times> int) option" where
  "require_seller_session st token =
     (case get_session st token of
        None \<Rightarrow> None
      | Some sess \<Rightarrow> if role sess \<noteq> ''seller'' then None else Some (token, principal_id sess))"

definition seller_create_account ::
  "MarketState \<Rightarrow> string \<Rightarrow> string \<Rightarrow> real \<Rightarrow> (error + Seller) \<times> MarketState" where
  "seller_create_account st name pw_hash now =
     (if name = [] then (Inl NameRequired, st)
      else case add_seller (db st) name pw_hash now of
             (Inl e, d) \<Rightarrow> (Inl e, st\<lparr>db := d\<rparr>)
           | (Inr s, d) \<Rightarrow> (Inr s, st\<lparr>db := d\<rparr>))"

definition seller_login ::
  "MarketState \<Rightarrow> int option \<Rightarrow> string \<Rightarrow> string \<Rightarrow> string \<Rightarrow> real
     \<Rightarrow> (error + (int \<times> string)) \<times> MarketState" where
  "seller_login st sid name pw_hash token now =
     (case sid of
        Some seller_id' \<Rightarrow>
          (case get_seller (db st) seller_id' of
             None \<Rightarrow> (Inl InvalidCredentials, st)
           | Some s \<Rightarrow>
               if s_password_hash s \<noteq> pw_hash then (Inl InvalidCredentials, st)
               else (Inr (s_id s, token), create_session st ''seller'' seller_id' token now))
      | None \<Rightarrow>
          if name = [] then (Inl NameRequired, st)
          else (case find_sellers_by_name (db st) name of
                  [] \<Rightarrow> (Inl InvalidCredentials, st)
                | [s] \<Rightarrow>
                    if s_password_hash s \<noteq> pw_hash then (Inl InvalidCredentials, st)
                    else (Inr (s_id s, token), create_session st ''seller'' (s_id s) token now)
                | _ \<Rightarrow> (Inl AmbiguousUsername, st)))"

definition seller_logout :: "MarketState \<Rightarrow> string \<Rightarrow> MarketState" where
  "seller_logout st token = (if token \<noteq> [] then delete_session st token else st)"

definition seller_register_item_for_sale ::
  "MarketState \<Rightarrow> string \<Rightarrow> ItemAttrs \<Rightarrow> real \<Rightarrow> (error + ItemId) \<times> MarketState" where
  "seller_register_item_for_sale st token a now =
     (case require_seller_session st token of
        None \<Rightarrow> (Inl NotLoggedIn, st)
      | Some (tok, sid) \<Rightarrow>
          (case get_seller (db st) sid of
             None \<Rightarrow> (Inl SellerNotFound, st)
           | Some s \<Rightarrow>
               (let condition_raw = lower (strip (a_condition a))
                in if a_item_name a = [] then (Inl NameRequired, st)
                   else if length (a_item_name a) > 32 then (Inl ItemNameLength, st)
                   else if condition_raw \<noteq> ''new'' \<and> condition_raw \<noteq> ''used''
                        then (Inl BadCondition, st)
                   else if length (a_keywords a) > 5 then (Inl TooManyKeywords, st)
                   else if list_ex (\<lambda>kw. length kw > 8) (a_keywords a) then (Inl KeywordLength, st)
                   else if a_item_quantity a < 0 then (Inl QuantityNegative, st)
                   else if a_sale_price a < 0 then (Inl PriceNegative, st)
                   else (let (iid, d1) = allocate_item_id (db st) (a_item_category a);
                             item = \<lparr>item_id = iid, seller_id = sid, item_name = a_item_name a,
                                     item_category = a_item_category a,
                                     item_keywords = a_keywords a, condition = condition_raw,
                                     sale_price = a_sale_price a, quantity = a_item_quantity a,
                                     item_feedback = \<lparr>thumbs_up = 0, thumbs_down = 0\<rparr>,
                                     created_at = now\<rparr>
                         in case add_item d1 item of
                              Inl e \<Rightarrow> (Inl e, st\<lparr>db := d1\<rparr>)
                            | Inr d2 \<Rightarrow> (Inr iid, st\<lparr>db := d2\<rparr>)))))"

definition seller_change_item_price ::
  "MarketState \<Rightarrow> string \<Rightarrow> ItemId \<Rightarrow> real \<Rightarrow> (error + real) \<times> MarketState" where
  "seller_change_item_price st token iid new_price =
     (case require_seller_session st token of
        None \<Rightarrow> (Inl NotLoggedIn, st)
      | Some (tok, sid) \<Rightarrow>
          (case get_item (db st) iid of
             None \<Rightarrow> (Inl ItemNotFound, st)
           | Some it \<Rightarrow>
               if seller_id it \<noteq> sid then (Inl NotOwner, st)
               else if new_price < 0 then (Inl PriceNegative, st)
               else (case update_item_price (db st) iid new_price of
                       Inl e \<Rightarrow> (Inl e, st)
                     | Inr d \<Rightarrow> (Inr new_price, st\<lparr>db := d\<rparr>))))"

definition seller_update_units_for_sale ::
  "MarketState \<Rightarrow> string \<Rightarrow> ItemId \<Rightarrow> int \<Rightarrow> (error + int) \<times> MarketState" where
  "seller_update_units_for_sale st token iid remove_qty =
     (case require_seller_session st token of
        None \<Rightarrow> (Inl NotLoggedIn, st)
      | Some (tok, sid) \<Rightarrow>
          (case get_item (db st) iid of
             None \<Rightarrow> (Inl ItemNotFound, st)
           | Some it \<Rightarrow>
               if seller_id it \<noteq> sid then (Inl NotOwner, st)
               else (case remove_units_for_sale (db st) iid remove_qty of
                       (r, d) \<Rightarrow> (r, st\<lparr>db := d\<rparr>))))"

text \<open>
  The requests of the two handlers that change the state, each with the values the
  environment supplies for it (token, clock, transaction id), and a run of them from the
  empty state. The read-only requests (search, get item, display cart, ratings,
  purchase history) leave the state as it is.
\<close>

datatype market_op =
    BuyerCreateAccount string string real
  | BuyerLogin "int option" string string string real
  | BuyerLogout string
  | BuyerAddItemToCart string ItemId int
  | BuyerRemoveItemFromCart string ItemId int
  | BuyerSaveCart string
  | BuyerClearCart string
  | BuyerMakePurchase string string real
  | BuyerProvideFeedback string ItemId bool
  | SellerCreateAccount string string real
  | SellerLogin "int option" string string string real
  | SellerLogout string
  | SellerRegisterItemForSale string ItemAttrs real
  | SellerChangeItemPrice string ItemId real
  | SellerUpdateUnitsForSale string ItemId int

fun market_step :: "MarketState \<Rightarrow> market_op \<Rightarrow> MarketState" where
  "market_step st (BuyerCreateAccount name pw now) = snd (buyer_create_account st name pw now)"
| "market_step st (BuyerLogin bid name pw token now) = snd (buyer_login st bid name pw token now)"
| "market_step st (BuyerLogout token) = buyer_logout st token"
| "market_step st (BuyerAddItemToCart token iid q) = snd (buyer_add_item_to_cart st token iid q)"
| "market_step st (BuyerRemoveItemFromCart token iid q) =
     snd (buyer_remove_item_from_cart st token iid q)"
| "market_step st (BuyerSaveCart token) = snd (buyer_save_cart st token)"
| "market_step st (BuyerClearCart token) = snd (buyer_clear_cart st token)"
| "market_step st (BuyerMakePurchase token tid now) = snd (buyer_make_purchase st token tid now)"
| "market_step st (BuyerProvideFeedback token iid up) = snd (buyer_provide_feedback st token iid up)"
| "market_step st (SellerCreateAccount name pw now) = snd (seller_create_account st name pw now)"
| "market_step st (SellerLogin sid name pw token now) = snd (seller_login st sid name pw token now)"
| "market_step st (SellerLogout token) = seller_logout st token"
| "market_step st (SellerRegisterItemForSale token a now) =
     snd (seller_register_item_for_sale st token a now)"
| "market_step st (SellerChangeItemPrice token iid p) = snd (seller_change_item_price st token iid p)"
| "market_step st (SellerUpdateUnitsForSale token iid n) =
     snd (seller_update_units_for_sale st token iid n)"

definition market_run :: "market_op list \<Rightarrow> MarketState" where
  "market_run ops = foldl market_step MarketState_init ops"

section \<open>Customer store (src/backend/customer_db_server.py)\<close>

text \<open>
  The cart dictionaries of the customer store are mutated in place
  (\<open>cart[item_key] = ...\<close>, \<open>cart.pop(...)\<close>) and reached through two tables, so they
  live in an explicit store of dictionary objects: \<open>session_carts\<close> and \<open>saved_carts\<close>
  hold addresses, \<open>dict_heap\<close> maps an address to the dictionary's contents, and a new
  dictionary (\<open>{}\<close>, \<open>dict(d)\<close>) takes the next unused address. The customer store
  never parses an item key: it is the string the caller sent.
\<close>

type_synonym addr = nat

type_synonym key_cart = "(string \<times> int) list"

record CSession =
  c_role :: string
  user_id :: int
  c_created_at :: real
  last_activity :: real

record CustomerDB =
  timeout_seconds :: int
  c_next_seller_id :: int
  c_next_buyer_id :: int
  sellers :: "int \<rightharpoonup> Seller"
  buyers :: "int \<rightharpoonup> Buyer"
  seller_name_index :: "string \<rightharpoonup> int list"
  buyer_name_index :: "string \<rightharpoonup> int list"
  c_sessions :: "string \<rightharpoonup> CSession"
  session_carts :: "string \<rightharpoonup> addr"
  saved_carts :: "int \<rightharpoonup> addr"
  buyer_purchases :: "int \<rightharpoonup> string list"
  dict_heap :: "addr \<Rightarrow> key_cart"
  next_addr :: addr

definition CustomerDB_init :: "int \<Rightarrow> CustomerDB" where
  "CustomerDB_init timeout =
     \<lparr>timeout_seconds = max 1 timeout, c_next_seller_id = 1, c_next_buyer_id = 1,
      sellers = Map.empty, buyers = Map.empty,
      seller_name_index = Map.empty, buyer_name_index = Map.empty,
      c_sessions = Map.empty, session_carts = Map.empty, saved_carts = Map.empty,
      buyer_purchases = Map.empty, dict_heap = (\<lambda>a. []), next_addr = 0\<rparr>"

definition new_dict :: "CustomerDB \<Rightarrow> key_cart \<Rightarrow> addr \<times> CustomerDB" where
  "new_dict cdb content =
     (next_addr cdb,
      cdb\<lparr>dict_heap := (dict_heap cdb)(next_addr cdb := content),
          next_addr := Suc (next_addr cdb)\<rparr>)"

definition hash_pw :: "string \<Rightarrow> string" where
  "hash_pw pw = pw"

definition touch_or_expire ::
  "CustomerDB \<Rightarrow> string \<Rightarrow> real \<Rightarrow> CSession option \<times> CustomerDB" where
  "touch_or_expire cdb token now =
     (case c_sessions cdb token of
        None \<Rightarrow> (None, cdb)
      | Some s \<Rightarrow>
          if now - last_activity s \<ge> real_of_int (timeout_seconds cdb)
          then (None, cdb\<lparr>c_sessions := (c_sessions cdb)(token := None),
                          session_carts := (session_carts cdb)(token := None)\<rparr>)
          else (let s' = s\<lparr>last_activity := now\<rparr>
                in (Some s', cdb\<lparr>c_sessions := (c_sessions cdb)(token \<mapsto> s')\<rparr>)))"

definition create_account ::
  "CustomerDB \<Rightarrow> string \<Rightarrow> string \<Rightarrow> string \<Rightarrow> real \<Rightarrow> (error + int) \<times> CustomerDB" where
  "create_account cdb role_in name password now =
     (let r = strip (lower role_in)
      in if r \<noteq> ''buyer'' \<and> r \<noteq> ''seller'' then (Inl InvalidRole, cdb)
         else if length name = 0 \<or> length name > 32 then (Inl NameLength, cdb)
         else (let pw = hash_pw password
               in if r = ''seller''
                  then (let sid = c_next_seller_id cdb;
                            s = \<lparr>s_id = sid, s_name = name,
                                 s_feedback = \<lparr>thumbs_up = 0, thumbs_down = 0\<rparr>,
                                 items_sold = 0, s_password_hash = pw, s_created_at = now\<rparr>
                        in (Inr sid,
                            cdb\<lparr>c_next_seller_id := sid + 1,
                                sellers := (sellers cdb)(sid \<mapsto> s),
                                seller_name_index :=
                                  setdefault_append (seller_name_index cdb) name sid\<rparr>))
                  else (let bid = c_next_buyer_id cdb;
                            b = \<lparr>b_id = bid, b_name = name, items_purchased = 0,
                                 b_password_hash = pw, b_created_at = now\<rparr>
                        in (Inr bid,
                            cdb\<lparr>c_next_buyer_id := bid + 1,
                                buyers := (buyers cdb)(bid \<mapsto> b),
                                buyer_name_index :=
                                  setdefault_append (buyer_name_index cdb) name bid,
                                buyer_purchases :=
                                  (case buyer_purchases cdb bid of
                                     None \<Rightarrow> (buyer_purchases cdb)(bid \<mapsto> [])
                                   | Some h \<Rightarrow> buyer_purchases cdb)\<rparr>))))"

text \<open>
  A login's \<open>username\<close> is an \<open>int\<close> or a \<open>str\<close> of the request (any other JSON value
  goes through \<open>str(username)\<close> and is a \<open>UStr\<close>). \<open>str.isdigit\<close> holds of a non-empty
  string of digits, where the digits among the code points 0..255 are 0-9 and the
  superscripts 2, 3 and 1 (178, 179, 185); \<open>int()\<close> reads the decimal digits 0-9 and
  raises \<open>ValueError\<close> on a superscript.
\<close>

datatype username = UInt int | UStr string

definition isdigit_char :: "char \<Rightarrow> bool" where
  "isdigit_char c =
     (let n = (of_char c :: nat) in (48 \<le> n \<and> n \<le> 57) \<or> n = 178 \<or> n = 179 \<or> n = 185)"

definition isdigit :: "string \<Rightarrow> bool" where
  "isdigit s = (s \<noteq> [] \<and> list_all isdigit_char s)"

definition decimal_char :: "char \<Rightarrow> bool" where
  "decimal_char c = (let n = (of_char c :: nat) in 48 \<le> n \<and> n \<le> 57)"

definition int_of_digits :: "string \<Rightarrow> error + int" where
  "int_of_digits s =
     (if list_all decimal_char s
      then Inr (foldl (\<lambda>acc c. 10 * acc + (int (of_char c) - 48)) 0 s)
      else Inl InvalidIntLiteral)"

text \<open>
  \<open>[uid for uid in candidates if table[uid].password_hash == pw]\<close>, where \<open>stored\<close>
  gives the password hash of an account; a candidate without account raises \<open>KeyError\<close>.
\<close>

fun credential_matches :: "(int \<Rightarrow> string option) \<Rightarrow> string \<Rightarrow> int list \<Rightarrow> error + int list" where
  "credential_matches stored pw [] = Inr []"
| "credential_matches stored pw (uid # rest) =
     (case stored uid of
        None \<Rightarrow> Inl MissingAccount
      | Some h \<Rightarrow>
          (case credential_matches stored pw rest of
             Inl e \<Rightarrow> Inl e
           | Inr ms \<Rightarrow> Inr (if h = pw then uid # ms else ms)))"

definition stored_hash :: "CustomerDB \<Rightarrow> string \<Rightarrow> int \<Rightarrow> string option" where
  "stored_hash cdb r uid =
     (if r = ''seller'' then map_option s_password_hash (sellers cdb uid)
      else map_option b_password_hash (buyers cdb uid))"

definition name_index :: "CustomerDB \<Rightarrow> string \<Rightarrow> string \<Rightarrow> int list" where
  "name_index cdb r name =
     (case (if r = ''seller'' then seller_name_index cdb name else buyer_name_index cdb name) of
        None \<Rightarrow> []
      | Some ids \<Rightarrow> ids)"

definition is_numeric :: "username \<Rightarrow> bool" where
  "is_numeric u = (case u of UInt n \<Rightarrow> True | UStr s \<Rightarrow> isdigit s)"

definition resolve_user_id :: "CustomerDB \<Rightarrow> string \<Rightarrow> username \<Rightarrow> string \<Rightarrow> error + int option" where
  "resolve_user_id cdb r u pw =
     (if is_numeric u
      then (case (case u of UInt n \<Rightarrow> Inr n | UStr s \<Rightarrow> int_of_digits s) of
              Inl e \<Rightarrow> Inl e
            | Inr uid \<Rightarrow> Inr (if stored_hash cdb r uid = Some pw then Some uid else None))
      else (let name = (case u of UInt n \<Rightarrow> [] | UStr s \<Rightarrow> s)
            in case credential_matches (stored_hash cdb r) pw (name_index cdb r name) of
                 Inl e \<Rightarrow> Inl e
               | Inr matches \<Rightarrow>
                   if length matches = 1 then Inr (Some (hd matches))
                   else if length matches > 1 then Inl AmbiguousUsername
                   else Inr None))"

definition login ::
  "CustomerDB \<Rightarrow> string \<Rightarrow> username \<Rightarrow> string \<Rightarrow> string \<Rightarrow> real
     \<Rightarrow> (error + (int \<times> string)) \<times> CustomerDB" where
  "login cdb role_in u password token now =
     (let r = strip (lower role_in); pw = hash_pw password
      in if r = ''seller'' \<or> r = ''buyer''
         then (case resolve_user_id cdb r u pw of
                 Inl e \<Rightarrow> (Inl e, cdb)
               | Inr None \<Rightarrow> (Inl InvalidCredentials, cdb)
               | Inr (Some uid) \<Rightarrow>
                   (let cdb1 = cdb\<lparr>c_sessions := (c_sessions cdb)(token \<mapsto>
                                  \<lparr>c_role = r, user_id = uid, c_created_at = now,
                                   last_activity = now\<rparr>)\<rparr>;
                        content = (if r = ''seller'' then []
                                   else case saved_carts cdb1 uid of
                                          None \<Rightarrow> []
                                        | Some a \<Rightarrow> dict_heap cdb1 a);
                        (a', cdb2) = new_dict cdb1 content
                    in (Inr (uid, token),
                        cdb2\<lparr>session_carts := (session_carts cdb2)(token \<mapsto> a')\<rparr>)))
         else (Inl InvalidRole, cdb))"

definition logout :: "CustomerDB \<Rightarrow> string \<Rightarrow> CustomerDB" where
  "logout cdb token =
     cdb\<lparr>c_sessions := (c_sessions cdb)(token := None),
         session_carts := (session_carts cdb)(token := None)\<rparr>"

definition validate_session ::
  "CustomerDB \<Rightarrow> string \<Rightarrow> string \<Rightarrow> real \<Rightarrow> (error + int) \<times> CustomerDB" where
  "validate_session cdb role_in token now =
     (let r = strip (lower role_in)
      in case touch_or_expire cdb token now of
           (None, cdb1) \<Rightarrow> (Inl InvalidSession, cdb1)
         | (Some s, cdb1) \<Rightarrow>
             if c_role s \<noteq> r then (Inl RoleMismatch, cdb1) else (Inr (user_id s), cdb1))"

text \<open>\<open>_touch_or_expire\<close> followed by the test \<open>s is None or s.role != "buyer"\<close>.\<close>

definition buyer_session :: "CustomerDB \<Rightarrow> string \<Rightarrow> real \<Rightarrow> CSession option \<times> CustomerDB" where
  "buyer_session cdb token now =
     (case touch_or_expire cdb token now of
        (None, cdb1) \<Rightarrow> (None, cdb1)
      | (Some s, cdb1) \<Rightarrow> if c_role s \<noteq> ''buyer'' then (None, cdb1) else (Some s, cdb1))"

text \<open>\<open>self.session_carts.setdefault(token, {})\<close>: the address of the session's cart.\<close>

definition session_cart_setdefault :: "CustomerDB \<Rightarrow> string \<Rightarrow> addr \<times> CustomerDB" where
  "session_cart_setdefault cdb token =
     (case session_carts cdb token of
        Some a \<Rightarrow> (a, cdb)
      | None \<Rightarrow>
          (let (a, cdb1) = new_dict cdb []
           in (a, cdb1\<lparr>session_carts := (session_carts cdb1)(token \<mapsto> a)\<rparr>)))"

definition cart_get :: "CustomerDB \<Rightarrow> string \<Rightarrow> real \<Rightarrow> (error + key_cart) \<times> CustomerDB" where
  "cart_get cdb token now =
     (case buyer_session cdb token now of
        (None, cdb1) \<Rightarrow> (Inl InvalidBuyerSession, cdb1)
      | (Some s, cdb1) \<Rightarrow>
          (Inr (case session_carts cdb1 token of None \<Rightarrow> [] | Some a \<Rightarrow> dict_heap cdb1 a), cdb1))"

definition cart_add ::
  "CustomerDB \<Rightarrow> string \<Rightarrow> string \<Rightarrow> int \<Rightarrow> real \<Rightarrow> (error + key_cart) \<times> CustomerDB" where
  "cart_add cdb token item_key q now =
     (if q \<le> 0 then (Inl QuantityNotPositive, cdb)
      else case buyer_session cdb token now of
             (None, cdb1) \<Rightarrow> (Inl InvalidBuyerSession, cdb1)
           | (Some s, cdb1) \<Rightarrow>
               (let (a, cdb2) = session_cart_setdefault cdb1 token;
                    c = dict_heap cdb2 a;
                    c' = AList.update item_key ((case map_of c item_key of None \<Rightarrow> 0 | Some n \<Rightarrow> n) + q) c
                in (Inr c', cdb2\<lparr>dict_heap := (dict_heap cdb2)(a := c')\<rparr>)))"

definition cart_remove ::
  "CustomerDB \<Rightarrow> string \<Rightarrow> string \<Rightarrow> int \<Rightarrow> real \<Rightarrow> (error + key_cart) \<times> CustomerDB" where
  "cart_remove cdb token item_key q now =
     (if q \<le> 0 then (Inl QuantityNotPositive, cdb)
      else case buyer_session cdb token now of
             (None, cdb1) \<Rightarrow> (Inl InvalidBuyerSession, cdb1)
           | (Some s, cdb1) \<Rightarrow>
               (let (a, cdb2) = session_cart_setdefault cdb1 token;
                    c = dict_heap cdb2 a;
                    cur = (case map_of c item_key of None \<Rightarrow> 0 | Some n \<Rightarrow> n)
                in if cur \<le> 0 then (Inl ItemNotInCart, cdb2)
                   else if q > cur then (Inl CannotRemoveMore, cdb2)
                   else (let c' = (if cur - q = 0 then AList.delete item_key c
                                   else AList.update item_key (cur - q) c)
                         in (Inr c', cdb2\<lparr>dict_heap := (dict_heap cdb2)(a := c')\<rparr>))))"

definition cart_clear :: "CustomerDB \<Rightarrow> string \<Rightarrow> real \<Rightarrow> (error + bool) \<times> CustomerDB" where
  "cart_clear cdb token now =
     (case buyer_session cdb token now of
        (None, cdb1) \<Rightarrow> (Inl InvalidBuyerSession, cdb1)
      | (Some s, cdb1) \<Rightarrow>
          (let (a, cdb2) = new_dict cdb1 []
           in (Inr True, cdb2\<lparr>session_carts := (session_carts cdb2)(token \<mapsto> a)\<rparr>)))"

definition cart_save :: "CustomerDB \<Rightarrow> string \<Rightarrow> real \<Rightarrow> (error + key_cart) \<times> CustomerDB" where
  "cart_save cdb token now =
     (case buyer_session cdb token now of
        (None, cdb1) \<Rightarrow> (Inl InvalidBuyerSession, cdb1)
      | (Some s, cdb1) \<Rightarrow>
          (let c = (case session_carts cdb1 token of None \<Rightarrow> [] | Some a \<Rightarrow> dict_heap cdb1 a);
               (a', cdb2) = new_dict cdb1 c
           in (Inr c, cdb2\<lparr>saved_carts := (saved_carts cdb2)(user_id s \<mapsto> a')\<rparr>)))"

text \<open>
  The requests the customer store serves, with the token and the clock reading the
  environment supplies, and a run of them from the empty store. The two rating and
  history requests by session only touch the session.
\<close>

datatype customer_op =
    CreateAccount string string string real
  | Login string username string string real
  | Logout string
  | ValidateSession string string real
  | TouchSession string real
  | CartGet string real
  | CartAdd string string int real
  | CartRemove string string int real
  | CartClear string real
  | CartSave string real

fun customer_step :: "CustomerDB \<Rightarrow> customer_op \<Rightarrow> CustomerDB" where
  "customer_step cdb (CreateAccount r name pw now) = snd (create_account cdb r name pw now)"
| "customer_step cdb (Login r u pw token now) = snd (login cdb r u pw token now)"
| "customer_step cdb (Logout token) = logout cdb token"
| "customer_step cdb (ValidateSession r token now) = snd (validate_session cdb r token now)"
| "customer_step cdb (TouchSession token now) = snd (touch_or_expire cdb token now)"
| "customer_step cdb (CartGet token now) = snd (cart_get cdb token now)"
| "customer_step cdb (CartAdd token k q now) = snd (cart_add cdb token k q now)"
| "customer_step cdb (CartRemove token k q now) = snd (cart_remove cdb token k q now)"
| "customer_step cdb (CartClear token now) = snd (cart_clear cdb token now)"
| "customer_step cdb (CartSave token now) = snd (cart_save cdb token now)"

definition customer_run :: "int \<Rightarrow> customer_op list \<Rightarrow> CustomerDB" where
  "customer_run timeout ops = foldl customer_step (CustomerDB_init timeout) ops"

section \<open>The catalogue search in the words of the specification\<close>

text \<open>
  The candidate set of a search: the items of the category whose quantity is positive.
  \<open>ranked_no_keywords a b\<close> says that \<open>a\<close> may stand before \<open>b\<close> in the ranking
  without keywords: feedback score descending, then price ascending, then ItemId
  (category, number) ascending. \<open>handler_ranked\<close> is the order of the buyer handler:
  thumbs up descending, then creation time descending.
\<close>

definition available_in :: "int \<Rightarrow> Item list \<Rightarrow> Item list" where
  "available_in cat its = filter (\<lambda>it. item_category it = cat \<and> quantity it > 0) its"

definition itemid_le :: "ItemId \<Rightarrow> ItemId \<Rightarrow> bool" where
  "itemid_le a b = (category a < category b \<or> (category a = category b \<and> number a \<le> number b))"

definition ranked_no_keywords :: "Item \<Rightarrow> Item \<Rightarrow> bool" where
  "ranked_no_keywords a b =
     (feedback_score a > feedback_score b
      \<or> (feedback_score a = feedback_score b
          \<and> (sale_price a < sale_price b
              \<or> (sale_price a = sale_price b \<and> itemid_le (item_id a) (item_id b)))))"

definition handler_ranked :: "Item \<Rightarrow> Item \<Rightarrow> bool" where
  "handler_ranked a b =
     (thumbs_up (item_feedback a) > thumbs_up (item_feedback b)
      \<or> (thumbs_up (item_feedback a) = thumbs_up (item_feedback b) \<and> created_at a \<ge> created_at b))"

section \<open>Concrete inputs\<close>

text \<open>
  The message of tests/test_protocol.py,
  \<open>{"req_id":"1","role":"buyer","action":"ping","data":{}}\<close>, with the 55 bytes
  \<open>json.dumps\<close> gives for it.
\<close>

definition ping_msg :: json where
  "ping_msg = JObj [(''req_id'', JStr ''1''), (''role'', JStr ''buyer''),
                    (''action'', JStr ''ping''), (''data'', JObj [])]"

definition ping_payload :: "byte list" where
  "ping_payload =
     [0x7B, 0x22, 0x72, 0x65, 0x71, 0x5F, 0x69, 0x64, 0x22, 0x3A, 0x22, 0x31, 0x22, 0x2C,
      0x22, 0x72, 0x6F, 0x6C, 0x65, 0x22, 0x3A, 0x22, 0x62, 0x75, 0x79, 0x65, 0x72, 0x22, 0x2C,
      0x22, 0x61, 0x63, 0x74, 0x69, 0x6F, 0x6E, 0x22, 0x3A, 0x22, 0x70, 0x69, 0x6E, 0x67, 0x22, 0x2C,
      0x22, 0x64, 0x61, 0x74, 0x61, 0x22, 0x3A, 0x7B, 0x7D, 0x7D]"

text \<open>
  An object whose serialisation exceeds the default maximum of 4 MiB:
  \<open>{"data": "aa...a"}\<close> with 4194304 letters, and the 4194315 bytes \<open>json.dumps\<close>
  gives for it.
\<close>

definition big_msg :: json where
  "big_msg = JObj [(''data'', JStr (replicate 4194304 (CHR ''a'')))]"

definition big_payload :: "byte list" where
  "big_payload =
     [0x7B, 0x22, 0x64, 0x61, 0x74, 0x61, 0x22, 0x3A, 0x22] @ replicate 4194304 0x61 @ [0x22, 0x7D]"

text \<open>
  The ranking scenario: X (price 50), Y (price 10) and Z (price 5) in category 1, with
  feedback scores +3, +3 and +1. In the product store X is registered first; in the
  single-process state Y is registered before X, so X is the newer item.
\<close>

definition scenario_attrs :: "string \<Rightarrow> real \<Rightarrow> ItemAttrs" where
  "scenario_attrs n p =
     \<lparr>a_item_name = n, a_item_category = 1, a_condition = ''new'', a_sale_price = p,
      a_item_quantity = 4, a_keywords = []\<rparr>"

definition scenario_item :: "int \<Rightarrow> string \<Rightarrow> real \<Rightarrow> int \<Rightarrow> int \<Rightarrow> real \<Rightarrow> Item" where
  "scenario_item n name p up down t =
     \<lparr>item_id = \<lparr>category = 1, number = n\<rparr>, seller_id = 1, item_name = name,
      item_category = 1, item_keywords = [], condition = ''new'', sale_price = p,
      quantity = 4, item_feedback = \<lparr>thumbs_up = up, thumbs_down = down\<rparr>, created_at = t\<rparr>"

definition scenario_product_ops :: "product_op list" where
  "scenario_product_ops =
     [RegisterItem 1 (scenario_attrs ''X'' 50) 1, RegisterItem 1 (scenario_attrs ''Y'' 10) 2,
      RegisterItem 1 (scenario_attrs ''Z'' 5) 3,
      ProvideFeedback \<lparr>category = 1, number = 1\<rparr> ''up'',
      ProvideFeedback \<lparr>category = 1, number = 1\<rparr> ''up'',
      ProvideFeedback \<lparr>category = 1, number = 1\<rparr> ''up'',
      ProvideFeedback \<lparr>category = 1, number = 2\<rparr> ''up'',
      ProvideFeedback \<lparr>category = 1, number = 2\<rparr> ''up'',
      ProvideFeedback \<lparr>category = 1, number = 2\<rparr> ''up'',
      ProvideFeedback \<lparr>category = 1, number = 2\<rparr> ''up'',
      ProvideFeedback \<lparr>category = 1, number = 2\<rparr> ''down'',
      ProvideFeedback \<lparr>category = 1, number = 3\<rparr> ''up'']"

definition scenario_market_ops :: "market_op list" where
  "scenario_market_ops =
     [SellerCreateAccount ''sam'' ''5e88'' 0, SellerLogin (Some 1) [] ''5e88'' ''s1'' 0,
      SellerRegisterItemForSale ''s1'' (scenario_attrs ''Y'' 10) 1,
      SellerRegisterItemForSale ''s1'' (scenario_attrs ''X'' 50) 2,
      SellerRegisterItemForSale ''s1'' (scenario_attrs ''Z'' 5) 3,
      BuyerCreateAccount ''bea'' ''1f3a'' 4, BuyerLogin (Some 1) [] ''1f3a'' ''b1'' 5,
      BuyerProvideFeedback ''b1'' \<lparr>category = 1, number = 1\<rparr> True,
      BuyerProvideFeedback ''b1'' \<lparr>category = 1, number = 1\<rparr> True,
      BuyerProvideFeedback ''b1'' \<lparr>category = 1, number = 1\<rparr> True,
      BuyerProvideFeedback ''b1'' \<lparr>category = 1, number = 2\<rparr> True,
      BuyerProvideFeedback ''b1'' \<lparr>category = 1, number = 2\<rparr> True,
      BuyerProvideFeedback ''b1'' \<lparr>category = 1, number = 2\<rparr> True,
      BuyerProvideFeedback ''b1'' \<lparr>category = 1, number = 3\<rparr> True]"

text \<open>
  The ranking with keywords in the words of the specification. A query keyword matches
  an item when it case-insensitively equals one of the item's stored keywords or one of
  the lowercase tokens of the item's name; \<open>spec_match_score\<close> counts the matching
  query keywords, and \<open>ranked_with_keywords\<close> orders by that count descending, then as
  without keywords. \<open>nonblank\<close> keeps the keywords that are not whitespace only. The
  buyer handler's score counts matches against the stored keywords alone, and
  \<open>nonempty_strings\<close> keeps the keywords that are not the empty string.
\<close>

definition nonblank :: "string list \<Rightarrow> string list" where
  "nonblank kws = filter (\<lambda>k. strip k \<noteq> []) kws"

definition ci_equal :: "string \<Rightarrow> string \<Rightarrow> bool" where
  "ci_equal a b = (lower a = lower b)"

definition stored_keyword_matches :: "string \<Rightarrow> Item \<Rightarrow> bool" where
  "stored_keyword_matches k it = (\<exists>kw \<in> set (item_keywords it). ci_equal k kw)"

definition name_token_matches :: "string \<Rightarrow> Item \<Rightarrow> bool" where
  "name_token_matches k it = (\<exists>t \<in> set (tokenize_name (item_name it)). ci_equal k t)"

definition spec_match_score :: "string list \<Rightarrow> Item \<Rightarrow> int" where
  "spec_match_score kws it =
     int (length (filter (\<lambda>k. stored_keyword_matches k it \<or> name_token_matches k it) kws))"

definition handler_match_score :: "string list \<Rightarrow> Item \<Rightarrow> int" where
  "handler_match_score kws it = int (length (filter (\<lambda>k. stored_keyword_matches k it) kws))"

definition ranked_with_keywords :: "string list \<Rightarrow> Item \<Rightarrow> Item \<Rightarrow> bool" where
  "ranked_with_keywords kws a b =
     (spec_match_score kws a > spec_match_score kws b
      \<or> (spec_match_score kws a = spec_match_score kws b \<and> ranked_no_keywords a b))"

definition handler_ranked_with_keywords :: "string list \<Rightarrow> Item \<Rightarrow> Item \<Rightarrow> bool" where
  "handler_ranked_with_keywords kws a b =
     (handler_match_score kws a > handler_match_score kws b
      \<or> (handler_match_score kws a = handler_match_score kws b \<and> handler_ranked a b))"

definition nonempty_strings :: "string list \<Rightarrow> string list" where
  "nonempty_strings kws = filter (\<lambda>x. x \<noteq> []) kws"

text \<open>
  Three items of category 1 for the keyword search: "Red Lamp" (keywords light, home),
  "Desk LAMP-2" (keyword Office) and "Chair" (keyword office).
\<close>

definition lamp_attrs :: "string \<Rightarrow> string list \<Rightarrow> real \<Rightarrow> ItemAttrs" where
  "lamp_attrs n kws p =
     \<lparr>a_item_name = n, a_item_category = 1, a_condition = ''New '', a_sale_price = p,
      a_item_quantity = 2, a_keywords = kws\<rparr>"

definition lamp_item :: "int \<Rightarrow> string \<Rightarrow> string list \<Rightarrow> real \<Rightarrow> real \<Rightarrow> Item" where
  "lamp_item n name kws p t =
     \<lparr>item_id = \<lparr>category = 1, number = n\<rparr>, seller_id = 1, item_name = name,
      item_category = 1, item_keywords = kws, condition = ''new'', sale_price = p,
      quantity = 2, item_feedback = \<lparr>thumbs_up = 0, thumbs_down = 0\<rparr>, created_at = t\<rparr>"

definition lamp_product_ops :: "product_op list" where
  "lamp_product_ops =
     [RegisterItem 1 (lamp_attrs ''Red Lamp'' [''light'', ''home''] 20) 1,
      RegisterItem 1 (lamp_attrs ''Desk LAMP-2'' [''Office''] 35) 2,
      RegisterItem 1 (lamp_attrs ''Chair'' [''office''] 35) 3]"

definition lamp_market_ops :: "market_op list" where
  "lamp_market_ops =
     [SellerCreateAccount ''sam'' ''5e88'' 0, SellerLogin (Some 1) [] ''5e88'' ''s1'' 0,
      SellerRegisterItemForSale ''s1'' (lamp_attrs ''Red Lamp'' [''light'', ''home''] 20) 1,
      SellerRegisterItemForSale ''s1'' (lamp_attrs ''Desk LAMP-2'' [''Office''] 35) 2,
      SellerRegisterItemForSale ''s1'' (lamp_attrs ''Chair'' [''office''] 35) 3,
      BuyerCreateAccount ''bea'' ''1f3a'' 4, BuyerLogin (Some 1) [] ''1f3a'' ''b1'' 5]"

definition lamp_A :: Item where "lamp_A = lamp_item 1 ''Red Lamp'' [''light'', ''home''] 20 1"

definition lamp_B :: Item where "lamp_B = lamp_item 2 ''Desk LAMP-2'' [''Office''] 35 2"

definition lamp_C :: Item where "lamp_C = lamp_item 3 ''Chair'' [''office''] 35 3"



text \<open>
  Login in the words of the specification. \<open>stored_name\<close> is the name of an account;
  \<open>matching_accounts\<close> are the accounts of a role that have a given name and a given
  stored credential. \<open>accounts_ok\<close> is the invariant of the account tables: ids are
  below the next id, and the name index lists, once each, the ids of the accounts of
  that name.
\<close>

definition stored_name :: "CustomerDB \<Rightarrow> string \<Rightarrow> int \<Rightarrow> string option" where
  "stored_name cdb r uid =
     (if r = ''seller'' then map_option s_name (sellers cdb uid)
      else map_option b_name (buyers cdb uid))"

definition matching_accounts :: "CustomerDB \<Rightarrow> string \<Rightarrow> string \<Rightarrow> string \<Rightarrow> int set" where
  "matching_accounts cdb r name pw =
     {uid. stored_name cdb r uid = Some name \<and> stored_hash cdb r uid = Some pw}"

definition ids_of :: "int list option \<Rightarrow> int list" where
  "ids_of v = (case v of None \<Rightarrow> [] | Some ids \<Rightarrow> ids)"

definition index_ok :: "(int \<rightharpoonup> 'a) \<Rightarrow> ('a \<Rightarrow> string) \<Rightarrow> (string \<rightharpoonup> int list) \<Rightarrow> int \<Rightarrow> bool" where
  "index_ok tbl nm idx nxt =
     ((\<forall>uid. tbl uid \<noteq> None \<longrightarrow> uid < nxt)
      \<and> (\<forall>name. distinct (ids_of (idx name))
                 \<and> set (ids_of (idx name)) = {uid. \<exists>a. tbl uid = Some a \<and> nm a = name}))"

definition accounts_ok :: "CustomerDB \<Rightarrow> bool" where
  "accounts_ok cdb =
     (index_ok (sellers cdb) s_name (seller_name_index cdb) (c_next_seller_id cdb)
      \<and> index_ok (buyers cdb) b_name (buyer_name_index cdb) (c_next_buyer_id cdb))"

definition accounts_of ::
  "CustomerDB \<Rightarrow> (int \<rightharpoonup> Seller) \<times> (int \<rightharpoonup> Buyer) \<times> (string \<rightharpoonup> int list) \<times> (string \<rightharpoonup> int list) \<times> int \<times> int" where
  "accounts_of cdb =
     (sellers cdb, buyers cdb, seller_name_index cdb, buyer_name_index cdb,
      c_next_seller_id cdb, c_next_buyer_id cdb)"

text \<open>
  Accounts for the login claims: in the customer store three buyers named bob (ids 1,
  2, 3 with passwords pw1, pw2, pw1) and a seller named bob; in the single-process
  state two buyers named bob whose password hashes are h1 and h2.
\<close>

definition bob_customer_ops :: "customer_op list" where
  "bob_customer_ops =
     [CreateAccount ''buyer'' ''bob'' ''pw1'' 1, CreateAccount ''buyer'' ''bob'' ''pw2'' 2,
      CreateAccount ''buyer'' ''bob'' ''pw1'' 3, CreateAccount ''seller'' ''bob'' ''pw3'' 4]"

definition bob_market_ops :: "market_op list" where
  "bob_market_ops =
     [BuyerCreateAccount ''bob'' ''h1'' 1, BuyerCreateAccount ''bob'' ''h2'' 2]"

text \<open>
  Invariants of the customer store's carts. \<open>cart_pos\<close>: a cart is a dictionary
  (distinct keys) whose quantities are at least 1. \<open>no_alias\<close>: the addresses held by
  \<open>session_carts\<close> and \<open>saved_carts\<close> are allocated and pairwise different, so no
  dictionary object is shared. \<open>session_view\<close> is what a request can observe through a
  token (its session and the contents of its active cart); \<open>saved_view\<close> is the contents
  of a buyer's saved cart. \<open>others_same t\<close> relates two stores that differ at most in
  what token \<open>t\<close> observes.
\<close>

definition cart_pos :: "('k \<times> int) list \<Rightarrow> bool" where
  "cart_pos c = (distinct (map fst c) \<and> (\<forall>kv\<in>set c. snd kv \<ge> 1))"

definition heap_pos :: "CustomerDB \<Rightarrow> bool" where
  "heap_pos cdb = (\<forall>a. cart_pos (dict_heap cdb a))"

definition no_alias :: "CustomerDB \<Rightarrow> bool" where
  "no_alias cdb =
     ((\<forall>t a. session_carts cdb t = Some a \<longrightarrow> a < next_addr cdb)
      \<and> (\<forall>b a. saved_carts cdb b = Some a \<longrightarrow> a < next_addr cdb)
      \<and> (\<forall>t1 t2 a. session_carts cdb t1 = Some a \<and> session_carts cdb t2 = Some a \<longrightarrow> t1 = t2)
      \<and> (\<forall>b1 b2 a. saved_carts cdb b1 = Some a \<and> saved_carts cdb b2 = Some a \<longrightarrow> b1 = b2)
      \<and> (\<forall>t b a. session_carts cdb t = Some a \<longrightarrow> saved_carts cdb b \<noteq> Some a))"

definition session_view :: "CustomerDB \<Rightarrow> string \<Rightarrow> CSession option \<times> key_cart option" where
  "session_view cdb t = (c_sessions cdb t, map_option (dict_heap cdb) (session_carts cdb t))"

definition saved_view :: "CustomerDB \<Rightarrow> int \<Rightarrow> key_cart option" where
  "saved_view cdb b = map_option (dict_heap cdb) (saved_carts cdb b)"

definition others_same :: "string \<Rightarrow> CustomerDB \<Rightarrow> CustomerDB \<Rightarrow> bool" where
  "others_same t cdb cdb' =
     (timeout_seconds cdb' = timeout_seconds cdb
      \<and> (\<forall>t'. t' \<noteq> t \<longrightarrow> session_view cdb' t' = session_view cdb t')
      \<and> (\<forall>b. saved_view cdb' b = saved_view cdb b))"

definition customer_inv :: "CustomerDB \<Rightarrow> bool" where
  "customer_inv cdb = (no_alias cdb \<and> heap_pos cdb)"

text \<open>
  One buyer with two concurrent sessions. In the customer store the buyer logs in as
  t1, adds two units of item 1:1, saves the cart and logs in again as t2. In the
  single-process state the buyer logs in as b1 and as b2.
\<close>

definition two_sessions_ops :: "customer_op list" where
  "two_sessions_ops =
     [CreateAccount ''buyer'' ''alice'' ''pw1'' 10,
      Login ''buyer'' (UStr ''alice'') ''pw1'' ''t1'' 100,
      CartAdd ''t1'' ''1:1'' 2 110,
      CartSave ''t1'' 120,
      Login ''buyer'' (UInt 1) ''pw1'' ''t2'' 130]"

definition two_sessions_market_ops :: "market_op list" where
  "two_sessions_market_ops =
     [SellerCreateAccount ''sam'' ''5e88'' 0, SellerLogin (Some 1) [] ''5e88'' ''s1'' 0,
      SellerRegisterItemForSale ''s1'' (scenario_attrs ''X'' 50) 1,
      BuyerCreateAccount ''bea'' ''1f3a'' 4,
      BuyerLogin (Some 1) [] ''1f3a'' ''b1'' 5, BuyerLogin (Some 1) [] ''1f3a'' ''b2'' 6]"

text \<open>
  Invariants of the stock. \<open>db_inv\<close>: in the single-process store every item has a
  quantity of at least 0 and a seller that exists, the items form a dictionary, and every
  saved cart has quantities of at least 1. \<open>market_inv\<close> adds that every active cart has
  quantities of at least 1. \<open>product_inv\<close> is the same for the product store.
  \<open>validated d c\<close> says that every line of the cart \<open>c\<close> names an existing item with
  enough units; \<open>cart_of\<close> is the buyer's active cart (empty if there is none) and
  \<open>cleared\<close> the state after \<open>_do_purchase\<close> has emptied it.
\<close>

definition db_inv :: "InMemoryDB \<Rightarrow> bool" where
  "db_inv d =
     ((\<forall>kv\<in>set (items_by_key d). quantity (snd kv) \<ge> 0
                                   \<and> sellers_by_id d (seller_id (snd kv)) \<noteq> None)
      \<and> (\<forall>b c. saved_carts_by_buyer d b = Some c \<longrightarrow> cart_pos c))"

definition market_inv :: "MarketState \<Rightarrow> bool" where
  "market_inv st = (db_inv (db st) \<and> (\<forall>b c. carts st b = Some c \<longrightarrow> cart_pos c))"

definition validated :: "InMemoryDB \<Rightarrow> cart \<Rightarrow> bool" where
  "validated d c =
     (\<forall>kq\<in>set c. \<exists>it. get_item d (fst kq) = Some it \<and> snd kq > 0 \<and> quantity it \<ge> snd kq)"

definition cart_of :: "MarketState \<Rightarrow> int \<Rightarrow> cart" where
  "cart_of st bid = (case carts st bid of None \<Rightarrow> [] | Some c \<Rightarrow> c)"

definition cleared :: "MarketState \<Rightarrow> int \<Rightarrow> MarketState" where
  "cleared st bid = st\<lparr>carts := (carts st)(bid \<mapsto> [])\<rparr>"

definition product_inv :: "ProductDB \<Rightarrow> bool" where
  "product_inv pdb = (\<forall>kv\<in>set (items pdb). quantity (snd kv) \<ge> 0)"

text \<open>
  A seller registers four lamps. In \<open>stock_product_ops\<close> and \<open>stock_market_ops\<close> the
  stock is then brought to 0 by removals and a purchase, and a removal of one more unit
  follows; in \<open>short_market_ops\<close> a buyer holds three lamps in the cart while only two
  are left.
\<close>

definition stock_attrs :: "int \<Rightarrow> ItemAttrs" where
  "stock_attrs n =
     \<lparr>a_item_name = ''Lamp'', a_item_category = 1, a_condition = ''used'', a_sale_price = 20,
      a_item_quantity = n, a_keywords = [''light'']\<rparr>"

definition stock_id :: ItemId where
  "stock_id = \<lparr>category = 1, number = 1\<rparr>"

definition stock_product_ops :: "product_op list" where
  "stock_product_ops =
     [RegisterItem 1 (stock_attrs 4) 1, RegisterItem 1 (stock_attrs (- 1)) 2,
      UpdateUnitsRemove 1 stock_id 3, UpdateUnitsRemove 1 stock_id 2,
      UpdateUnitsRemove 1 stock_id 1]"

definition stock_market_ops :: "market_op list" where
  "stock_market_ops =
     [SellerCreateAccount ''sam'' ''5e88'' 0, SellerLogin (Some 1) [] ''5e88'' ''s1'' 0,
      SellerRegisterItemForSale ''s1'' (stock_attrs 4) 1,
      BuyerCreateAccount ''bea'' ''1f3a'' 2, BuyerLogin (Some 1) [] ''1f3a'' ''b1'' 3,
      BuyerAddItemToCart ''b1'' stock_id 3,
      BuyerMakePurchase ''b1'' ''txn_1'' 4,
      SellerUpdateUnitsForSale ''s1'' stock_id 2,
      SellerUpdateUnitsForSale ''s1'' stock_id 1]"

definition stock_item :: "int \<Rightarrow> Item" where
  "stock_item n =
     \<lparr>item_id = stock_id, seller_id = 1, item_name = ''Lamp'', item_category = 1,
      item_keywords = [''light''], condition = ''used'', sale_price = 20, quantity = n,
      item_feedback = \<lparr>thumbs_up = 0, thumbs_down = 0\<rparr>, created_at = 1\<rparr>"

definition short_market_ops :: "market_op list" where
  "short_market_ops =
     [SellerCreateAccount ''sam'' ''5e88'' 0, SellerLogin (Some 1) [] ''5e88'' ''s1'' 0,
      SellerRegisterItemForSale ''s1'' (stock_attrs 4) 1,
      BuyerCreateAccount ''bea'' ''1f3a'' 2, BuyerLogin (Some 1) [] ''1f3a'' ''b1'' 3,
      BuyerAddItemToCart ''b1'' stock_id 3,
      SellerUpdateUnitsForSale ''s1'' stock_id 2]"



definition saved_ops :: "customer_op list" where
  "saved_ops =
     [CreateAccount ''buyer'' ''alice'' ''pw1'' 10,
      Login ''buyer'' (UStr ''alice'') ''pw1'' ''t1'' 100,
      CartAdd ''t1'' ''A'' 2 110]"

definition saved_market_ops :: "market_op list" where
  "saved_market_ops =
     [SellerCreateAccount ''sam'' ''5e88'' 0, SellerLogin (Some 1) [] ''5e88'' ''s1'' 0,
      SellerRegisterItemForSale ''s1'' (stock_attrs 4) 1,
      BuyerCreateAccount ''bea'' ''1f3a'' 2, BuyerLogin (Some 1) [] ''1f3a'' ''b1'' 3,
      BuyerAddItemToCart ''b1'' stock_id 2]"

definition saved_session :: CSession where
  "saved_session = \<lparr>c_role = ''buyer'', user_id = 1, c_created_at = 100, last_activity = 110\<rparr>"

text \<open>
  One buyer with the two sessions b1 and b2 in the single-process server: three units of
  an item are added through b1, the cart is saved through b2, and one unit is removed
  through b1, so that the active cart holds two units and the saved cart three.
\<close>

definition shared_item :: ItemId where
  "shared_item = \<lparr>category = 1, number = 1\<rparr>"

definition shared_cart_ops :: "market_op list" where
  "shared_cart_ops =
     [SellerCreateAccount ''sam'' ''5e88'' 0, SellerLogin (Some 1) [] ''5e88'' ''s1'' 0,
      SellerRegisterItemForSale ''s1'' (scenario_attrs ''X'' 50) 1,
      BuyerCreateAccount ''bea'' ''1f3a'' 4,
      BuyerLogin (Some 1) [] ''1f3a'' ''b1'' 5, BuyerLogin (Some 1) [] ''1f3a'' ''b2'' 6,
      BuyerAddItemToCart ''b1'' shared_item 3, BuyerSaveCart ''b2'',
      BuyerRemoveItemFromCart ''b1'' shared_item 1]"

section \<open>Properties of the wire protocol\<close>

lemma be32_digits:
  fixes n :: nat
  assumes "n < 2 ^ 32"
  shows "(n div 2 ^ 24) mod 256 * 2 ^ 24 + (n div 2 ^ 16) mod 256 * 2 ^ 16
         + (n div 2 ^ 8) mod 256 * 2 ^ 8 + n mod 256 = n"
proof -
  define a where "a = n div 256"
  define b where "b = a div 256"
  define c where "c = b div 256"
  have n: "n = a * 256 + n mod 256" by (simp add: a_def)
  have a: "a = b * 256 + a mod 256" by (simp add: b_def)
  have b: "b = c * 256 + b mod 256" by (simp add: c_def)
  have c: "c < 256" using assms unfolding c_def b_def a_def by simp
  have d8: "n div 2 ^ 8 = a" by (simp add: a_def)
  have d16: "n div 2 ^ 16 = b" unfolding b_def a_def by (simp add: div_mult2_eq)
  have d24: "n div 2 ^ 24 = c" unfolding c_def b_def a_def by (simp add: div_mult2_eq)
  have "c mod 256 = c" using c by simp
  then show ?thesis unfolding d8 d16 d24 using n a b by simp
qed

lemma LEN_pack_length: "LEN_pack n = Inr bs \<Longrightarrow> length bs = 4"
  by (auto simp: LEN_pack_def split: if_splits)

lemma LEN_unpack_pack: "LEN_pack n = Inr bs \<Longrightarrow> LEN_unpack bs = n"
  using be32_digits[of n] by (auto simp: LEN_pack_def unat_of_nat split: if_splits)

lemma LEN_pack_ok: "n < 2 ^ 32 \<Longrightarrow> \<exists>bs. LEN_pack n = Inr bs"
  by (simp add: LEN_pack_def)

lemma LEN_pack_too_long: "2 ^ 32 \<le> n \<Longrightarrow> LEN_pack n = Inl StructError"
  by (simp add: LEN_pack_def)

lemma encode_message_frame:
  assumes range: "length (dumps x) < 2 ^ 32"
  shows "\<exists>header. encode_message dumps x = Inr (header @ dumps x)
           \<and> length header = 4
           \<and> LEN_unpack header = length (dumps x)
           \<and> read_exactly ((header @ dumps x) @ rest) LEN_size = Inr (header, dumps x @ rest)"
proof -
  obtain header where h: "LEN_pack (length (dumps x)) = Inr header"
    using LEN_pack_ok[OF range] by blast
  have len: "length header = 4" by (rule LEN_pack_length[OF h])
  have un: "LEN_unpack header = length (dumps x)" by (rule LEN_unpack_pack[OF h])
  have enc: "encode_message dumps x = Inr (header @ dumps x)"
    by (simp add: encode_message_def h)
  have r1: "read_exactly ((header @ dumps x) @ rest) LEN_size = Inr (header, dumps x @ rest)"
    by (simp add: read_exactly_def LEN_size_def len)
  from enc len un r1 show ?thesis by blast
qed

lemma round_trip_in_bounds:
  assumes codec: "loads (dumps x) = Some x"
    and obj: "is_dict x"
    and nonempty: "0 < length (dumps x)"
    and small: "length (dumps x) \<le> max_bytes"
    and range: "length (dumps x) < 2 ^ 32"
  shows "\<exists>header. encode_message dumps x = Inr (header @ dumps x)
           \<and> length header = 4
           \<and> LEN_unpack header = length (dumps x)
           \<and> read_message loads ((header @ dumps x) @ rest) max_bytes = Inr (x, rest)"
proof -
  from encode_message_frame[of dumps x rest] range obtain header where
    enc: "encode_message dumps x = Inr (header @ dumps x)" and len: "length header = 4"
    and un: "LEN_unpack header = length (dumps x)"
    and r1: "read_exactly ((header @ dumps x) @ rest) LEN_size = Inr (header, dumps x @ rest)"
    by blast
  have r2: "read_exactly (dumps x @ rest) (length (dumps x)) = Inr (dumps x, rest)"
    by (simp add: read_exactly_def)
  have "read_message loads ((header @ dumps x) @ rest) max_bytes = Inr (x, rest)"
    unfolding read_message_def r1 using nonempty small
    by (simp add: un r2 codec obj)
  with enc len un show ?thesis by blast
qed

lemma too_long_rejected:
  assumes big: "max_bytes < length (dumps x)" and range: "length (dumps x) < 2 ^ 32"
  shows "\<exists>header. encode_message dumps x = Inr (header @ dumps x)
           \<and> length header = 4
           \<and> LEN_unpack header = length (dumps x)
           \<and> read_message loads ((header @ dumps x) @ rest) max_bytes
               = Inl (InvalidPayloadLength (length (dumps x)))"
proof -
  from encode_message_frame[of dumps x rest] range obtain header where
    enc: "encode_message dumps x = Inr (header @ dumps x)" and len: "length header = 4"
    and un: "LEN_unpack header = length (dumps x)"
    and r1: "read_exactly ((header @ dumps x) @ rest) LEN_size = Inr (header, dumps x @ rest)"
    by blast
  have "read_message loads ((header @ dumps x) @ rest) max_bytes
          = Inl (InvalidPayloadLength (length (dumps x)))"
    unfolding read_message_def r1 using big by (simp add: un)
  with enc len un show ?thesis by blast
qed

lemma not_encodable: "2 ^ 32 \<le> length (dumps x) \<Longrightarrow> encode_message dumps x = Inl StructError"
  by (simp add: encode_message_def LEN_pack_too_long)

text \<open>
  C7 (as amended). For every object \<open>x\<close> that the JSON codec itself round-trips to a
  JSON object and whose serialisation has between 1 and \<open>max_bytes\<close> bytes (and fewer
  than 2^32, the range of the 4-byte big-endian unsigned prefix), \<open>encode_message\<close>
  returns the 4-byte prefix holding the payload length followed by the payload, and
  \<open>read_message\<close> on that frame (whatever follows it on the stream) returns \<open>x\<close> and
  leaves the following bytes unread. An object whose serialisation is longer than
  \<open>max_bytes\<close> and shorter than 2^32 bytes is encoded all the same, and \<open>read_message\<close>
  rejects its frame with an invalid payload length, whatever the decoder would return.
  From 2^32 bytes on \<open>encode_message\<close> itself fails, with \<open>struct.error\<close>.
\<close>

theorem read_message_encode_message:
  "(loads (dumps x) = Some x \<and> is_dict x \<and> 0 < length (dumps x)
      \<and> length (dumps x) \<le> max_bytes \<and> length (dumps x) < 2 ^ 32
     \<longrightarrow> (\<exists>header. encode_message dumps x = Inr (header @ dumps x)
           \<and> length header = 4
           \<and> LEN_unpack header = length (dumps x)
           \<and> read_message loads ((header @ dumps x) @ rest) max_bytes = Inr (x, rest)))
   \<and> (max_bytes < length (dumps x) \<and> length (dumps x) < 2 ^ 32
     \<longrightarrow> (\<exists>header. encode_message dumps x = Inr (header @ dumps x)
           \<and> length header = 4
           \<and> LEN_unpack header = length (dumps x)
           \<and> read_message loads ((header @ dumps x) @ rest) max_bytes
               = Inl (InvalidPayloadLength (length (dumps x)))))
   \<and> (2 ^ 32 \<le> length (dumps x) \<longrightarrow> encode_message dumps x = Inl StructError)"
  using round_trip_in_bounds[of loads dumps x max_bytes rest]
    too_long_rejected[of max_bytes dumps x loads rest] not_encodable[of dumps x]
  by blast

text \<open>
  Witness: the message of tests/test_protocol.py, read with the default maximum and with
  a maximum of 54 bytes, one less than its serialisation; and a serialisation of 2^32
  bytes.
\<close>

theorem read_message_encode_message_witness:
  "encode_message (\<lambda>_. ping_payload) ping_msg = Inr ([0, 0, 0, 55] @ ping_payload)
   \<and> read_message (\<lambda>p. if p = ping_payload then Some ping_msg else None)
        (([0, 0, 0, 55] @ ping_payload) @ []) default_max_bytes = Inr (ping_msg, [])
   \<and> read_message (\<lambda>p. if p = ping_payload then Some ping_msg else None)
        (([0, 0, 0, 55] @ ping_payload) @ []) 54 = Inl (InvalidPayloadLength 55)
   \<and> encode_message (\<lambda>_. replicate (2 ^ 32) 0) ping_msg = Inl StructError"
proof -
  let ?dumps = "\<lambda>_::json. ping_payload"
  let ?loads = "\<lambda>p. if p = ping_payload then Some ping_msg else None"
  have l: "length ping_payload = 55" by (simp add: ping_payload_def)
  have e: "encode_message ?dumps ping_msg = Inr ([0, 0, 0, 55] @ ping_payload)"
    by (simp add: encode_message_def LEN_pack_def l)
  have d: "is_dict ping_msg" by (simp add: ping_msg_def)
  have "\<exists>header. encode_message ?dumps ping_msg = Inr (header @ ?dumps ping_msg)
           \<and> length header = 4
           \<and> LEN_unpack header = length (?dumps ping_msg)
           \<and> read_message ?loads ((header @ ?dumps ping_msg) @ []) default_max_bytes
               = Inr (ping_msg, [])"
    using read_message_encode_message[of ?loads ?dumps ping_msg default_max_bytes "[]"] d
    by (simp add: l default_max_bytes_def)
  then obtain header where
    h: "encode_message ?dumps ping_msg = Inr (header @ ping_payload)"
    and r: "read_message ?loads ((header @ ping_payload) @ []) default_max_bytes
             = Inr (ping_msg, [])"
    by blast
  from h e have h1: "header = [0, 0, 0, 55]" by simp
  have "\<exists>header. encode_message ?dumps ping_msg = Inr (header @ ?dumps ping_msg)
           \<and> length header = 4
           \<and> LEN_unpack header = length (?dumps ping_msg)
           \<and> read_message ?loads ((header @ ?dumps ping_msg) @ []) 54
               = Inl (InvalidPayloadLength (length (?dumps ping_msg)))"
    using read_message_encode_message[of ?loads ?dumps ping_msg 54 "[]"]
    by (simp add: l)
  then obtain header' where
    h': "encode_message ?dumps ping_msg = Inr (header' @ ping_payload)"
    and r': "read_message ?loads ((header' @ ping_payload) @ []) 54 = Inl (InvalidPayloadLength 55)"
    using l by auto
  from h' e have h2: "header' = [0, 0, 0, 55]" by simp
  have s: "encode_message (\<lambda>_. replicate (2 ^ 32) 0) ping_msg = Inl StructError"
    using read_message_encode_message[of "\<lambda>p. None" "\<lambda>_. replicate (2 ^ 32) 0" ping_msg 0 "[]"]
    by simp
  from r e h1 r' h2 s show ?thesis by simp
qed

text \<open>
  C7 as stated fails: the object \<open>{"data": "aa...a"}\<close> with 4194304 letters is
  JSON-serialisable, its serialisation \<open>{"data":"aa...a"}\<close> has 4194315 bytes, and
  \<open>read_message\<close> rejects the frame \<open>encode_message\<close> builds for it, even with a
  decoder that would return the object, because the declared length exceeds the 4 MiB
  maximum.
\<close>

theorem read_message_encode_message_counterexample:
  "is_dict big_msg
   \<and> encode_message (\<lambda>_. big_payload) big_msg = Inr ([0, 64, 0, 11] @ big_payload)
   \<and> read_message (\<lambda>p. Some big_msg) ([0, 64, 0, 11] @ big_payload) default_max_bytes
         = Inl (InvalidPayloadLength 4194315)"
proof -
  have l: "length big_payload = 4194315" by (simp add: big_payload_def)
  have e: "encode_message (\<lambda>_. big_payload) big_msg = Inr ([0, 64, 0, 11] @ big_payload)"
    by (simp add: encode_message_def LEN_pack_def l)
  have r: "read_exactly ([0, 64, 0, 11] @ big_payload) LEN_size = Inr ([0, 64, 0, 11], big_payload)"
    by (simp add: read_exactly_def LEN_size_def l)
  have "read_message (\<lambda>p. Some big_msg) ([0, 64, 0, 11] @ big_payload) default_max_bytes
         = Inl (InvalidPayloadLength 4194315)"
    unfolding read_message_def r by (simp add: default_max_bytes_def)
  with e show ?thesis by (simp add: big_msg_def)
qed

section \<open>Catalogue search without keywords\<close>

lemma insort_key_map: "insort_key f (g x) (map g xs) = map g (insort_key (\<lambda>y. f (g y)) x xs)"
  by (induction xs) auto

lemma sort_key_map: "sort_key f (map g xs) = map g (sort_key (\<lambda>y. f (g y)) xs)"
  by (induction xs) (auto simp: insort_key_map)

lemma search_key_le: "search_key a \<le> search_key b \<longleftrightarrow> ranked_no_keywords a b"
  by (auto simp: search_key_def ranked_no_keywords_def itemid_le_def less_eq_prod_def)

lemma search_no_kw: "search pdb cat [] = Inr (sort_key search_key (available_in cat (map snd (items pdb))))"
  by (simp add: search_def available_in_def)

lemma sorted_wrt_sort_key_search: "sorted_wrt ranked_no_keywords (sort_key search_key xs)"
  using sorted_sort_key[of search_key xs] by (simp add: sorted_map search_key_le)

lemma filter_one_of_mset:
  assumes "mset xs = M" and "filter_mset P M = {#k#}"
  shows "filter P xs = [k]"
proof -
  have "mset (filter P xs) = {#k#}" using assms by simp
  then show ?thesis by (simp only: mset_single_iff)
qed

lemma search_scenario:
  assumes m: "mset (available_in cat (map snd (items pdb))) = {#X, Y, Z#}"
    and X: "sale_price X = 50" "feedback_score X = 3"
    and Y: "sale_price Y = 10" "feedback_score Y = 3"
    and Z: "sale_price Z = 5" "feedback_score Z = 1"
  shows "search pdb cat [] = Inr [Y, X, Z]"
proof -
  let ?xs = "available_in cat (map snd (items pdb))"
  have kYX: "search_key Y < search_key X" and kXZ: "search_key X < search_key Z"
    and kYZ: "search_key Y < search_key Z"
    using X Y Z by (simp_all add: search_key_def)
  have ne: "search_key Y \<noteq> search_key X" "search_key X \<noteq> search_key Z" "search_key Y \<noteq> search_key Z"
    using kYX kXZ kYZ by auto
  have "sort_key search_key ?xs = [Y, X, Z]"
  proof (rule properties_for_sort_key)
    show "mset [Y, X, Z] = mset ?xs" using m by (simp add: add_mset_commute)
    show "sorted (map search_key [Y, X, Z])" using kYX kXZ kYZ by (simp add: less_imp_le)
    fix k assume "k \<in> set [Y, X, Z]"
    then consider "k = Y" | "k = X" | "k = Z" by auto
    then show "filter (\<lambda>x. search_key k = search_key x) [Y, X, Z]
             = filter (\<lambda>x. search_key k = search_key x) ?xs"
    proof cases
      case 1
      have "filter (\<lambda>x. search_key Y = search_key x) ?xs = [Y]"
        by (rule filter_one_of_mset[OF m]) (use ne in auto)
      then show ?thesis using 1 ne by auto
    next
      case 2
      have "filter (\<lambda>x. search_key X = search_key x) ?xs = [X]"
        by (rule filter_one_of_mset[OF m]) (use ne in auto)
      then show ?thesis using 2 ne by auto
    next
      case 3
      have "filter (\<lambda>x. search_key Z = search_key x) ?xs = [Z]"
        by (rule filter_one_of_mset[OF m]) (use ne in auto)
      then show ?thesis using 3 ne by auto
    qed
  qed
  then show ?thesis by (simp add: search_no_kw)
qed

lemma handler_sort_key_le:
  "handler_sort_key (0, real_of_int (thumbs_up (item_feedback a)), created_at a, a)
     \<le> handler_sort_key (0, real_of_int (thumbs_up (item_feedback b)), created_at b, b)
   \<longleftrightarrow> handler_ranked a b"
  by (auto simp: handler_sort_key_def handler_ranked_def less_eq_prod_def)

lemma buyer_search_no_kw:
  assumes "require_buyer_session st token \<noteq> None"
  shows "buyer_search st token cat [] =
           Inr (map (\<lambda>it. (it, 0))
                  (sort_key (\<lambda>it. handler_sort_key (0, real_of_int (thumbs_up (item_feedback it)), created_at it, it))
                     (available_in cat (list_items (db st)))))"
  using assms
  by (auto simp: buyer_search_def parse_keywords_def score_item_keywords_def available_in_def
        sort_key_map)

lemma buyer_search_sorted:
  "sorted_wrt handler_ranked
     (sort_key (\<lambda>it. handler_sort_key (0, real_of_int (thumbs_up (item_feedback it)), created_at it, it)) xs)"
  using sorted_sort_key[of "\<lambda>it. handler_sort_key (0, real_of_int (thumbs_up (item_feedback it)), created_at it, it)" xs]
  by (simp add: sorted_map handler_sort_key_le)

text \<open>
  C1 (as amended). For every search of the product store (\<open>ProductDB.search\<close>) with a
  category and no keywords, the result is exactly the items of that category whose
  quantity is positive, sorted by feedback score descending, then sale price ascending,
  then ItemId (category, number) ascending; in particular, when the category holds
  X (price 50, score +3), Y (price 10, score +3) and Z (price 5, score +1), the result
  is Y, X, Z. The buyer handler of the single-process server
  (\<open>search_items_for_sale\<close>) returns the same items, each with match score 0, ordered
  instead by thumbs up descending, then creation time descending.
\<close>

theorem search_no_keywords_ranking:
  "(\<exists>r. search pdb cat [] = Inr r
        \<and> mset r = mset (available_in cat (map snd (items pdb)))
        \<and> sorted_wrt ranked_no_keywords r)
   \<and> (mset (available_in cat (map snd (items pdb))) = {#X, Y, Z#}
        \<and> sale_price X = 50 \<and> feedback_score X = 3
        \<and> sale_price Y = 10 \<and> feedback_score Y = 3
        \<and> sale_price Z = 5 \<and> feedback_score Z = 1
       \<longrightarrow> search pdb cat [] = Inr [Y, X, Z])
   \<and> (require_buyer_session st token \<noteq> None
       \<longrightarrow> (\<exists>r. buyer_search st token cat [] = Inr (map (\<lambda>it. (it, 0)) r)
                \<and> mset r = mset (available_in cat (list_items (db st)))
                \<and> sorted_wrt handler_ranked r))"
proof (intro conjI impI)
  show "\<exists>r. search pdb cat [] = Inr r
        \<and> mset r = mset (available_in cat (map snd (items pdb)))
        \<and> sorted_wrt ranked_no_keywords r"
    by (simp add: search_no_kw sorted_wrt_sort_key_search)
next
  assume "mset (available_in cat (map snd (items pdb))) = {#X, Y, Z#}
        \<and> sale_price X = 50 \<and> feedback_score X = 3
        \<and> sale_price Y = 10 \<and> feedback_score Y = 3
        \<and> sale_price Z = 5 \<and> feedback_score Z = 1"
  then show "search pdb cat [] = Inr [Y, X, Z]"
    by (intro search_scenario) simp_all
next
  assume "require_buyer_session st token \<noteq> None"
  then show "\<exists>r. buyer_search st token cat [] = Inr (map (\<lambda>it. (it, 0)) r)
                \<and> mset r = mset (available_in cat (list_items (db st)))
                \<and> sorted_wrt handler_ranked r"
    using buyer_search_sorted[of "available_in cat (list_items (db st))"]
    by (intro exI[of _ "sort_key (\<lambda>it. handler_sort_key (0, real_of_int (thumbs_up (item_feedback it)), created_at it, it))
                     (available_in cat (list_items (db st)))"])
       (simp add: buyer_search_no_kw)
qed

lemma scenario_product_items:
  "available_in 1 (map snd (items (product_run scenario_product_ops)))
     = [scenario_item 1 ''X'' 50 3 0 1, scenario_item 2 ''Y'' 10 4 1 2, scenario_item 3 ''Z'' 5 1 0 3]"
  by code_simp

lemma scenario_market_items:
  "available_in 1 (list_items (db (market_run scenario_market_ops)))
     = [scenario_item 1 ''Y'' 10 3 0 1, scenario_item 2 ''X'' 50 3 0 2, scenario_item 3 ''Z'' 5 1 0 3]"
  by code_simp

lemma scenario_market_session:
  "require_buyer_session (market_run scenario_market_ops) ''b1'' = Some (''b1'', 1)"
  by code_simp

theorem search_no_keywords_ranking_witness:
  "search (product_run scenario_product_ops) 1 []
     = Inr [scenario_item 2 ''Y'' 10 4 1 2, scenario_item 1 ''X'' 50 3 0 1, scenario_item 3 ''Z'' 5 1 0 3]
   \<and> (\<exists>r. buyer_search (market_run scenario_market_ops) ''b1'' 1 [] = Inr (map (\<lambda>it. (it, 0)) r)
          \<and> mset r = mset [scenario_item 1 ''Y'' 10 3 0 1, scenario_item 2 ''X'' 50 3 0 2,
                            scenario_item 3 ''Z'' 5 1 0 3]
          \<and> sorted_wrt handler_ranked r)"
  using search_no_keywords_ranking[of "product_run scenario_product_ops" 1
      "scenario_item 1 ''X'' 50 3 0 1" "scenario_item 2 ''Y'' 10 4 1 2" "scenario_item 3 ''Z'' 5 1 0 3"
      "market_run scenario_market_ops" "''b1''"]
  unfolding scenario_product_items scenario_market_items scenario_market_session
  by (simp add: scenario_item_def feedback_score_def)

text \<open>
  C1 as stated fails in the buyer handler: with Y registered before X, both with three
  thumbs up, the handler answers X, Y, Z (the newer item first), not Y, X, Z.
\<close>

theorem search_no_keywords_ranking_counterexample:
  "available_in 1 (list_items (db (market_run scenario_market_ops)))
     = [scenario_item 1 ''Y'' 10 3 0 1, scenario_item 2 ''X'' 50 3 0 2, scenario_item 3 ''Z'' 5 1 0 3]
   \<and> feedback_score (scenario_item 2 ''X'' 50 3 0 2) = 3
   \<and> feedback_score (scenario_item 1 ''Y'' 10 3 0 1) = 3
   \<and> feedback_score (scenario_item 3 ''Z'' 5 1 0 3) = 1
   \<and> buyer_search (market_run scenario_market_ops) ''b1'' 1 []
       = Inr [(scenario_item 2 ''X'' 50 3 0 2, 0), (scenario_item 1 ''Y'' 10 3 0 1, 0),
              (scenario_item 3 ''Z'' 5 1 0 3, 0)]"
  by code_simp

section \<open>Catalogue search with keywords\<close>

lemma lower_char_az09: "is_az09 c \<Longrightarrow> lower_char c = c"
  by (auto simp: is_az09_def lower_char_def Let_def)

lemma split_runs_az09:
  "t \<in> set (split_runs cur s) \<Longrightarrow> list_all is_az09 cur \<Longrightarrow> list_all is_az09 t"
  by (induction cur s rule: split_runs.induct) (auto split: if_splits)

lemma tokenize_name_lower: "t \<in> set (tokenize_name n) \<Longrightarrow> lower t = t"
proof -
  assume "t \<in> set (tokenize_name n)"
  then have "list_all is_az09 t"
    unfolding tokenize_name_def by (rule split_runs_az09) simp
  then show "lower t = t"
    unfolding lower_def by (induction t) (auto simp: lower_char_az09)
qed

lemma length_lower: "length (lower k) = length k"
  by (simp add: lower_def)

lemma match_score_spec: "match_score (map lower ks) it = spec_match_score ks it"
proof -
  have "(lower k \<in> set (map lower (item_keywords it)) \<or> lower k \<in> set (tokenize_name (item_name it)))
        \<longleftrightarrow> (stored_keyword_matches k it \<or> name_token_matches k it)" for k
    unfolding stored_keyword_matches_def name_token_matches_def ci_equal_def
    using tokenize_name_lower by (auto simp: image_iff)
  then show ?thesis
    by (simp add: match_score_def spec_match_score_def filter_map comp_def)
qed

lemma score_item_keywords_spec:
  "ks \<noteq> [] \<Longrightarrow> score_item_keywords (item_keywords it) ks = handler_match_score ks it"
  by (auto simp: score_item_keywords_def handler_match_score_def stored_keyword_matches_def
        ci_equal_def image_iff intro!: arg_cong[where f=length] filter_cong)

lemma map_snd_sort_key_pairs:
  "map snd (sort_key k (filter (\<lambda>p. fst p > 0) (map (\<lambda>it. (f it, it)) xs)))
     = sort_key (\<lambda>it. k (f it, it)) (filter (\<lambda>it. f it > (0::int)) xs)"
  by (simp add: filter_map comp_def sort_key_map)

lemma search_sort_key_le:
  "search_sort_key (spec_match_score ks a, a) \<le> search_sort_key (spec_match_score ks b, b)
     \<longleftrightarrow> ranked_with_keywords ks a b"
  by (auto simp: search_sort_key_def ranked_with_keywords_def ranked_no_keywords_def
        itemid_le_def less_eq_prod_def)

lemma search_kw:
  assumes "nonblank kws \<noteq> []" "length (nonblank kws) \<le> 5" "\<forall>k\<in>set (nonblank kws). length k \<le> 8"
  shows "search pdb cat kws =
           Inr (sort_key (\<lambda>it. search_sort_key (spec_match_score (nonblank kws) it, it))
                  (filter (\<lambda>it. spec_match_score (nonblank kws) it > 0)
                     (available_in cat (map snd (items pdb)))))"
proof -
  have "\<not> list_ex (\<lambda>k. length k > 8) (map lower (nonblank kws))"
    using assms(3) by (auto simp: list_ex_iff length_lower)
  then show ?thesis
    using assms(1,2)
    by (simp add: search_def nonblank_def[symmetric] Let_def map_snd_sort_key_pairs
          match_score_spec available_in_def[symmetric])
qed

lemma search_all_blank: "nonblank kws = [] \<Longrightarrow> search pdb cat kws = search pdb cat []"
  by (simp add: search_def nonblank_def)

lemma handler_sort_key_kw_le:
  "handler_sort_key (handler_match_score ks a, real_of_int (thumbs_up (item_feedback a)), created_at a, a)
     \<le> handler_sort_key (handler_match_score ks b, real_of_int (thumbs_up (item_feedback b)), created_at b, b)
   \<longleftrightarrow> handler_ranked_with_keywords ks a b"
  by (auto simp: handler_sort_key_def handler_ranked_with_keywords_def handler_ranked_def
        less_eq_prod_def)

lemma handler_match_score_nonneg: "handler_match_score ks it \<noteq> 0 \<longleftrightarrow> handler_match_score ks it > 0"
  by (simp add: handler_match_score_def)

lemma buyer_search_kw:
  assumes "require_buyer_session st token \<noteq> None"
    and "nonempty_strings kws \<noteq> []" "length (nonempty_strings kws) \<le> 5"
    and "\<forall>k\<in>set (nonempty_strings kws). length k \<le> 8"
  shows "buyer_search st token cat kws =
           Inr (map (\<lambda>it. (it, handler_match_score (nonempty_strings kws) it))
                  (sort_key (\<lambda>it. handler_sort_key (handler_match_score (nonempty_strings kws) it,
                                       real_of_int (thumbs_up (item_feedback it)), created_at it, it))
                     (filter (\<lambda>it. handler_match_score (nonempty_strings kws) it > 0)
                        (available_in cat (list_items (db st))))))"
proof -
  let ?ks = "nonempty_strings kws"
  have p: "parse_keywords kws = Inr ?ks"
    using assms(3,4) by (auto simp: parse_keywords_def nonempty_strings_def Let_def list_ex_iff)
  show ?thesis
    using assms(1,2)
    by (auto simp: buyer_search_def p score_item_keywords_spec handler_match_score_nonneg
          sort_key_map available_in_def)
qed

text \<open>
  C2 (as amended). \<open>ProductDB.search\<close> drops the whitespace-only keywords first. For
  every search of the product store with a category and a keyword list that holds at
  least one non-blank keyword (at most 5 of them, each of at most 8 characters), each
  candidate's match score is the count of non-blank query keywords that
  case-insensitively equal one of the item's stored keywords or one of the lowercase
  tokens of the item's name split on non-alphanumeric characters; the result is exactly
  the candidates with a positive match score, sorted by match score descending, then
  feedback score descending, then price ascending, then ItemId ascending. When every
  keyword is blank the search is the search without keywords. The buyer handler of the
  single-process server drops only empty keywords, counts matches against the stored
  keywords alone, returns the candidates with a positive count and orders them by that
  count descending, then thumbs up descending, then creation time descending.
\<close>

theorem search_with_keywords_ranking:
  "(nonblank kws \<noteq> [] \<and> length (nonblank kws) \<le> 5 \<and> (\<forall>k\<in>set (nonblank kws). length k \<le> 8)
      \<longrightarrow> (\<exists>r. search pdb cat kws = Inr r
             \<and> mset r = mset (filter (\<lambda>it. spec_match_score (nonblank kws) it > 0)
                                 (available_in cat (map snd (items pdb))))
             \<and> sorted_wrt (ranked_with_keywords (nonblank kws)) r))
   \<and> (nonblank kws = [] \<longrightarrow> search pdb cat kws = search pdb cat [])
   \<and> (require_buyer_session st token \<noteq> None
        \<and> nonempty_strings kws \<noteq> [] \<and> length (nonempty_strings kws) \<le> 5
        \<and> (\<forall>k\<in>set (nonempty_strings kws). length k \<le> 8)
      \<longrightarrow> (\<exists>r. buyer_search st token cat kws
                   = Inr (map (\<lambda>it. (it, handler_match_score (nonempty_strings kws) it)) r)
             \<and> mset r = mset (filter (\<lambda>it. handler_match_score (nonempty_strings kws) it > 0)
                                 (available_in cat (list_items (db st))))
             \<and> sorted_wrt (handler_ranked_with_keywords (nonempty_strings kws)) r))"
proof (intro conjI impI)
  assume a: "nonblank kws \<noteq> [] \<and> length (nonblank kws) \<le> 5 \<and> (\<forall>k\<in>set (nonblank kws). length k \<le> 8)"
  let ?key = "\<lambda>it. search_sort_key (spec_match_score (nonblank kws) it, it)"
  let ?xs = "filter (\<lambda>it. spec_match_score (nonblank kws) it > 0) (available_in cat (map snd (items pdb)))"
  have s: "search pdb cat kws = Inr (sort_key ?key ?xs)"
    using a by (intro search_kw) simp_all
  have "sorted_wrt (ranked_with_keywords (nonblank kws)) (sort_key ?key ?xs)"
    using sorted_sort_key[of ?key ?xs] by (simp add: sorted_map search_sort_key_le)
  with s show "\<exists>r. search pdb cat kws = Inr r \<and> mset r = mset ?xs
                 \<and> sorted_wrt (ranked_with_keywords (nonblank kws)) r"
    by simp
next
  assume "nonblank kws = []"
  then show "search pdb cat kws = search pdb cat []" by (rule search_all_blank)
next
  assume a: "require_buyer_session st token \<noteq> None
        \<and> nonempty_strings kws \<noteq> [] \<and> length (nonempty_strings kws) \<le> 5
        \<and> (\<forall>k\<in>set (nonempty_strings kws). length k \<le> 8)"
  let ?ks = "nonempty_strings kws"
  let ?key = "\<lambda>it. handler_sort_key (handler_match_score ?ks it,
                        real_of_int (thumbs_up (item_feedback it)), created_at it, it)"
  let ?xs = "filter (\<lambda>it. handler_match_score ?ks it > 0) (available_in cat (list_items (db st)))"
  have s: "buyer_search st token cat kws = Inr (map (\<lambda>it. (it, handler_match_score ?ks it)) (sort_key ?key ?xs))"
    using a by (intro buyer_search_kw) simp_all
  have "sorted_wrt (handler_ranked_with_keywords ?ks) (sort_key ?key ?xs)"
    using sorted_sort_key[of ?key ?xs] by (simp add: sorted_map handler_sort_key_kw_le)
  with s show "\<exists>r. buyer_search st token cat kws = Inr (map (\<lambda>it. (it, handler_match_score ?ks it)) r)
                 \<and> mset r = mset ?xs \<and> sorted_wrt (handler_ranked_with_keywords ?ks) r"
    by (intro exI[of _ "sort_key ?key ?xs"]) simp
qed

lemma lamp_product_items:
  "available_in 1 (map snd (items (product_run lamp_product_ops))) = [lamp_A, lamp_B, lamp_C]"
  by code_simp

lemma lamp_market_items:
  "available_in 1 (list_items (db (market_run lamp_market_ops))) = [lamp_A, lamp_B, lamp_C]"
  by code_simp

lemma lamp_market_session:
  "require_buyer_session (market_run lamp_market_ops) ''b1'' = Some (''b1'', 1)"
  by code_simp

lemma lamp_nonblank: "nonblank [''LAMP'', '' '', ''office''] = [''LAMP'', ''office'']"
  by code_simp

lemma lamp_nonempty: "nonempty_strings [''LAMP'', '' '', ''office''] = [''LAMP'', '' '', ''office'']"
  by code_simp

lemma lamp_search: "search (product_run lamp_product_ops) 1 [''LAMP'', '' '', ''office'']
     = Inr [lamp_B, lamp_A, lamp_C]"
  by code_simp

lemma lamp_scores:
  "filter (\<lambda>it. spec_match_score [''LAMP'', ''office''] it > 0) [lamp_A, lamp_B, lamp_C] = [lamp_A, lamp_B, lamp_C]"
  "filter (\<lambda>it. handler_match_score [''LAMP'', '' '', ''office''] it > 0) [lamp_A, lamp_B, lamp_C] = [lamp_B, lamp_C]"
  "map (spec_match_score [''LAMP'', ''office'']) [lamp_A, lamp_B, lamp_C] = [1, 2, 1]"
  "map (handler_match_score [''LAMP'', '' '', ''office'']) [lamp_B, lamp_C] = [1, 1]"
  by code_simp+

theorem search_with_keywords_ranking_witness:
  "search (product_run lamp_product_ops) 1 [''LAMP'', '' '', ''office''] = Inr [lamp_B, lamp_A, lamp_C]
   \<and> sorted_wrt (ranked_with_keywords [''LAMP'', ''office'']) [lamp_B, lamp_A, lamp_C]
   \<and> (\<exists>r. buyer_search (market_run lamp_market_ops) ''b1'' 1 [''LAMP'', '' '', ''office'']
             = Inr (map (\<lambda>it. (it, handler_match_score [''LAMP'', '' '', ''office''] it)) r)
          \<and> mset r = mset [lamp_B, lamp_C]
          \<and> sorted_wrt (handler_ranked_with_keywords [''LAMP'', '' '', ''office'']) r)"
  using search_with_keywords_ranking[of "[''LAMP'', '' '', ''office'']" "product_run lamp_product_ops" 1
      "market_run lamp_market_ops" "''b1''"]
  unfolding lamp_product_items lamp_market_items lamp_market_session lamp_nonblank lamp_nonempty
    lamp_scores lamp_search
  by simp

text \<open>
  C2 as stated fails twice. In the product store the non-empty keyword list \<open>[" "]\<close>
  returns all three items, each with match score 0. In the buyer handler the keyword
  "lamp" returns nothing although it equals a token of the name "Red Lamp".
\<close>

theorem search_with_keywords_ranking_counterexample:
  "search (product_run lamp_product_ops) 1 ['' ''] = Inr [lamp_A, lamp_B, lamp_C]
   \<and> map (spec_match_score ['' '']) [lamp_A, lamp_B, lamp_C] = [0, 0, 0]
   \<and> available_in 1 (list_items (db (market_run lamp_market_ops))) = [lamp_A, lamp_B, lamp_C]
   \<and> spec_match_score [''lamp''] lamp_A = 1
   \<and> buyer_search (market_run lamp_market_ops) ''b1'' 1 [''lamp''] = Inr []"
  by code_simp

section \<open>Session expiry in the customer store\<close>




section \<open>Login resolution\<close>

lemma index_ok_add:
  assumes "index_ok tbl nm idx nxt" and "nm a = name"
  shows "index_ok (tbl(nxt \<mapsto> a)) nm (setdefault_append idx name nxt) (nxt + 1)"
proof -
  have fresh: "tbl nxt = None" using assms(1) unfolding index_ok_def by force
  have notin: "nxt \<notin> set (ids_of (idx n))" for n
    using assms(1) fresh unfolding index_ok_def by auto
  show ?thesis
    unfolding index_ok_def
  proof (intro conjI allI impI)
    fix uid assume "(tbl(nxt \<mapsto> a)) uid \<noteq> None"
    then show "uid < nxt + 1" using assms(1) unfolding index_ok_def by (auto split: if_splits)
  next
    fix n show "distinct (ids_of (setdefault_append idx name nxt n))"
      using assms(1) notin[of n] unfolding index_ok_def setdefault_append_def ids_of_def
      by (auto split: option.splits)
  next
    fix n show "set (ids_of (setdefault_append idx name nxt n))
                 = {uid. \<exists>b. (tbl(nxt \<mapsto> a)) uid = Some b \<and> nm b = n}"
    proof (cases "n = name")
      case True
      have "set (ids_of (idx name)) = {uid. \<exists>b. tbl uid = Some b \<and> nm b = name}"
        using assms(1) unfolding index_ok_def by blast
      then show ?thesis using True assms(2) fresh
        unfolding setdefault_append_def ids_of_def by (auto split: option.splits)
    next
      case False
      have "set (ids_of (idx n)) = {uid. \<exists>b. tbl uid = Some b \<and> nm b = n}"
        using assms(1) unfolding index_ok_def by blast
      then show ?thesis using False assms(2) fresh
        unfolding setdefault_append_def ids_of_def by (auto split: option.splits)
    qed
  qed
qed

lemma accounts_ok_init: "accounts_ok (CustomerDB_init t)"
  by (simp add: accounts_ok_def index_ok_def CustomerDB_init_def ids_of_def)

lemma accounts_ok_create_account:
  assumes "accounts_ok cdb"
  shows "accounts_ok (snd (create_account cdb r name pw now))"
proof -
  let ?s = "\<lparr>s_id = c_next_seller_id cdb, s_name = name,
             s_feedback = \<lparr>thumbs_up = 0, thumbs_down = 0\<rparr>,
             items_sold = 0, s_password_hash = hash_pw pw, s_created_at = now\<rparr>"
  let ?b = "\<lparr>b_id = c_next_buyer_id cdb, b_name = name, items_purchased = 0,
             b_password_hash = hash_pw pw, b_created_at = now\<rparr>"
  have s: "index_ok ((sellers cdb)(c_next_seller_id cdb \<mapsto> ?s)) s_name
             (setdefault_append (seller_name_index cdb) name (c_next_seller_id cdb))
             (c_next_seller_id cdb + 1)"
    using assms unfolding accounts_ok_def by (intro index_ok_add) simp_all
  have b: "index_ok ((buyers cdb)(c_next_buyer_id cdb \<mapsto> ?b)) b_name
             (setdefault_append (buyer_name_index cdb) name (c_next_buyer_id cdb))
             (c_next_buyer_id cdb + 1)"
    using assms unfolding accounts_ok_def by (intro index_ok_add) simp_all
  show ?thesis
    using assms s b
    by (auto simp: create_account_def accounts_ok_def Let_def split: option.splits)
qed

lemma accounts_ok_cong: "accounts_of cdb' = accounts_of cdb \<Longrightarrow> accounts_ok cdb' = accounts_ok cdb"
  by (simp add: accounts_of_def accounts_ok_def)

lemma accounts_of_upd [simp]:
  "accounts_of (cdb\<lparr>session_carts := x\<rparr>) = accounts_of cdb"
  "accounts_of (cdb\<lparr>saved_carts := y\<rparr>) = accounts_of cdb"
  "accounts_of (cdb\<lparr>dict_heap := z\<rparr>) = accounts_of cdb"
  "accounts_of (cdb\<lparr>c_sessions := w\<rparr>) = accounts_of cdb"
  "accounts_of (cdb\<lparr>next_addr := v\<rparr>) = accounts_of cdb"
  by (simp_all add: accounts_of_def)

lemma accounts_of_touch:
  "touch_or_expire cdb token now = (r, cdb') \<Longrightarrow> accounts_of cdb' = accounts_of cdb"
  by (auto simp: touch_or_expire_def Let_def split: option.splits if_splits)

lemma accounts_of_buyer_session:
  "buyer_session cdb token now = (r, cdb') \<Longrightarrow> accounts_of cdb' = accounts_of cdb"
  by (auto simp: buyer_session_def split: prod.splits option.splits if_splits
        dest: accounts_of_touch)

lemma accounts_of_new_dict:
  "new_dict cdb c = (a, cdb') \<Longrightarrow> accounts_of cdb' = accounts_of cdb"
  by (auto simp: new_dict_def)

lemma accounts_of_setdefault:
  "session_cart_setdefault cdb token = (a, cdb') \<Longrightarrow> accounts_of cdb' = accounts_of cdb"
  by (auto simp: session_cart_setdefault_def split: option.splits prod.splits
        dest: accounts_of_new_dict)

lemma accounts_of_login: "accounts_of (snd (login cdb r u pw token now)) = accounts_of cdb"
  by (auto simp: login_def Let_def new_dict_def split: sum.splits option.splits)

lemma accounts_of_logout: "accounts_of (logout cdb token) = accounts_of cdb"
  by (simp add: logout_def)

lemma accounts_of_validate_session:
  "accounts_of (snd (validate_session cdb r token now)) = accounts_of cdb"
  by (auto simp: validate_session_def Let_def split: prod.splits option.splits
        dest: accounts_of_touch)

lemma accounts_of_cart_get: "accounts_of (snd (cart_get cdb token now)) = accounts_of cdb"
  by (auto simp: cart_get_def split: prod.splits option.splits dest: accounts_of_buyer_session)

lemma accounts_of_cart_clear: "accounts_of (snd (cart_clear cdb token now)) = accounts_of cdb"
  by (auto simp: cart_clear_def Let_def new_dict_def split: prod.splits option.splits
        dest!: accounts_of_buyer_session)

lemma accounts_of_cart_save: "accounts_of (snd (cart_save cdb token now)) = accounts_of cdb"
  by (auto simp: cart_save_def Let_def new_dict_def split: prod.splits option.splits
        dest!: accounts_of_buyer_session)

lemma accounts_of_cart_add: "accounts_of (snd (cart_add cdb token k q now)) = accounts_of cdb"
proof -
  obtain r cdb1 where b: "buyer_session cdb token now = (r, cdb1)" by (cases "buyer_session cdb token now")
  obtain a cdb2 where s: "session_cart_setdefault cdb1 token = (a, cdb2)"
    by (cases "session_cart_setdefault cdb1 token")
  have "accounts_of cdb2 = accounts_of cdb"
    using accounts_of_buyer_session[OF b] accounts_of_setdefault[OF s] by simp
  then show ?thesis
    using accounts_of_buyer_session[OF b]
    by (simp add: cart_add_def b s Let_def split: option.splits)
qed

lemma accounts_of_cart_remove: "accounts_of (snd (cart_remove cdb token k q now)) = accounts_of cdb"
proof -
  obtain r cdb1 where b: "buyer_session cdb token now = (r, cdb1)" by (cases "buyer_session cdb token now")
  obtain a cdb2 where s: "session_cart_setdefault cdb1 token = (a, cdb2)"
    by (cases "session_cart_setdefault cdb1 token")
  have "accounts_of cdb2 = accounts_of cdb"
    using accounts_of_buyer_session[OF b] accounts_of_setdefault[OF s] by simp
  then show ?thesis
    using accounts_of_buyer_session[OF b]
    by (simp add: cart_remove_def b s Let_def split: option.splits)
qed

lemma accounts_ok_step: "accounts_ok cdb \<Longrightarrow> accounts_ok (customer_step cdb op)"
proof (cases op)
  case (CreateAccount r name pw now)
  assume "accounts_ok cdb"
  then show ?thesis using CreateAccount by (simp add: accounts_ok_create_account)
next
  case (TouchSession token now)
  assume "accounts_ok cdb"
  then show ?thesis using TouchSession
    accounts_ok_cong[OF accounts_of_touch[of cdb token now "fst (touch_or_expire cdb token now)" "snd (touch_or_expire cdb token now)"]]
    by simp
next
  case (Login r u pw token now)
  assume "accounts_ok cdb"
  then show ?thesis using Login accounts_ok_cong[OF accounts_of_login[of cdb r u pw token now]] by simp
next
  case (Logout token)
  assume "accounts_ok cdb"
  then show ?thesis using Logout accounts_ok_cong[OF accounts_of_logout[of cdb token]] by simp
next
  case (ValidateSession r token now)
  assume "accounts_ok cdb"
  then show ?thesis using ValidateSession
      accounts_ok_cong[OF accounts_of_validate_session[of cdb r token now]] by simp
next
  case (CartGet token now)
  assume "accounts_ok cdb"
  then show ?thesis using CartGet accounts_ok_cong[OF accounts_of_cart_get[of cdb token now]] by simp
next
  case (CartAdd token k q now)
  assume "accounts_ok cdb"
  then show ?thesis using CartAdd accounts_ok_cong[OF accounts_of_cart_add[of cdb token k q now]] by simp
next
  case (CartRemove token k q now)
  assume "accounts_ok cdb"
  then show ?thesis using CartRemove
      accounts_ok_cong[OF accounts_of_cart_remove[of cdb token k q now]] by simp
next
  case (CartClear token now)
  assume "accounts_ok cdb"
  then show ?thesis using CartClear accounts_ok_cong[OF accounts_of_cart_clear[of cdb token now]] by simp
next
  case (CartSave token now)
  assume "accounts_ok cdb"
  then show ?thesis using CartSave accounts_ok_cong[OF accounts_of_cart_save[of cdb token now]] by simp
qed

lemma accounts_ok_foldl: "accounts_ok cdb \<Longrightarrow> accounts_ok (foldl customer_step cdb ops)"
  by (induction ops arbitrary: cdb) (simp_all add: accounts_ok_step)

lemma accounts_ok_run: "accounts_ok (customer_run t ops)"
  unfolding customer_run_def by (rule accounts_ok_foldl[OF accounts_ok_init])

lemma credential_matches_filter:
  "(\<forall>uid\<in>set ids. stored uid \<noteq> None)
   \<Longrightarrow> credential_matches stored pw ids = Inr (filter (\<lambda>uid. stored uid = Some pw) ids)"
  by (induction ids) auto

lemma name_index_accounts:
  assumes "accounts_ok cdb"
  shows "distinct (name_index cdb r name)"
    and "set (name_index cdb r name) = {uid. stored_name cdb r uid = Some name}"
  using assms
  unfolding accounts_ok_def index_ok_def name_index_def stored_name_def ids_of_def
  by (auto split: option.splits if_splits)

lemma stored_hash_of_name: "stored_name cdb r uid = Some name \<Longrightarrow> stored_hash cdb r uid \<noteq> None"
  by (auto simp: stored_name_def stored_hash_def split: if_splits)

lemma resolve_by_name:
  assumes ok: "accounts_ok cdb" and nn: "\<not> isdigit name"
  shows "\<exists>ms. resolve_user_id cdb r (UStr name) pw
              = (if length ms = 1 then Inr (Some (hd ms))
                 else if length ms > 1 then Inl AmbiguousUsername else Inr None)
            \<and> distinct ms \<and> set ms = matching_accounts cdb r name pw"
proof -
  let ?ids = "name_index cdb r name"
  let ?ms = "filter (\<lambda>uid. stored_hash cdb r uid = Some pw) ?ids"
  have "\<forall>uid\<in>set ?ids. stored_hash cdb r uid \<noteq> None"
    using name_index_accounts(2)[OF ok, of r name] stored_hash_of_name by auto
  then have cm: "credential_matches (stored_hash cdb r) pw ?ids = Inr ?ms"
    by (rule credential_matches_filter)
  have d: "distinct ?ms" using name_index_accounts(1)[OF ok, of r name] by simp
  have s: "set ?ms = matching_accounts cdb r name pw"
    using name_index_accounts(2)[OF ok, of r name] by (auto simp: matching_accounts_def)
  have "resolve_user_id cdb r (UStr name) pw
          = (if length ?ms = 1 then Inr (Some (hd ?ms))
             else if length ?ms > 1 then Inl AmbiguousUsername else Inr None)"
    using nn by (simp add: resolve_user_id_def is_numeric_def cm)
  with d s show ?thesis by blast
qed

lemma matching_accounts_index:
  assumes "accounts_ok cdb"
  shows "matching_accounts cdb r name pw
           = set (filter (\<lambda>uid. stored_hash cdb r uid = Some pw) (name_index cdb r name))"
  using name_index_accounts(2)[OF assms, of r name] by (auto simp: matching_accounts_def)

lemma login_numeric:
  assumes "strip (lower role_in) = r" "r = ''buyer'' \<or> r = ''seller''"
    and "u = UInt n \<or> (u = UStr s \<and> isdigit s \<and> int_of_digits s = Inr n)"
  shows "fst (login cdb role_in u pw token now)
           = (if stored_hash cdb r n = Some (hash_pw pw) then Inr (n, token)
              else Inl InvalidCredentials)"
  using assms
  by (auto simp: login_def Let_def resolve_user_id_def is_numeric_def new_dict_def)

lemma distinct_set_single: "distinct ms \<Longrightarrow> set ms = {x} \<Longrightarrow> ms = [x]"
proof (cases ms)
  case Nil
  assume "set ms = {x}" then show ?thesis using Nil by simp
next
  case (Cons y ys)
  assume d: "distinct ms" and s: "set ms = {x}"
  have "y = x" using s Cons by auto
  moreover have "set ys \<subseteq> {x}" using s Cons by auto
  moreover have "x \<notin> set ys" using d Cons \<open>y = x\<close> by simp
  ultimately have "ys = []" by (cases ys) auto
  then show ?thesis using Cons \<open>y = x\<close> by simp
qed

lemma login_resolved:
  assumes "strip (lower role_in) = r" "r = ''buyer'' \<or> r = ''seller''"
  shows "fst (login cdb role_in u pw token now)
           = (case resolve_user_id cdb r u (hash_pw pw) of
                Inl e \<Rightarrow> Inl e
              | Inr None \<Rightarrow> Inl InvalidCredentials
              | Inr (Some uid) \<Rightarrow> Inr (uid, token))"
  using assms
  by (auto simp: login_def Let_def new_dict_def split: sum.splits option.splits)

lemma login_by_name:
  assumes ok: "accounts_ok cdb"
    and role: "strip (lower role_in) = r" "r = ''buyer'' \<or> r = ''seller''"
    and nn: "\<not> isdigit name"
  shows "(matching_accounts cdb r name (hash_pw pw) = {uid}
            \<longrightarrow> fst (login cdb role_in (UStr name) pw token now) = Inr (uid, token))
       \<and> (uid1 \<in> matching_accounts cdb r name (hash_pw pw)
            \<and> uid2 \<in> matching_accounts cdb r name (hash_pw pw) \<and> uid1 \<noteq> uid2
            \<longrightarrow> fst (login cdb role_in (UStr name) pw token now) = Inl AmbiguousUsername)
       \<and> (matching_accounts cdb r name (hash_pw pw) = {}
            \<longrightarrow> fst (login cdb role_in (UStr name) pw token now) = Inl InvalidCredentials)"
proof -
  obtain ms where res: "resolve_user_id cdb r (UStr name) (hash_pw pw)
              = (if length ms = 1 then Inr (Some (hd ms))
                 else if length ms > 1 then Inl AmbiguousUsername else Inr None)"
    and d: "distinct ms" and s: "set ms = matching_accounts cdb r name (hash_pw pw)"
    using resolve_by_name[OF ok nn, of r "hash_pw pw"] by blast
  note l = login_resolved[OF role, of cdb "UStr name" pw token now]
  have one: "fst (login cdb role_in (UStr name) pw token now) = Inr (uid, token)"
    if "matching_accounts cdb r name (hash_pw pw) = {uid}"
  proof -
    have "ms = [uid]" using that d s by (intro distinct_set_single) simp_all
    then have "resolve_user_id cdb r (UStr name) (hash_pw pw) = Inr (Some uid)"
      using res by simp
    then show ?thesis unfolding l by simp
  qed
  have two: "fst (login cdb role_in (UStr name) pw token now) = Inl AmbiguousUsername"
    if "uid1 \<in> matching_accounts cdb r name (hash_pw pw)"
       "uid2 \<in> matching_accounts cdb r name (hash_pw pw)" "uid1 \<noteq> uid2"
  proof -
    have "{uid1, uid2} \<subseteq> set ms" using that s by simp
    then have "card {uid1, uid2} \<le> card (set ms)" by (intro card_mono) simp_all
    then have "2 \<le> card (set ms)" using that(3) by simp
    then have "length ms > 1" using card_length[of ms] by linarith
    then have "resolve_user_id cdb r (UStr name) (hash_pw pw) = Inl AmbiguousUsername"
      using res by simp
    then show ?thesis unfolding l by simp
  qed
  have none: "fst (login cdb role_in (UStr name) pw token now) = Inl InvalidCredentials"
    if "matching_accounts cdb r name (hash_pw pw) = {}"
  proof -
    have "ms = []" using that s by simp
    then have "resolve_user_id cdb r (UStr name) (hash_pw pw) = Inr None"
      using res by simp
    then show ?thesis unfolding l by simp
  qed
  show ?thesis using one two none by blast
qed

lemma buyer_login_by_name:
  assumes "name \<noteq> []"
  shows "fst (buyer_login st None name pw token now)
           = (case find_buyers_by_name (db st) name of
                [] \<Rightarrow> Inl InvalidCredentials
              | [b] \<Rightarrow> if b_password_hash b = pw then Inr (b_id b, token) else Inl InvalidCredentials
              | _ \<Rightarrow> Inl AmbiguousUsername)"
  using assms by (auto simp: buyer_login_def split: list.splits)

lemma seller_login_by_name:
  assumes "name \<noteq> []"
  shows "fst (seller_login st None name pw token now)
           = (case find_sellers_by_name (db st) name of
                [] \<Rightarrow> Inl InvalidCredentials
              | [s] \<Rightarrow> if s_password_hash s = pw then Inr (s_id s, token) else Inl InvalidCredentials
              | _ \<Rightarrow> Inl AmbiguousUsername)"
  using assms by (auto simp: seller_login_def split: list.splits)

text \<open>
  C8 (as amended). In the customer store (\<open>CustomerDB.login\<close>), for a role that
  normalises to buyer or seller: a numeric username (an \<open>int\<close>, or a string of digits
  that \<open>int()\<close> reads) is a direct id lookup and succeeds iff that id exists with a
  matching credential, failing with invalid-credentials otherwise; a non-numeric
  username is resolved through the name index and succeeds iff exactly one account of
  that name has a matching stored credential; it fails with the ambiguous-username
  error when more than one matches and with invalid-credentials when none does. The
  handlers of the single-process server take the id from a separate field and treat
  every username as a name: they fail with the ambiguous-name error whenever more than
  one account has the name, whatever the credentials, and succeed only when exactly one
  account has the name and its credential matches.
\<close>

theorem login_resolution:
  assumes reach: "cdb = customer_run t ops"
    and role: "strip (lower role_in) = r" "r = ''buyer'' \<or> r = ''seller''"
  shows "(u = UInt n \<or> (u = UStr s \<and> isdigit s \<and> int_of_digits s = Inr n)
            \<longrightarrow> fst (login cdb role_in u pw token now)
                  = (if stored_hash cdb r n = Some (hash_pw pw) then Inr (n, token)
                     else Inl InvalidCredentials))
       \<and> (\<not> isdigit name \<and> matching_accounts cdb r name (hash_pw pw) = {uid}
            \<longrightarrow> fst (login cdb role_in (UStr name) pw token now) = Inr (uid, token))
       \<and> (\<not> isdigit name \<and> uid1 \<in> matching_accounts cdb r name (hash_pw pw)
            \<and> uid2 \<in> matching_accounts cdb r name (hash_pw pw) \<and> uid1 \<noteq> uid2
            \<longrightarrow> fst (login cdb role_in (UStr name) pw token now) = Inl AmbiguousUsername)
       \<and> (\<not> isdigit name \<and> matching_accounts cdb r name (hash_pw pw) = {}
            \<longrightarrow> fst (login cdb role_in (UStr name) pw token now) = Inl InvalidCredentials)
       \<and> (name \<noteq> []
            \<longrightarrow> fst (buyer_login st None name pwh token now)
                  = (case find_buyers_by_name (db st) name of
                       [] \<Rightarrow> Inl InvalidCredentials
                     | [b] \<Rightarrow> if b_password_hash b = pwh then Inr (b_id b, token)
                              else Inl InvalidCredentials
                     | _ \<Rightarrow> Inl AmbiguousUsername)
                \<and> fst (seller_login st None name pwh token now)
                  = (case find_sellers_by_name (db st) name of
                       [] \<Rightarrow> Inl InvalidCredentials
                     | [s] \<Rightarrow> if s_password_hash s = pwh then Inr (s_id s, token)
                              else Inl InvalidCredentials
                     | _ \<Rightarrow> Inl AmbiguousUsername))"
proof -
  have ok: "accounts_ok cdb" unfolding reach by (rule accounts_ok_run)
  have num: "fst (login cdb role_in u pw token now)
                  = (if stored_hash cdb r n = Some (hash_pw pw) then Inr (n, token)
                     else Inl InvalidCredentials)"
    if "u = UInt n \<or> (u = UStr s \<and> isdigit s \<and> int_of_digits s = Inr n)"
    using login_numeric[OF role that] .
  have nm: "(matching_accounts cdb r name (hash_pw pw) = {uid}
            \<longrightarrow> fst (login cdb role_in (UStr name) pw token now) = Inr (uid, token))
       \<and> (uid1 \<in> matching_accounts cdb r name (hash_pw pw)
            \<and> uid2 \<in> matching_accounts cdb r name (hash_pw pw) \<and> uid1 \<noteq> uid2
            \<longrightarrow> fst (login cdb role_in (UStr name) pw token now) = Inl AmbiguousUsername)
       \<and> (matching_accounts cdb r name (hash_pw pw) = {}
            \<longrightarrow> fst (login cdb role_in (UStr name) pw token now) = Inl InvalidCredentials)"
    if "\<not> isdigit name"
    using login_by_name[OF ok role that] .
  show ?thesis
    using num nm buyer_login_by_name[of name st pwh token now]
      seller_login_by_name[of name st pwh token now]
    by blast
qed

lemma bob_facts:
  "stored_hash (customer_run 300 bob_customer_ops) ''buyer'' 2 = Some ''pw2''"
  "filter (\<lambda>uid. stored_hash (customer_run 300 bob_customer_ops) ''buyer'' uid = Some ''pw2'')
     (name_index (customer_run 300 bob_customer_ops) ''buyer'' ''bob'') = [2]"
  "filter (\<lambda>uid. stored_hash (customer_run 300 bob_customer_ops) ''buyer'' uid = Some ''pw1'')
     (name_index (customer_run 300 bob_customer_ops) ''buyer'' ''bob'') = [1, 3]"
  "filter (\<lambda>uid. stored_hash (customer_run 300 bob_customer_ops) ''buyer'' uid = Some ''pw3'')
     (name_index (customer_run 300 bob_customer_ops) ''buyer'' ''bob'') = []"
  "strip (lower ''Buyer '') = ''buyer''" "isdigit ''2''" "int_of_digits ''2'' = Inr 2"
  "\<not> isdigit ''bob''" "hash_pw ''pw1'' = ''pw1''" "hash_pw ''pw2'' = ''pw2''" "hash_pw ''pw3'' = ''pw3''"
  by code_simp+

lemma bob_matching:
  "matching_accounts (customer_run 300 bob_customer_ops) ''buyer'' ''bob'' ''pw2'' = {2}"
  "matching_accounts (customer_run 300 bob_customer_ops) ''buyer'' ''bob'' ''pw1'' = {1, 3}"
  "matching_accounts (customer_run 300 bob_customer_ops) ''buyer'' ''bob'' ''pw3'' = {}"
  by (simp_all add: matching_accounts_index[OF accounts_ok_run] bob_facts)

theorem login_resolution_witness:
  "fst (login (customer_run 300 bob_customer_ops) ''Buyer '' (UStr ''2'') ''pw2'' ''tk'' 9) = Inr (2, ''tk'')
   \<and> fst (login (customer_run 300 bob_customer_ops) ''Buyer '' (UStr ''bob'') ''pw2'' ''tk'' 9) = Inr (2, ''tk'')
   \<and> fst (login (customer_run 300 bob_customer_ops) ''Buyer '' (UStr ''bob'') ''pw1'' ''tk'' 9) = Inl AmbiguousUsername
   \<and> fst (login (customer_run 300 bob_customer_ops) ''Buyer '' (UStr ''bob'') ''pw3'' ''tk'' 9) = Inl InvalidCredentials"
  using login_resolution[of "customer_run 300 bob_customer_ops" 300 bob_customer_ops "''Buyer ''" "''buyer''"
      "UStr ''2''" 2 "''2''" "''pw2''" "''tk''" 9 "''bob''" 2 1 3]
    login_resolution[of "customer_run 300 bob_customer_ops" 300 bob_customer_ops "''Buyer ''" "''buyer''"
      "UStr ''2''" 2 "''2''" "''pw1''" "''tk''" 9 "''bob''" 2 1 3]
    login_resolution[of "customer_run 300 bob_customer_ops" 300 bob_customer_ops "''Buyer ''" "''buyer''"
      "UStr ''2''" 2 "''2''" "''pw3''" "''tk''" 9 "''bob''" 2 1 3]
  by (simp add: bob_facts bob_matching)

text \<open>
  C8 as stated fails in the buyer handler: with two buyers named bob whose credentials
  are h1 and h2, a login as bob with h1 is refused as ambiguous although exactly one
  candidate's credential matches; and the numeric username "1" with buyer 1's
  credential is looked up as a name and refused.
\<close>

theorem login_resolution_counterexample:
  "map b_password_hash (find_buyers_by_name (db (market_run bob_market_ops)) ''bob'') = [''h1'', ''h2'']
   \<and> fst (buyer_login (market_run bob_market_ops) None ''bob'' ''h1'' ''tk'' 9) = Inl AmbiguousUsername
   \<and> map_option b_password_hash (get_buyer (db (market_run bob_market_ops)) 1) = Some ''h1''
   \<and> fst (buyer_login (market_run bob_market_ops) None ''1'' ''h1'' ''tk'' 9) = Inl InvalidCredentials"
  by code_simp

section \<open>Carts of the customer store: invariants and isolation\<close>

lemma cart_pos_Nil [simp]: "cart_pos []"
  by (simp add: cart_pos_def)

lemma set_update_subset: "set (AList.update k v c) \<subseteq> insert (k, v) (set c)"
  by (induction c) auto

lemma cart_pos_update: "cart_pos c \<Longrightarrow> 1 \<le> v \<Longrightarrow> cart_pos (AList.update k v c)"
  unfolding cart_pos_def using set_update_subset[of k v c]
  by (auto simp: distinct_update)

lemma set_delete_subset: "set (AList.delete k c) \<subseteq> set c"
  by (induction c) auto

lemma cart_pos_delete: "cart_pos c \<Longrightarrow> cart_pos (AList.delete k c)"
  unfolding cart_pos_def using set_delete_subset[of k c] by (auto simp: distinct_delete)

lemma cart_pos_lookup: "cart_pos c \<Longrightarrow> map_of c k = Some n \<Longrightarrow> 1 \<le> n"
  unfolding cart_pos_def by (auto dest: map_of_SomeD)

lemma cart_pos_filter: "cart_pos c \<Longrightarrow> cart_pos (filter P c)"
  unfolding cart_pos_def by (auto simp: distinct_map_filter)

lemma heap_pos_init: "heap_pos (CustomerDB_init t)"
  by (simp add: heap_pos_def CustomerDB_init_def)

lemma no_alias_init: "no_alias (CustomerDB_init t)"
  by (simp add: no_alias_def CustomerDB_init_def)

lemma touch_frame:
  assumes "touch_or_expire cdb t now = (r, cdb1)"
  shows "dict_heap cdb1 = dict_heap cdb" "saved_carts cdb1 = saved_carts cdb"
    "next_addr cdb1 = next_addr cdb" "timeout_seconds cdb1 = timeout_seconds cdb"
    "t' \<noteq> t \<Longrightarrow> c_sessions cdb1 t' = c_sessions cdb t'"
    "t' \<noteq> t \<Longrightarrow> session_carts cdb1 t' = session_carts cdb t'"
    "session_carts cdb1 t = session_carts cdb t \<or> session_carts cdb1 t = None"
    "r \<noteq> None \<Longrightarrow> session_carts cdb1 t = session_carts cdb t"
    "c_sessions cdb1 t = r"
  using assms
  by (auto simp: touch_or_expire_def Let_def split: option.splits if_splits)

lemma buyer_session_frame:
  assumes "buyer_session cdb t now = (r, cdb1)"
  shows "dict_heap cdb1 = dict_heap cdb" "saved_carts cdb1 = saved_carts cdb"
    "next_addr cdb1 = next_addr cdb" "timeout_seconds cdb1 = timeout_seconds cdb"
    "t' \<noteq> t \<Longrightarrow> c_sessions cdb1 t' = c_sessions cdb t'"
    "t' \<noteq> t \<Longrightarrow> session_carts cdb1 t' = session_carts cdb t'"
    "session_carts cdb1 t = session_carts cdb t \<or> session_carts cdb1 t = None"
    "r \<noteq> None \<Longrightarrow> session_carts cdb1 t = session_carts cdb t"
    "r = Some s \<Longrightarrow> c_sessions cdb1 t = Some s \<and> c_role s = ''buyer''"
proof -
  obtain r0 where t: "touch_or_expire cdb t now = (r0, cdb1)"
    and r: "r = (case r0 of None \<Rightarrow> None | Some s \<Rightarrow> if c_role s \<noteq> ''buyer'' then None else Some s)"
    using assms by (auto simp: buyer_session_def split: prod.splits option.splits if_splits)
  note f = touch_frame[OF t]
  show "dict_heap cdb1 = dict_heap cdb" "saved_carts cdb1 = saved_carts cdb"
    "next_addr cdb1 = next_addr cdb" "timeout_seconds cdb1 = timeout_seconds cdb"
    "session_carts cdb1 t = session_carts cdb t \<or> session_carts cdb1 t = None"
    by (rule f)+
  show "t' \<noteq> t \<Longrightarrow> c_sessions cdb1 t' = c_sessions cdb t'" by (rule f)
  show "t' \<noteq> t \<Longrightarrow> session_carts cdb1 t' = session_carts cdb t'" by (rule f)
  show "r \<noteq> None \<Longrightarrow> session_carts cdb1 t = session_carts cdb t"
    using f(8) r by (auto split: option.splits)
  show "r = Some s \<Longrightarrow> c_sessions cdb1 t = Some s \<and> c_role s = ''buyer''"
    using f(9) r by (auto split: option.splits if_splits)
qed

lemma no_alias_shrink:
  assumes "no_alias cdb"
    and "\<And>t a. session_carts cdb1 t = Some a \<Longrightarrow> session_carts cdb t = Some a"
    and "saved_carts cdb1 = saved_carts cdb" "next_addr cdb1 = next_addr cdb"
  shows "no_alias cdb1"
  using assms unfolding no_alias_def by (auto; metis)

lemma no_alias_new_session:
  assumes "no_alias cdb"
    and "session_carts cdb1 = (session_carts cdb)(t \<mapsto> next_addr cdb)"
    and "saved_carts cdb1 = saved_carts cdb" "next_addr cdb1 = Suc (next_addr cdb)"
  shows "no_alias cdb1"
  using assms unfolding no_alias_def
  by (auto simp: less_Suc_eq split: if_splits)

lemma no_alias_new_saved:
  assumes "no_alias cdb"
    and "saved_carts cdb1 = (saved_carts cdb)(b \<mapsto> next_addr cdb)"
    and "session_carts cdb1 = session_carts cdb" "next_addr cdb1 = Suc (next_addr cdb)"
  shows "no_alias cdb1"
  using assms unfolding no_alias_def
  by (auto simp: less_Suc_eq split: if_splits)

lemma heap_pos_upd:
  assumes "heap_pos cdb" "dict_heap cdb1 = (dict_heap cdb)(a := c)" "cart_pos c"
  shows "heap_pos cdb1"
  using assms unfolding heap_pos_def by simp

lemma heap_pos_same:
  assumes "heap_pos cdb" "dict_heap cdb1 = dict_heap cdb"
  shows "heap_pos cdb1"
  using assms unfolding heap_pos_def by simp

lemma login_effect:
  assumes "login cdb r u pw token now = (res, cdb')"
  shows "(\<exists>e. res = Inl e \<and> cdb' = cdb)
       \<or> (\<exists>uid content. res = Inr (uid, token)
            \<and> content = (if strip (lower r) = ''seller'' then []
                          else case saved_carts cdb uid of None \<Rightarrow> [] | Some a \<Rightarrow> dict_heap cdb a)
            \<and> session_carts cdb' = (session_carts cdb)(token \<mapsto> next_addr cdb)
            \<and> saved_carts cdb' = saved_carts cdb
            \<and> next_addr cdb' = Suc (next_addr cdb)
            \<and> dict_heap cdb' = (dict_heap cdb)(next_addr cdb := content)
            \<and> timeout_seconds cdb' = timeout_seconds cdb
            \<and> c_sessions cdb' = (c_sessions cdb)(token \<mapsto>
                  \<lparr>c_role = strip (lower r), user_id = uid, c_created_at = now, last_activity = now\<rparr>))"
proof (cases "strip (lower r) = ''seller'' \<or> strip (lower r) = ''buyer''")
  case False
  then show ?thesis using assms by (auto simp: login_def Let_def)
next
  case role: True
  show ?thesis
  proof (cases "resolve_user_id cdb (strip (lower r)) u (hash_pw pw)")
    case (Inl e)
    then show ?thesis using assms role by (auto simp: login_def Let_def)
  next
    case (Inr v)
    show ?thesis
    proof (cases v)
      case None
      then show ?thesis using assms role Inr by (auto simp: login_def Let_def)
    next
      case (Some uid)
      have "res = Inr (uid, token)"
        using assms role Inr Some by (simp add: login_def Let_def new_dict_def split: if_splits)
      moreover have "cdb' = cdb\<lparr>c_sessions := (c_sessions cdb)(token \<mapsto>
                  \<lparr>c_role = strip (lower r), user_id = uid, c_created_at = now, last_activity = now\<rparr>),
                dict_heap := (dict_heap cdb)(next_addr cdb :=
                   (if strip (lower r) = ''seller'' then []
                    else case saved_carts cdb uid of None \<Rightarrow> [] | Some a \<Rightarrow> dict_heap cdb a)),
                next_addr := Suc (next_addr cdb),
                session_carts := (session_carts cdb)(token \<mapsto> next_addr cdb)\<rparr>"
        using assms role Inr Some
        by (cases "saved_carts cdb uid") (auto simp: login_def Let_def new_dict_def)
      ultimately show ?thesis by simp
    qed
  qed
qed

lemma others_same_refl [simp]: "others_same t cdb cdb"
  by (simp add: others_same_def)

lemma others_same_trans:
  "others_same t cdb cdb1 \<Longrightarrow> others_same t cdb1 cdb2 \<Longrightarrow> others_same t cdb cdb2"
  by (simp add: others_same_def)

lemma buyer_session_inv:
  assumes "buyer_session cdb t now = (r, cdb1)"
  shows "others_same t cdb cdb1" "no_alias cdb \<Longrightarrow> no_alias cdb1" "heap_pos cdb \<Longrightarrow> heap_pos cdb1"
proof -
  note f = buyer_session_frame[OF assms]
  show "others_same t cdb cdb1"
    unfolding others_same_def session_view_def saved_view_def
    using f(1,2,4) f(5) f(6) by simp
  show "no_alias cdb \<Longrightarrow> no_alias cdb1"
  proof (rule no_alias_shrink)
    fix t' a assume "session_carts cdb1 t' = Some a"
    then show "session_carts cdb t' = Some a"
      using f(6)[of t'] f(7) by (cases "t' = t") auto
  qed (use f in simp_all)
  show "heap_pos cdb \<Longrightarrow> heap_pos cdb1" using f(1) by (simp add: heap_pos_def)
qed

lemma touch_inv:
  assumes "touch_or_expire cdb t now = (r, cdb1)"
  shows "no_alias cdb \<Longrightarrow> no_alias cdb1" "heap_pos cdb \<Longrightarrow> heap_pos cdb1"
proof -
  note f = touch_frame[OF assms]
  show "no_alias cdb \<Longrightarrow> no_alias cdb1"
  proof (rule no_alias_shrink)
    fix t' a assume "session_carts cdb1 t' = Some a"
    then show "session_carts cdb t' = Some a"
      using f(6)[of t'] f(7) by (cases "t' = t") auto
  qed (use f in simp_all)
  show "heap_pos cdb \<Longrightarrow> heap_pos cdb1" using f(1) by (simp add: heap_pos_def)
qed

lemma setdefault_effect:
  assumes "session_cart_setdefault cdb t = (a, cdb2)"
  shows "(session_carts cdb t = Some a \<and> cdb2 = cdb)
       \<or> (session_carts cdb t = None \<and> a = next_addr cdb
           \<and> session_carts cdb2 = (session_carts cdb)(t \<mapsto> a)
           \<and> dict_heap cdb2 = (dict_heap cdb)(a := [])
           \<and> next_addr cdb2 = Suc a \<and> saved_carts cdb2 = saved_carts cdb
           \<and> c_sessions cdb2 = c_sessions cdb \<and> timeout_seconds cdb2 = timeout_seconds cdb)"
  using assms
  by (cases "session_carts cdb t") (auto simp: session_cart_setdefault_def new_dict_def)

lemma setdefault_inv:
  assumes s: "session_cart_setdefault cdb t = (a, cdb2)" and na: "no_alias cdb"
  shows "others_same t cdb cdb2" "no_alias cdb2" "session_carts cdb2 t = Some a"
    "heap_pos cdb \<Longrightarrow> heap_pos cdb2" "c_sessions cdb2 = c_sessions cdb"
proof -
  consider
    (old) "session_carts cdb t = Some a" "cdb2 = cdb"
  | (new) "session_carts cdb t = None" "a = next_addr cdb"
       "session_carts cdb2 = (session_carts cdb)(t \<mapsto> a)"
       "dict_heap cdb2 = (dict_heap cdb)(a := [])"
       "next_addr cdb2 = Suc a" "saved_carts cdb2 = saved_carts cdb"
       "c_sessions cdb2 = c_sessions cdb" "timeout_seconds cdb2 = timeout_seconds cdb"
    using setdefault_effect[OF s] by argo
  then have "others_same t cdb cdb2 \<and> no_alias cdb2 \<and> session_carts cdb2 t = Some a
       \<and> (heap_pos cdb \<longrightarrow> heap_pos cdb2) \<and> c_sessions cdb2 = c_sessions cdb"
  proof cases
    case old
    then show ?thesis using na by simp
  next
    case new
    have fresh_s: "session_carts cdb t' \<noteq> Some a" for t'
      using na new(2) unfolding no_alias_def by (metis less_irrefl)
    have fresh_b: "saved_carts cdb b \<noteq> Some a" for b
      using na new(2) unfolding no_alias_def by (metis less_irrefl)
    have os: "others_same t cdb cdb2"
      unfolding others_same_def session_view_def saved_view_def
      using new fresh_s fresh_b by (auto simp: map_option_case split: option.splits)
    have "no_alias cdb2"
      using na new by (intro no_alias_new_session[of cdb cdb2 t]) simp_all
    moreover have "heap_pos cdb \<longrightarrow> heap_pos cdb2"
      using new(4) by (simp add: heap_pos_def)
    ultimately show ?thesis using os new by simp
  qed
  then show "others_same t cdb cdb2" "no_alias cdb2" "session_carts cdb2 t = Some a"
    "heap_pos cdb \<Longrightarrow> heap_pos cdb2" "c_sessions cdb2 = c_sessions cdb"
    by simp_all
qed

lemma heap_write_inv:
  assumes na: "no_alias cdb" and a: "session_carts cdb t = Some a"
  shows "others_same t cdb (cdb\<lparr>dict_heap := (dict_heap cdb)(a := c)\<rparr>)"
    "no_alias (cdb\<lparr>dict_heap := (dict_heap cdb)(a := c)\<rparr>)"
    "heap_pos cdb \<Longrightarrow> cart_pos c \<Longrightarrow> heap_pos (cdb\<lparr>dict_heap := (dict_heap cdb)(a := c)\<rparr>)"
proof -
  have other_s: "session_carts cdb t' \<noteq> Some a" if "t' \<noteq> t" for t'
    using na a that unfolding no_alias_def by metis
  have other_b: "saved_carts cdb b \<noteq> Some a" for b
    using na a unfolding no_alias_def by metis
  show "others_same t cdb (cdb\<lparr>dict_heap := (dict_heap cdb)(a := c)\<rparr>)"
    unfolding others_same_def session_view_def saved_view_def
    using other_s other_b by (auto simp: map_option_case split: option.splits)
  show "no_alias (cdb\<lparr>dict_heap := (dict_heap cdb)(a := c)\<rparr>)"
    using na unfolding no_alias_def by simp
  show "heap_pos cdb \<Longrightarrow> cart_pos c \<Longrightarrow> heap_pos (cdb\<lparr>dict_heap := (dict_heap cdb)(a := c)\<rparr>)"
    by (simp add: heap_pos_def)
qed

lemma cart_add_inv:
  assumes na: "no_alias cdb"
  shows "others_same t cdb (snd (cart_add cdb t k q now))
       \<and> no_alias (snd (cart_add cdb t k q now))
       \<and> (heap_pos cdb \<longrightarrow> heap_pos (snd (cart_add cdb t k q now)))"
proof (cases "q \<le> 0")
  case True
  then show ?thesis using na by (simp add: cart_add_def)
next
  case False
  obtain r cdb1 where b: "buyer_session cdb t now = (r, cdb1)"
    by (cases "buyer_session cdb t now")
  note b1 = buyer_session_inv[OF b]
  show ?thesis
  proof (cases r)
    case None
    then show ?thesis using False b b1 na by (simp add: cart_add_def)
  next
    case (Some s)
    obtain a cdb2 where sd: "session_cart_setdefault cdb1 t = (a, cdb2)"
      by (cases "session_cart_setdefault cdb1 t")
    note s2 = setdefault_inv[OF sd b1(2)[OF na]]
    let ?c = "dict_heap cdb2 a"
    let ?c' = "AList.update k ((case map_of ?c k of None \<Rightarrow> 0 | Some n \<Rightarrow> n) + q) ?c"
    have res: "snd (cart_add cdb t k q now) = cdb2\<lparr>dict_heap := (dict_heap cdb2)(a := ?c')\<rparr>"
      using False b Some sd by (simp add: cart_add_def Let_def)
    note w = heap_write_inv[OF s2(2) s2(3), of ?c']
    have os: "others_same t cdb (cdb2\<lparr>dict_heap := (dict_heap cdb2)(a := ?c')\<rparr>)"
      using b1(1) s2(1) w(1) by (blast intro: others_same_trans)
    have hp: "heap_pos (cdb2\<lparr>dict_heap := (dict_heap cdb2)(a := ?c')\<rparr>)" if "heap_pos cdb"
    proof -
      have h2: "heap_pos cdb2" using that b1(3) s2(4) by simp
      then have cp: "cart_pos ?c" by (simp add: heap_pos_def)
      have "0 \<le> (case map_of ?c k of None \<Rightarrow> 0 | Some n \<Rightarrow> n)"
        using cart_pos_lookup[OF cp, of k] by (auto split: option.splits)
      then have "cart_pos ?c'" using False by (intro cart_pos_update[OF cp]) simp
      then show ?thesis using w(3)[OF h2] by simp
    qed
    show ?thesis unfolding res using os w(2) hp by simp
  qed
qed

lemma cart_remove_inv:
  assumes na: "no_alias cdb"
  shows "others_same t cdb (snd (cart_remove cdb t k q now))
       \<and> no_alias (snd (cart_remove cdb t k q now))
       \<and> (heap_pos cdb \<longrightarrow> heap_pos (snd (cart_remove cdb t k q now)))"
proof (cases "q \<le> 0")
  case True
  then show ?thesis using na by (simp add: cart_remove_def)
next
  case False
  obtain r cdb1 where b: "buyer_session cdb t now = (r, cdb1)"
    by (cases "buyer_session cdb t now")
  note b1 = buyer_session_inv[OF b]
  show ?thesis
  proof (cases r)
    case None
    then show ?thesis using False b b1 na by (simp add: cart_remove_def)
  next
    case (Some s)
    obtain a cdb2 where sd: "session_cart_setdefault cdb1 t = (a, cdb2)"
      by (cases "session_cart_setdefault cdb1 t")
    note s2 = setdefault_inv[OF sd b1(2)[OF na]]
    let ?c = "dict_heap cdb2 a"
    let ?cur = "case map_of ?c k of None \<Rightarrow> 0 | Some n \<Rightarrow> n"
    let ?c' = "if ?cur - q = 0 then AList.delete k ?c else AList.update k (?cur - q) ?c"
    have os2: "others_same t cdb cdb2" using b1(1) s2(1) by (blast intro: others_same_trans)
    have hp2: "heap_pos cdb2" if "heap_pos cdb" using that b1(3) s2(4) by simp
    show ?thesis
    proof (cases "?cur \<le> 0 \<or> q > ?cur")
      case True
      then have "snd (cart_remove cdb t k q now) = cdb2"
        using False b Some sd by (auto simp: cart_remove_def Let_def)
      then show ?thesis using os2 s2(2) hp2 by simp
    next
      case ok: False
      have res: "snd (cart_remove cdb t k q now) = cdb2\<lparr>dict_heap := (dict_heap cdb2)(a := ?c')\<rparr>"
        using False ok b Some sd by (simp add: cart_remove_def Let_def)
      note w = heap_write_inv[OF s2(2) s2(3), of ?c']
      have os: "others_same t cdb (cdb2\<lparr>dict_heap := (dict_heap cdb2)(a := ?c')\<rparr>)"
        using os2 w(1) by (blast intro: others_same_trans)
      have hp: "heap_pos (cdb2\<lparr>dict_heap := (dict_heap cdb2)(a := ?c')\<rparr>)" if "heap_pos cdb"
      proof -
        have cp: "cart_pos ?c" using hp2[OF that] by (simp add: heap_pos_def)
        have "cart_pos ?c'" using ok cart_pos_delete[OF cp, of k] cart_pos_update[OF cp, of "?cur - q" k]
          by (auto split: if_splits)
        then show ?thesis using w(3)[OF hp2[OF that]] by simp
      qed
      show ?thesis unfolding res using os w(2) hp by simp
    qed
  qed
qed

lemma cart_clear_inv:
  assumes na: "no_alias cdb"
  shows "others_same t cdb (snd (cart_clear cdb t now))
       \<and> no_alias (snd (cart_clear cdb t now))
       \<and> (heap_pos cdb \<longrightarrow> heap_pos (snd (cart_clear cdb t now)))"
proof -
  obtain r cdb1 where b: "buyer_session cdb t now = (r, cdb1)"
    by (cases "buyer_session cdb t now")
  note b1 = buyer_session_inv[OF b]
  show ?thesis
  proof (cases r)
    case None
    then show ?thesis using b b1 na by (simp add: cart_clear_def)
  next
    case (Some s)
    let ?cdb2 = "cdb1\<lparr>dict_heap := (dict_heap cdb1)(next_addr cdb1 := []),
                     next_addr := Suc (next_addr cdb1),
                     session_carts := (session_carts cdb1)(t \<mapsto> next_addr cdb1)\<rparr>"
    have res: "snd (cart_clear cdb t now) = ?cdb2"
      using b Some by (simp add: cart_clear_def new_dict_def)
    have na1: "no_alias cdb1" using b1(2)[OF na] .
    have fresh_s: "session_carts cdb1 t' \<noteq> Some (next_addr cdb1)" for t'
      using na1 unfolding no_alias_def by (metis less_irrefl)
    have fresh_b: "saved_carts cdb1 b \<noteq> Some (next_addr cdb1)" for b
      using na1 unfolding no_alias_def by (metis less_irrefl)
    have "others_same t cdb1 ?cdb2"
      unfolding others_same_def session_view_def saved_view_def
      using fresh_s fresh_b by (auto simp: map_option_case split: option.splits)
    then have os: "others_same t cdb ?cdb2" using b1(1) by (blast intro: others_same_trans)
    have na2: "no_alias ?cdb2" using na1 by (intro no_alias_new_session[of cdb1 ?cdb2 t]) simp_all
    have hp: "heap_pos ?cdb2" if "heap_pos cdb"
      using b1(3)[OF that] by (simp add: heap_pos_def)
    show ?thesis unfolding res using os na2 hp by simp
  qed
qed

lemma cart_save_inv:
  assumes na: "no_alias cdb"
  shows "no_alias (snd (cart_save cdb t now))
       \<and> (heap_pos cdb \<longrightarrow> heap_pos (snd (cart_save cdb t now)))"
proof -
  obtain r cdb1 where b: "buyer_session cdb t now = (r, cdb1)"
    by (cases "buyer_session cdb t now")
  note b1 = buyer_session_inv[OF b]
  show ?thesis
  proof (cases r)
    case None
    then show ?thesis using b b1 na by (simp add: cart_save_def)
  next
    case (Some s)
    let ?c = "case session_carts cdb1 t of None \<Rightarrow> [] | Some a \<Rightarrow> dict_heap cdb1 a"
    let ?cdb2 = "cdb1\<lparr>dict_heap := (dict_heap cdb1)(next_addr cdb1 := ?c),
                     next_addr := Suc (next_addr cdb1),
                     saved_carts := (saved_carts cdb1)(user_id s \<mapsto> next_addr cdb1)\<rparr>"
    have res: "snd (cart_save cdb t now) = ?cdb2"
      using b Some by (simp add: cart_save_def new_dict_def Let_def)
    have na1: "no_alias cdb1" using b1(2)[OF na] .
    have na2: "no_alias ?cdb2"
      using na1 by (intro no_alias_new_saved[of cdb1 ?cdb2 "user_id s"]) simp_all
    have hp: "heap_pos ?cdb2" if "heap_pos cdb"
    proof -
      have h1: "heap_pos cdb1" using b1(3)[OF that] .
      then have "cart_pos ?c" by (auto simp: heap_pos_def split: option.splits)
      then show ?thesis using h1 by (simp add: heap_pos_def)
    qed
    show ?thesis unfolding res using na2 hp by simp
  qed
qed

lemma cart_get_inv:
  assumes na: "no_alias cdb"
  shows "no_alias (snd (cart_get cdb t now))
       \<and> (heap_pos cdb \<longrightarrow> heap_pos (snd (cart_get cdb t now)))"
proof -
  obtain r cdb1 where b: "buyer_session cdb t now = (r, cdb1)"
    by (cases "buyer_session cdb t now")
  note b1 = buyer_session_inv[OF b]
  have "snd (cart_get cdb t now) = cdb1"
    using b by (cases r) (simp_all add: cart_get_def)
  then show ?thesis using b1 na by simp
qed

lemma validate_session_inv:
  assumes na: "no_alias cdb"
  shows "no_alias (snd (validate_session cdb r t now))
       \<and> (heap_pos cdb \<longrightarrow> heap_pos (snd (validate_session cdb r t now)))"
proof -
  obtain r0 cdb1 where b: "touch_or_expire cdb t now = (r0, cdb1)"
    by (cases "touch_or_expire cdb t now")
  note b1 = touch_inv[OF b]
  have "snd (validate_session cdb r t now) = cdb1"
    using b by (cases r0) (simp_all add: validate_session_def Let_def)
  then show ?thesis using b1 na by simp
qed

lemma logout_inv:
  assumes na: "no_alias cdb"
  shows "no_alias (logout cdb t) \<and> (heap_pos cdb \<longrightarrow> heap_pos (logout cdb t))"
proof -
  have "no_alias (logout cdb t)"
  proof (rule no_alias_shrink[OF na])
    fix t' a assume "session_carts (logout cdb t) t' = Some a"
    then show "session_carts cdb t' = Some a" by (auto simp: logout_def split: if_splits)
  qed (simp_all add: logout_def)
  then show ?thesis by (simp add: heap_pos_def logout_def)
qed

lemma create_account_inv:
  assumes na: "no_alias cdb"
  shows "no_alias (snd (create_account cdb r name pw now))
       \<and> (heap_pos cdb \<longrightarrow> heap_pos (snd (create_account cdb r name pw now)))"
proof -
  let ?cdb' = "snd (create_account cdb r name pw now)"
  have f: "session_carts ?cdb' = session_carts cdb" "saved_carts ?cdb' = saved_carts cdb"
    "next_addr ?cdb' = next_addr cdb" "dict_heap ?cdb' = dict_heap cdb"
    by (auto simp: create_account_def Let_def split: option.splits)
  have "no_alias ?cdb'" using na f unfolding no_alias_def by simp
  then show ?thesis using f by (simp add: heap_pos_def)
qed

lemma login_inv:
  assumes na: "no_alias cdb"
  shows "no_alias (snd (login cdb r u pw token now))
       \<and> (heap_pos cdb \<longrightarrow> heap_pos (snd (login cdb r u pw token now)))"
proof -
  obtain res cdb' where l: "login cdb r u pw token now = (res, cdb')"
    by (cases "login cdb r u pw token now")
  from login_effect[OF l] show ?thesis
  proof (elim disjE exE conjE)
    fix e assume "res = Inl e" "cdb' = cdb"
    then show ?thesis using l na by simp
  next
    fix uid content
    assume c: "content = (if strip (lower r) = ''seller'' then []
                          else case saved_carts cdb uid of None \<Rightarrow> [] | Some a \<Rightarrow> dict_heap cdb a)"
      and f: "session_carts cdb' = (session_carts cdb)(token \<mapsto> next_addr cdb)"
        "saved_carts cdb' = saved_carts cdb" "next_addr cdb' = Suc (next_addr cdb)"
        "dict_heap cdb' = (dict_heap cdb)(next_addr cdb := content)"
    have "no_alias cdb'" using na f by (intro no_alias_new_session[of cdb cdb' token]) simp_all
    moreover have "heap_pos cdb'" if "heap_pos cdb"
    proof -
      have "cart_pos content" using that c by (auto simp: heap_pos_def split: option.splits)
      then show ?thesis using that f(4) by (simp add: heap_pos_def)
    qed
    ultimately show ?thesis using l by simp
  qed
qed

lemma customer_inv_step: "customer_inv cdb \<Longrightarrow> customer_inv (customer_step cdb op)"
proof (cases op)
  case (TouchSession t now)
  assume "customer_inv cdb"
  then show ?thesis
    using TouchSession
      touch_inv[of cdb t now "fst (touch_or_expire cdb t now)" "snd (touch_or_expire cdb t now)"]
    by (simp add: customer_inv_def)
qed (simp_all add: customer_inv_def create_account_inv login_inv logout_inv validate_session_inv
       cart_get_inv cart_add_inv cart_remove_inv cart_clear_inv cart_save_inv)

lemma customer_inv_foldl: "customer_inv cdb \<Longrightarrow> customer_inv (foldl customer_step cdb ops)"
  by (induction ops arbitrary: cdb) (simp_all add: customer_inv_step)

lemma customer_inv_run: "customer_inv (customer_run t ops)"
  unfolding customer_run_def
  by (rule customer_inv_foldl) (simp add: customer_inv_def no_alias_init heap_pos_init)

lemma cart_get_fst:
  "fst (cart_get cdb t now)
     = (case fst (session_view cdb t) of
          None \<Rightarrow> Inl InvalidBuyerSession
        | Some s \<Rightarrow>
            if now - last_activity s \<ge> real_of_int (timeout_seconds cdb) \<or> c_role s \<noteq> ''buyer''
            then Inl InvalidBuyerSession
            else Inr (case snd (session_view cdb t) of None \<Rightarrow> [] | Some c \<Rightarrow> c))"
  by (auto simp: cart_get_def buyer_session_def touch_or_expire_def session_view_def Let_def
        split: option.splits)

lemma cart_get_others_same:
  assumes "others_same t1 cdb cdb'" "t2 \<noteq> t1"
  shows "fst (cart_get cdb' t2 now) = fst (cart_get cdb t2 now)"
proof -
  have v: "session_view cdb' t2 = session_view cdb t2" "timeout_seconds cdb' = timeout_seconds cdb"
    using assms by (simp_all add: others_same_def)
  show ?thesis unfolding cart_get_fst v ..
qed

lemma login_fresh_cart:
  assumes na: "no_alias cdb" and l: "login cdb r u pw token now = (Inr (uid, tk), cdb')"
  shows "\<exists>a. session_carts cdb' token = Some a
            \<and> dict_heap cdb' a = (if strip (lower r) = ''seller'' then []
                                   else case saved_view cdb uid of None \<Rightarrow> [] | Some c \<Rightarrow> c)
            \<and> (\<forall>t'. t' \<noteq> token \<longrightarrow> session_carts cdb' t' \<noteq> Some a)
            \<and> (\<forall>b. saved_carts cdb' b \<noteq> Some a)
            \<and> (\<forall>b. saved_view cdb' b = saved_view cdb b)"
proof -
  from login_effect[OF l] obtain content where
    c: "content = (if strip (lower r) = ''seller'' then []
                   else case saved_carts cdb uid of None \<Rightarrow> [] | Some a \<Rightarrow> dict_heap cdb a)"
    and f: "session_carts cdb' = (session_carts cdb)(token \<mapsto> next_addr cdb)"
      "saved_carts cdb' = saved_carts cdb" "next_addr cdb' = Suc (next_addr cdb)"
      "dict_heap cdb' = (dict_heap cdb)(next_addr cdb := content)"
    by auto
  have fresh_s: "session_carts cdb t' \<noteq> Some (next_addr cdb)" for t'
    using na unfolding no_alias_def by (metis less_irrefl)
  have fresh_b: "saved_carts cdb b \<noteq> Some (next_addr cdb)" for b
    using na unfolding no_alias_def by (metis less_irrefl)
  have "session_carts cdb' token = Some (next_addr cdb)" using f by simp
  moreover have "dict_heap cdb' (next_addr cdb)
      = (if strip (lower r) = ''seller'' then []
         else case saved_view cdb uid of None \<Rightarrow> [] | Some c \<Rightarrow> c)"
    using f c by (auto simp: saved_view_def split: option.splits)
  moreover have "\<forall>t'. t' \<noteq> token \<longrightarrow> session_carts cdb' t' \<noteq> Some (next_addr cdb)"
    using f fresh_s by simp
  moreover have "\<forall>b. saved_carts cdb' b \<noteq> Some (next_addr cdb)"
    using f fresh_b by simp
  moreover have "\<forall>b. saved_view cdb' b = saved_view cdb b"
    using f fresh_b by (auto simp: saved_view_def map_option_case split: option.splits)
  ultimately show ?thesis by blast
qed

section \<open>Stock: quantities never negative, and checkout\<close>

lemma items_update_inv:
  "(\<forall>kv\<in>set al. P (snd kv)) \<Longrightarrow> P v \<Longrightarrow> \<forall>kv\<in>set (AList.update k v al). P (snd kv)"
  using set_update_subset[of k v al] by auto

lemma db_inv_items_update:
  assumes "db_inv d" "quantity it \<ge> 0" "sellers_by_id d (seller_id it) \<noteq> None"
  shows "db_inv (d\<lparr>items_by_key := AList.update k it (items_by_key d)\<rparr>)"
proof -
  have "\<forall>kv\<in>set (AList.update k it (items_by_key d)).
          quantity (snd kv) \<ge> 0 \<and> sellers_by_id d (seller_id (snd kv)) \<noteq> None"
    using assms by (intro items_update_inv) (simp_all add: db_inv_def)
  then show ?thesis using assms(1) by (simp add: db_inv_def)
qed

lemma db_inv_get_item:
  "db_inv d \<Longrightarrow> get_item d k = Some it
   \<Longrightarrow> quantity it \<ge> 0 \<and> sellers_by_id d (seller_id it) \<noteq> None"
  unfolding db_inv_def get_item_def by (auto dest!: map_of_SomeD)

lemma db_inv_init: "db_inv InMemoryDB_init"
  by (simp add: db_inv_def InMemoryDB_init_def)

lemma market_inv_init: "market_inv MarketState_init"
  by (simp add: market_inv_def MarketState_init_def db_inv_init)

lemma db_inv_add_seller: "db_inv d \<Longrightarrow> db_inv (snd (add_seller d name pw now))"
  by (auto simp: add_seller_def db_inv_def Let_def)

lemma db_inv_add_buyer: "db_inv d \<Longrightarrow> db_inv (snd (add_buyer d name pw now))"
  by (auto simp: add_buyer_def db_inv_def Let_def)

lemma db_inv_allocate: "db_inv d \<Longrightarrow> db_inv (snd (allocate_item_id d c))"
  by (auto simp: allocate_item_id_def db_inv_def Let_def)

lemma sellers_allocate [simp]: "sellers_by_id (snd (allocate_item_id d c)) = sellers_by_id d"
  by (simp add: allocate_item_id_def Let_def)

lemma db_inv_add_item:
  assumes "db_inv d" "quantity it \<ge> 0" "sellers_by_id d (seller_id it) \<noteq> None"
    and "add_item d it = Inr d'"
  shows "db_inv d'"
proof -
  have "d' = (d\<lparr>items_by_key := AList.update (item_id it) it (items_by_key d)\<rparr>)
              \<lparr>items_by_seller := setdefault_append (items_by_seller d) (seller_id it) (item_id it)\<rparr>"
    using assms(4) by (auto simp: add_item_def Let_def split: if_splits)
  moreover have "db_inv (d\<lparr>items_by_key := AList.update (item_id it) it (items_by_key d)\<rparr>)"
    using assms(1-3) by (rule db_inv_items_update)
  ultimately show ?thesis by (simp add: db_inv_def)
qed

lemma db_inv_update_item_quantity:
  assumes "db_inv d" "n \<ge> 0" "update_item_quantity d k n = Inr d'"
  shows "db_inv d'"
proof -
  obtain it where g: "get_item d k = Some it"
    and d': "d' = d\<lparr>items_by_key := AList.update k (it\<lparr>quantity := n\<rparr>) (items_by_key d)\<rparr>"
    using assms(3) by (auto simp: update_item_quantity_def get_item_def split: option.splits)
  show ?thesis unfolding d'
    using assms(1,2) db_inv_get_item[OF assms(1) g] by (intro db_inv_items_update) simp_all
qed

lemma db_inv_update_item_price:
  assumes "db_inv d" "update_item_price d k p = Inr d'"
  shows "db_inv d'"
proof -
  obtain it where g: "get_item d k = Some it"
    and d': "d' = d\<lparr>items_by_key := AList.update k (it\<lparr>sale_price := p\<rparr>) (items_by_key d)\<rparr>"
    using assms(2) by (auto simp: update_item_price_def get_item_def split: option.splits)
  show ?thesis unfolding d'
    using assms(1) db_inv_get_item[OF assms(1) g] by (intro db_inv_items_update) simp_all
qed

lemma db_inv_add_item_feedback:
  assumes "db_inv d" "add_item_feedback d k up down = Inr d'"
  shows "db_inv d'"
proof -
  obtain it fb where g: "get_item d k = Some it"
    and d': "d' = d\<lparr>items_by_key := AList.update k (it\<lparr>item_feedback := fb\<rparr>) (items_by_key d)\<rparr>"
    using assms(2)
    by (auto simp: add_item_feedback_def get_item_def Let_def split: option.splits if_splits)
  show ?thesis unfolding d'
    using assms(1) db_inv_get_item[OF assms(1) g] by (intro db_inv_items_update) simp_all
qed

lemma db_inv_remove_units: "db_inv d \<Longrightarrow> db_inv (snd (remove_units_for_sale d k rq))"
proof (cases "rq < 0")
  case True
  assume "db_inv d" then show ?thesis using True by (simp add: remove_units_for_sale_def)
next
  case False
  assume inv: "db_inv d"
  show ?thesis
  proof (cases "get_item d k")
    case None
    then show ?thesis using inv False by (simp add: remove_units_for_sale_def get_item_def)
  next
    case (Some it)
    show ?thesis
    proof (cases "quantity it < rq")
      case True
      then show ?thesis using inv False Some by (simp add: remove_units_for_sale_def get_item_def)
    next
      case ok: False
      have "snd (remove_units_for_sale d k rq)
              = d\<lparr>items_by_key := AList.update k (it\<lparr>quantity := quantity it - rq\<rparr>) (items_by_key d)\<rparr>"
        using False Some ok by (simp add: remove_units_for_sale_def get_item_def)
      moreover have "db_inv (d\<lparr>items_by_key := AList.update k (it\<lparr>quantity := quantity it - rq\<rparr>) (items_by_key d)\<rparr>)"
        using inv ok db_inv_get_item[OF inv Some] by (intro db_inv_items_update) simp_all
      ultimately show ?thesis by simp
    qed
  qed
qed

lemma db_inv_inc_seller:
  assumes "db_inv d" "inc_seller_items_sold d sid delta = Inr d'"
  shows "db_inv d'"
  using assms by (fastforce simp: inc_seller_items_sold_def db_inv_def split: option.splits)

lemma db_inv_inc_buyer:
  assumes "db_inv d" "inc_buyer_items_purchased d bid delta = Inr d'"
  shows "db_inv d'"
  using assms by (fastforce simp: inc_buyer_items_purchased_def db_inv_def split: option.splits)

lemma db_inv_save_cart: "db_inv d \<Longrightarrow> cart_pos c \<Longrightarrow> db_inv (save_cart d bid c)"
  by (auto simp: save_cart_def db_inv_def Let_def cart_pos_filter)

lemma db_inv_add_transaction: "db_inv d \<Longrightarrow> db_inv (add_transaction d txn)"
  by (auto simp: add_transaction_def db_inv_def)

lemma validate_cart_None: "validate_cart d c = None \<longleftrightarrow> validated d c"
  by (induction c) (auto simp: validated_def split: option.splits if_splits)

lemma get_item_update_quantity:
  assumes "update_item_quantity d k n = Inr d1"
  shows "get_item d1 k' = (if k' = k then map_option (\<lambda>it. it\<lparr>quantity := n\<rparr>) (get_item d k)
                           else get_item d k')"
    and "sellers_by_id d1 = sellers_by_id d" and "buyers_by_id d1 = buyers_by_id d"
    and "transactions_by_id d1 = transactions_by_id d"
    and "transactions_by_buyer d1 = transactions_by_buyer d"
  using assms
  by (auto simp: update_item_quantity_def get_item_def update_conv' split: option.splits)

lemma inc_seller_frame:
  assumes "inc_seller_items_sold d sid delta = Inr d2"
  shows "get_item d2 = get_item d" and "buyers_by_id d2 = buyers_by_id d"
    and "transactions_by_id d2 = transactions_by_id d"
    and "transactions_by_buyer d2 = transactions_by_buyer d"
  using assms
  by (auto simp: inc_seller_items_sold_def get_item_def fun_eq_iff split: option.splits)

lemma inc_seller_ok:
  "sellers_by_id d sid \<noteq> None \<Longrightarrow> \<exists>d2. inc_seller_items_sold d sid delta = Inr d2"
  by (auto simp: inc_seller_items_sold_def)

lemma update_quantity_ok:
  "get_item d k \<noteq> None \<Longrightarrow> \<exists>d1. update_item_quantity d k n = Inr d1"
  by (auto simp: update_item_quantity_def get_item_def)

lemma apply_cart_ok:
  assumes "db_inv d" "distinct (map fst c)" "validated d c"
  shows "\<exists>res d'. apply_cart d c tot lines units = (Inr res, d') \<and> db_inv d'
           \<and> buyers_by_id d' = buyers_by_id d
           \<and> transactions_by_id d' = transactions_by_id d
           \<and> transactions_by_buyer d' = transactions_by_buyer d"
  using assms
proof (induction c arbitrary: d tot lines units)
  case Nil
  then show ?case by simp
next
  case (Cons kq rest)
  obtain k q where kq: "kq = (k, q)" by (cases kq)
  obtain it where g: "get_item d k = Some it" and q: "q > 0" "quantity it \<ge> q"
    using Cons.prems(3) kq by (auto simp: validated_def)
  obtain d1 where u: "update_item_quantity d k (quantity it - q) = Inr d1"
    using update_quantity_ok[of d k] g by auto
  note f1 = get_item_update_quantity[OF u]
  have inv1: "db_inv d1" using db_inv_update_item_quantity[OF Cons.prems(1) _ u] q by simp
  have "sellers_by_id d1 (seller_id it) \<noteq> None"
    using db_inv_get_item[OF Cons.prems(1) g] f1(2) by simp
  then obtain d2 where s: "inc_seller_items_sold d1 (seller_id it) q = Inr d2"
    using inc_seller_ok by blast
  note f2 = inc_seller_frame[OF s]
  have inv2: "db_inv d2" using inv1 s by (rule db_inv_inc_seller)
  have k_notin: "k \<notin> fst ` set rest" using Cons.prems(2) kq by simp
  have val2: "validated d2 rest"
    unfolding validated_def
  proof
    fix kq' assume m: "kq' \<in> set rest"
    then have "fst kq' \<noteq> k" using k_notin by auto
    then have "get_item d2 (fst kq') = get_item d (fst kq')" using f1(1) f2(1) by simp
    then show "\<exists>it. get_item d2 (fst kq') = Some it \<and> snd kq' > 0 \<and> quantity it \<ge> snd kq'"
      using Cons.prems(3) m by (simp add: validated_def)
  qed
  have dist: "distinct (map fst rest)" using Cons.prems(2) by simp
  obtain res d' where r: "apply_cart d2 rest (tot + sale_price it * real_of_int q)
        (lines @ [\<lparr>line_item_id = k, line_seller_id = seller_id it, qty = q, price_each = sale_price it\<rparr>])
        (units + q) = (Inr res, d')"
    and inv': "db_inv d'" and fr: "buyers_by_id d' = buyers_by_id d2"
      "transactions_by_id d' = transactions_by_id d2"
      "transactions_by_buyer d' = transactions_by_buyer d2"
    using Cons.IH[OF inv2 dist val2] by blast
  have "apply_cart d (kq # rest) tot lines units = (Inr res, d')"
    using kq g u s r by (simp add: Let_def)
  then show ?case using inv' fr f1(2-) f2(2-) by (intro exI[of _ res] exI[of _ d']) simp
qed

lemma market_inv_cart_of: "market_inv st \<Longrightarrow> cart_pos (cart_of st bid)"
  by (auto simp: market_inv_def cart_of_def split: option.splits)

lemma market_inv_cleared: "market_inv st \<Longrightarrow> market_inv (cleared st bid)"
  by (simp add: market_inv_def cleared_def)

lemma inc_buyer_ok:
  "buyers_by_id d bid \<noteq> None \<Longrightarrow> \<exists>d2. inc_buyer_items_purchased d bid delta = Inr d2"
  by (auto simp: inc_buyer_items_purchased_def)

lemma do_purchase_fail_early:
  "get_buyer (db st) bid = None \<Longrightarrow> do_purchase st bid tid now = (Inl BuyerNotFound, st)"
  "get_buyer (db st) bid \<noteq> None \<Longrightarrow> cart_of st bid = []
     \<Longrightarrow> do_purchase st bid tid now = (Inl CartEmpty, cleared st bid)"
  "get_buyer (db st) bid \<noteq> None \<Longrightarrow> cart_of st bid \<noteq> []
     \<Longrightarrow> validate_cart (db st) (cart_of st bid) = Some e
     \<Longrightarrow> do_purchase st bid tid now = (Inl e, cleared st bid)"
  by (auto simp: do_purchase_def cart_of_def cleared_def Let_def split: option.splits)

lemma do_purchase_success:
  assumes inv: "market_inv st" and b: "get_buyer (db st) bid \<noteq> None"
    and ne: "cart_of st bid \<noteq> []" and v: "validate_cart (db st) (cart_of st bid) = None"
  shows "\<exists>txn d'. do_purchase st bid tid now = (Inr txn, (cleared st bid)\<lparr>db := d'\<rparr>)
           \<and> db_inv d' \<and> txn_id txn = tid \<and> txn_buyer_id txn = bid
           \<and> transactions_by_id d' = (transactions_by_id (db st))(tid \<mapsto> txn)"
proof -
  let ?c = "cart_of st bid"
  have dinv: "db_inv (db st)" using inv by (simp add: market_inv_def)
  have cp: "cart_pos ?c" using inv by (rule market_inv_cart_of)
  have val: "validated (db st) ?c" using v by (simp add: validate_cart_None)
  obtain res d1 where a: "apply_cart (db st) ?c 0 [] 0 = (Inr res, d1)" and inv1: "db_inv d1"
    and f: "buyers_by_id d1 = buyers_by_id (db st)"
      "transactions_by_id d1 = transactions_by_id (db st)"
    using apply_cart_ok[OF dinv _ val, of 0 "[]" 0] cp by (auto simp: cart_pos_def)
  obtain tot lines units where res: "res = (tot, lines, units)" by (cases res)
  have "buyers_by_id d1 bid \<noteq> None" using b f by (simp add: get_buyer_def)
  then obtain d2 where i: "inc_buyer_items_purchased d1 bid units = Inr d2"
    using inc_buyer_ok by blast
  have inv2: "db_inv d2" using inv1 i by (rule db_inv_inc_buyer)
  have t2: "transactions_by_id d2 = transactions_by_id (db st)"
    using i f by (auto simp: inc_buyer_items_purchased_def split: option.splits)
  let ?txn = "\<lparr>txn_id = tid, txn_buyer_id = bid, txn_items = lines, total = tot,
               txn_created_at = now\<rparr>"
  have "do_purchase st bid tid now = (Inr ?txn, (cleared st bid)\<lparr>db := add_transaction d2 ?txn\<rparr>)"
    using b ne v a res i
    by (auto simp: do_purchase_def cart_of_def cleared_def Let_def split: option.splits)
  moreover have "db_inv (add_transaction d2 ?txn)" using inv2 by (rule db_inv_add_transaction)
  moreover have "transactions_by_id (add_transaction d2 ?txn)
                   = (transactions_by_id (db st))(tid \<mapsto> ?txn)"
    using t2 by (simp add: add_transaction_def)
  ultimately show ?thesis by (intro exI[of _ ?txn] exI[of _ "add_transaction d2 ?txn"]) simp
qed

lemma market_inv_db: "market_inv st \<Longrightarrow> db_inv d' \<Longrightarrow> market_inv (st\<lparr>db := d'\<rparr>)"
  by (simp add: market_inv_def)

lemma market_inv_carts:
  "market_inv st \<Longrightarrow> cart_pos c \<Longrightarrow> market_inv (st\<lparr>carts := (carts st)(b \<mapsto> c)\<rparr>)"
  by (simp add: market_inv_def)

lemma market_inv_sessions [simp]: "market_inv (st\<lparr>sessions := x\<rparr>) = market_inv st"
  by (simp add: market_inv_def)

lemma market_inv_saved: "market_inv st \<Longrightarrow> cart_pos (load_saved_cart (db st) b)"
  by (auto simp: market_inv_def db_inv_def load_saved_cart_def split: option.splits)

lemma inv_buyer_create_account:
  "market_inv st \<Longrightarrow> market_inv (snd (buyer_create_account st name pw now))"
proof -
  assume inv: "market_inv st"
  have "db_inv (snd (add_buyer (db st) name pw now))"
    using inv by (simp add: market_inv_def db_inv_add_buyer)
  then have "market_inv (st\<lparr>db := snd (add_buyer (db st) name pw now)\<rparr>)"
    using inv by (simp add: market_inv_db)
  then show ?thesis using inv
    by (cases "add_buyer (db st) name pw now"; cases "fst (add_buyer (db st) name pw now)")
       (auto simp: buyer_create_account_def)
qed

lemma inv_seller_create_account:
  "market_inv st \<Longrightarrow> market_inv (snd (seller_create_account st name pw now))"
proof -
  assume inv: "market_inv st"
  have "db_inv (snd (add_seller (db st) name pw now))"
    using inv by (simp add: market_inv_def db_inv_add_seller)
  then have "market_inv (st\<lparr>db := snd (add_seller (db st) name pw now)\<rparr>)"
    using inv by (simp add: market_inv_db)
  then show ?thesis using inv
    by (cases "add_seller (db st) name pw now"; cases "fst (add_seller (db st) name pw now)")
       (auto simp: seller_create_account_def)
qed

lemma inv_buyer_login_ok: "market_inv st \<Longrightarrow> market_inv (buyer_login_ok st b token now)"
proof -
  assume inv: "market_inv st"
  have "cart_pos (load_saved_cart (db st) (b_id b))" using inv by (rule market_inv_saved)
  then show ?thesis using inv
    by (simp add: buyer_login_ok_def create_session_def Let_def market_inv_def)
qed

lemma inv_buyer_login:
  "market_inv st \<Longrightarrow> market_inv (snd (buyer_login st bid name pw token now))"
  by (auto simp: buyer_login_def inv_buyer_login_ok split: option.splits list.splits)

lemma inv_seller_login:
  "market_inv st \<Longrightarrow> market_inv (snd (seller_login st sid name pw token now))"
  by (auto simp: seller_login_def create_session_def split: option.splits list.splits)

lemma inv_buyer_logout: "market_inv st \<Longrightarrow> market_inv (buyer_logout st token)"
  by (auto simp: buyer_logout_def delete_session_def Let_def market_inv_carts
        split: option.splits)

lemma inv_seller_logout: "market_inv st \<Longrightarrow> market_inv (seller_logout st token)"
  by (simp add: seller_logout_def delete_session_def)

lemma inv_buyer_add_item_to_cart:
  assumes inv: "market_inv st"
  shows "market_inv (snd (buyer_add_item_to_cart st token iid q))"
proof (cases "require_buyer_session st token")
  case None
  then show ?thesis using inv by (simp add: buyer_add_item_to_cart_def)
next
  case (Some tb)
  obtain tok bid where tb: "tb = (tok, bid)" by (cases tb)
  let ?c = "cart_of st bid"
  let ?already = "case map_of ?c iid of None \<Rightarrow> 0 | Some n \<Rightarrow> n"
  have cp: "cart_pos ?c" using inv by (rule market_inv_cart_of)
  have a0: "0 \<le> ?already" using cart_pos_lookup[OF cp, of iid] by (auto split: option.splits)
  have keep: "market_inv (st\<lparr>carts := (carts st)(bid \<mapsto> ?c)\<rparr>)"
    using inv cp by (rule market_inv_carts)
  have upd: "market_inv (st\<lparr>carts := (carts st)(bid \<mapsto> AList.update iid (?already + q) ?c)\<rparr>)"
    if "q > 0"
    using inv a0 that by (intro market_inv_carts cart_pos_update[OF cp]) simp_all
  show ?thesis
    using Some tb inv keep upd
    by (auto simp: buyer_add_item_to_cart_def cart_of_def Let_def split: option.splits)
qed

lemma inv_buyer_remove_item_from_cart:
  assumes inv: "market_inv st"
  shows "market_inv (snd (buyer_remove_item_from_cart st token iid q))"
proof (cases "require_buyer_session st token")
  case None
  then show ?thesis using inv by (simp add: buyer_remove_item_from_cart_def)
next
  case (Some tb)
  obtain tok bid where tb: "tb = (tok, bid)" by (cases tb)
  let ?c = "cart_of st bid"
  have cp: "cart_pos ?c" using inv by (rule market_inv_cart_of)
  have keep: "market_inv (st\<lparr>carts := (carts st)(bid \<mapsto> ?c)\<rparr>)"
    using inv cp by (rule market_inv_carts)
  have del: "market_inv (st\<lparr>carts := (carts st)(bid \<mapsto> AList.delete iid ?c)\<rparr>)"
    using inv cart_pos_delete[OF cp] by (rule market_inv_carts)
  have upd: "market_inv (st\<lparr>carts := (carts st)(bid \<mapsto> AList.update iid n ?c)\<rparr>)"
    if "n \<ge> 1" for n
    using inv cart_pos_update[OF cp that] by (rule market_inv_carts)
  show ?thesis
  proof (cases "q \<le> 0")
    case True
    then show ?thesis using Some tb inv by (simp add: buyer_remove_item_from_cart_def)
  next
    case qpos: False
    show ?thesis
    proof (cases "map_of ?c iid")
      case None
      then show ?thesis using Some tb qpos keep
        by (simp add: buyer_remove_item_from_cart_def cart_of_def Let_def)
    next
      case (Some cur)
      show ?thesis
      proof (cases "q > cur")
        case True
        then show ?thesis using \<open>require_buyer_session st token = Some tb\<close> tb qpos keep Some
          by (simp add: buyer_remove_item_from_cart_def cart_of_def Let_def)
      next
        case False
        then show ?thesis
          using \<open>require_buyer_session st token = Some tb\<close> tb qpos Some del upd[of "cur - q"]
          by (auto simp: buyer_remove_item_from_cart_def cart_of_def Let_def)
      qed
    qed
  qed
qed

lemma inv_buyer_save_cart: "market_inv st \<Longrightarrow> market_inv (snd (buyer_save_cart st token))"
proof (cases "require_buyer_session st token")
  case None
  assume "market_inv st" then show ?thesis using None by (simp add: buyer_save_cart_def)
next
  case (Some tb)
  assume inv: "market_inv st"
  obtain tok bid where tb: "tb = (tok, bid)" by (cases tb)
  have "db_inv (save_cart (db st) bid (cart_of st bid))"
    using inv market_inv_cart_of[OF inv, of bid] by (simp add: market_inv_def db_inv_save_cart)
  then have "market_inv (st\<lparr>db := save_cart (db st) bid (cart_of st bid)\<rparr>)"
    using inv by (simp add: market_inv_db)
  then show ?thesis using Some tb by (simp add: buyer_save_cart_def cart_of_def Let_def)
qed

lemma inv_buyer_clear_cart: "market_inv st \<Longrightarrow> market_inv (snd (buyer_clear_cart st token))"
  by (auto simp: buyer_clear_cart_def market_inv_carts split: option.splits)

lemma inv_do_purchase:
  assumes inv: "market_inv st"
  shows "market_inv (snd (do_purchase st bid tid now))"
proof (cases "get_buyer (db st) bid")
  case None
  then show ?thesis using inv by (simp add: do_purchase_fail_early)
next
  case (Some b)
  then have b: "get_buyer (db st) bid \<noteq> None" by simp
  show ?thesis
  proof (cases "cart_of st bid = []")
    case True
    then show ?thesis using inv b by (simp add: do_purchase_fail_early market_inv_cleared)
  next
    case ne: False
    show ?thesis
    proof (cases "validate_cart (db st) (cart_of st bid)")
      case (Some e)
      then show ?thesis using inv b ne by (simp add: do_purchase_fail_early market_inv_cleared)
    next
      case None
      obtain txn d' where "do_purchase st bid tid now = (Inr txn, (cleared st bid)\<lparr>db := d'\<rparr>)"
        and "db_inv d'"
        using do_purchase_success[OF inv b ne None, of tid now] by blast
      then show ?thesis using market_inv_cleared[OF inv, of bid] by (simp add: market_inv_db)
    qed
  qed
qed

lemma inv_buyer_make_purchase:
  "market_inv st \<Longrightarrow> market_inv (snd (buyer_make_purchase st token tid now))"
  by (auto simp: buyer_make_purchase_def inv_do_purchase split: option.splits)

lemma inv_buyer_provide_feedback:
  assumes inv: "market_inv st"
  shows "market_inv (snd (buyer_provide_feedback st token iid up))"
proof (cases "require_buyer_session st token")
  case None
  then show ?thesis using inv by (simp add: buyer_provide_feedback_def)
next
  case (Some tb)
  show ?thesis
  proof (cases "add_item_feedback (db st) iid (if up then 1 else 0) (if up then 0 else 1)")
    case (Inl e)
    then show ?thesis using Some inv by (auto simp: buyer_provide_feedback_def split: prod.splits)
  next
    case (Inr d)
    have "db_inv d" using inv Inr by (auto simp: market_inv_def intro: db_inv_add_item_feedback)
    then have "market_inv (st\<lparr>db := d\<rparr>)" using inv by (rule market_inv_db[rotated])
    then show ?thesis using Some Inr
      by (auto simp: buyer_provide_feedback_def split: prod.splits option.splits)
  qed
qed

lemma inv_seller_register_item_for_sale:
  assumes inv: "market_inv st"
  shows "market_inv (snd (seller_register_item_for_sale st token a now))"
proof (cases "require_seller_session st token")
  case None
  then show ?thesis using inv by (simp add: seller_register_item_for_sale_def)
next
  case (Some tb)
  obtain tok sid where tb: "tb = (tok, sid)" by (cases tb)
  show ?thesis
  proof (cases "get_seller (db st) sid")
    case None
    then show ?thesis using Some tb inv by (simp add: seller_register_item_for_sale_def)
  next
    case s: (Some s)
    let ?ok = "\<not> (a_item_name a = [] \<or> length (a_item_name a) > 32
                 \<or> (lower (strip (a_condition a)) \<noteq> ''new'' \<and> lower (strip (a_condition a)) \<noteq> ''used'')
                 \<or> length (a_keywords a) > 5 \<or> list_ex (\<lambda>kw. length kw > 8) (a_keywords a)
                 \<or> a_item_quantity a < 0 \<or> a_sale_price a < 0)"
    show ?thesis
    proof (cases ?ok)
      case False
      then show ?thesis using Some tb s inv
        by (auto simp: seller_register_item_for_sale_def Let_def)
    next
      case True
      obtain iid d1 where al: "allocate_item_id (db st) (a_item_category a) = (iid, d1)"
        by (cases "allocate_item_id (db st) (a_item_category a)")
      let ?item = "\<lparr>item_id = iid, seller_id = sid, item_name = a_item_name a,
                      item_category = a_item_category a,
                      item_keywords = a_keywords a, condition = lower (strip (a_condition a)),
                      sale_price = a_sale_price a, quantity = a_item_quantity a,
                      item_feedback = \<lparr>thumbs_up = 0, thumbs_down = 0\<rparr>,
                      created_at = now\<rparr>"
      have d1: "db_inv d1" "sellers_by_id d1 = sellers_by_id (db st)"
        using inv al db_inv_allocate[of "db st" "a_item_category a"]
          sellers_allocate[of "db st" "a_item_category a"]
        by (simp_all add: market_inv_def)
      have m1: "market_inv (st\<lparr>db := d1\<rparr>)" using inv d1(1) by (rule market_inv_db)
      show ?thesis
      proof (cases "add_item d1 ?item")
        case (Inl e)
        then show ?thesis using Some tb s True al m1
          by (auto simp: seller_register_item_for_sale_def Let_def)
      next
        case (Inr d2)
        have "db_inv d2"
          using db_inv_add_item[OF d1(1) _ _ Inr] True s d1(2) by (simp add: get_seller_def)
        then have "market_inv (st\<lparr>db := d2\<rparr>)" using inv by (rule market_inv_db[rotated])
        then show ?thesis using Some tb s True al Inr
          by (auto simp: seller_register_item_for_sale_def Let_def)
      qed
    qed
  qed
qed

lemma inv_seller_change_item_price:
  assumes inv: "market_inv st"
  shows "market_inv (snd (seller_change_item_price st token iid p))"
proof (cases "update_item_price (db st) iid p")
  case (Inl e)
  then show ?thesis using inv
    by (auto simp: seller_change_item_price_def split: option.splits)
next
  case (Inr d)
  have "db_inv d" using inv Inr by (auto simp: market_inv_def intro: db_inv_update_item_price)
  then have "market_inv (st\<lparr>db := d\<rparr>)" using inv by (rule market_inv_db[rotated])
  then show ?thesis using inv Inr
    by (auto simp: seller_change_item_price_def split: option.splits)
qed

lemma inv_seller_update_units_for_sale:
  assumes inv: "market_inv st"
  shows "market_inv (snd (seller_update_units_for_sale st token iid n))"
proof -
  have "db_inv (snd (remove_units_for_sale (db st) iid n))"
    using inv by (simp add: market_inv_def db_inv_remove_units)
  then have "market_inv (st\<lparr>db := snd (remove_units_for_sale (db st) iid n)\<rparr>)"
    using inv by (rule market_inv_db[rotated])
  then show ?thesis using inv
    by (auto simp: seller_update_units_for_sale_def split: option.splits prod.splits)
qed

lemma market_inv_step: "market_inv st \<Longrightarrow> market_inv (market_step st op)"
  by (cases op)
     (simp_all add: inv_buyer_create_account inv_buyer_login inv_buyer_logout
        inv_buyer_add_item_to_cart inv_buyer_remove_item_from_cart inv_buyer_save_cart
        inv_buyer_clear_cart inv_buyer_make_purchase inv_buyer_provide_feedback
        inv_seller_create_account inv_seller_login inv_seller_logout
        inv_seller_register_item_for_sale inv_seller_change_item_price
        inv_seller_update_units_for_sale)

lemma market_inv_foldl: "market_inv st \<Longrightarrow> market_inv (foldl market_step st ops)"
  by (induction ops arbitrary: st) (simp_all add: market_inv_step)

lemma market_inv_run: "market_inv (market_run ops)"
  unfolding market_run_def by (rule market_inv_foldl[OF market_inv_init])

lemma product_inv_update:
  "product_inv pdb \<Longrightarrow> quantity it \<ge> 0
   \<Longrightarrow> product_inv (pdb\<lparr>items := AList.update k it (items pdb)\<rparr>)"
  unfolding product_inv_def using items_update_inv[of "items pdb" "\<lambda>it. quantity it \<ge> 0" it k]
  by simp

lemma product_inv_lookup: "product_inv pdb \<Longrightarrow> map_of (items pdb) k = Some it \<Longrightarrow> quantity it \<ge> 0"
  unfolding product_inv_def by (auto dest!: map_of_SomeD)

lemma product_inv_register:
  assumes "product_inv pdb"
  shows "product_inv (snd (register_item pdb sid a now))"
proof (cases "validate_item_fields a")
  case (Inl e)
  then show ?thesis using assms by (simp add: register_item_def)
next
  case (Inr a')
  have q: "a_item_quantity a' \<ge> 0"
    using Inr by (auto simp: validate_item_fields_def Let_def split: if_splits)
  obtain iid pdb1 where n: "new_item_id pdb (a_item_category a') = (iid, pdb1)"
    by (cases "new_item_id pdb (a_item_category a')")
  have "items pdb1 = items pdb" using n by (auto simp: new_item_id_def Let_def)
  then have "product_inv pdb1" using assms by (simp add: product_inv_def)
  then show ?thesis using Inr n q
    by (simp add: register_item_def Let_def product_inv_update)
qed

lemma product_inv_change_price:
  assumes "product_inv pdb"
  shows "product_inv (snd (change_item_price pdb sid iid p))"
  using assms product_inv_lookup[OF assms, of iid]
  by (auto simp: change_item_price_def product_inv_update split: option.splits)

lemma product_inv_update_units:
  assumes "product_inv pdb"
  shows "product_inv (snd (update_units_remove pdb sid iid n))"
  using assms product_inv_lookup[OF assms, of iid]
  by (auto simp: update_units_remove_def product_inv_update split: option.splits)

lemma product_inv_feedback:
  assumes "product_inv pdb"
  shows "product_inv (snd (provide_feedback pdb iid vote))"
  using assms product_inv_lookup[OF assms, of iid]
  by (auto simp: provide_feedback_def Let_def product_inv_update split: option.splits)

lemma product_inv_step: "product_inv pdb \<Longrightarrow> product_inv (product_step pdb op)"
  by (cases op)
     (simp_all add: product_inv_register product_inv_change_price product_inv_update_units
        product_inv_feedback)

lemma product_inv_foldl: "product_inv pdb \<Longrightarrow> product_inv (foldl product_step pdb ops)"
  by (induction ops arbitrary: pdb) (simp_all add: product_inv_step)

lemma product_inv_run: "product_inv (product_run ops)"
  unfolding product_run_def
  by (rule product_inv_foldl) (simp add: product_inv_def ProductDB_init_def)

lemma register_item_negative:
  "a_item_quantity a < 0 \<Longrightarrow> \<exists>e. register_item pdb sid a now = (Inl e, pdb)"
  by (auto simp: register_item_def validate_item_fields_def Let_def)

lemma update_units_remove_too_many:
  "map_of (items pdb) iid = Some it \<Longrightarrow> n > quantity it
   \<Longrightarrow> \<exists>e. update_units_remove pdb sid iid n = (Inl e, pdb)"
  by (auto simp: update_units_remove_def)

lemma remove_units_too_many:
  "get_item d iid = Some it \<Longrightarrow> n > quantity it
   \<Longrightarrow> \<exists>e. remove_units_for_sale d iid n = (Inl e, d)"
  by (auto simp: remove_units_for_sale_def get_item_def)

lemma seller_register_negative:
  "a_item_quantity a < 0 \<Longrightarrow> \<exists>e. seller_register_item_for_sale st token a now = (Inl e, st)"
  by (auto simp: seller_register_item_for_sale_def Let_def split: option.splits)

lemma do_purchase_insufficient:
  assumes "get_item (db st) iid = Some it" "(iid, q) \<in> set (cart_of st bid)" "quantity it < q"
  shows "\<exists>e. fst (do_purchase st bid tid now) = Inl e \<and> db (snd (do_purchase st bid tid now)) = db st"
proof (cases "get_buyer (db st) bid")
  case None
  then show ?thesis by (simp add: do_purchase_fail_early)
next
  case (Some b)
  have ne: "cart_of st bid \<noteq> []" using assms(2) by auto
  have "\<not> validated (db st) (cart_of st bid)"
    using assms unfolding validated_def by force
  then obtain e where "validate_cart (db st) (cart_of st bid) = Some e"
    using validate_cart_None[of "db st" "cart_of st bid"] by (cases "validate_cart (db st) (cart_of st bid)") auto
  then show ?thesis using Some ne by (simp add: do_purchase_fail_early cleared_def)
qed

text \<open>
  C4. After every sequence of operations of the product store, and after every sequence
  of operations of the single-process server (registration, removal of units, purchase and
  all the others), every stored item has a quantity of at least 0. Registration rejects a
  negative quantity, removal rejects more units than are available, and a purchase with a
  line that asks for more units than the item has fails and leaves the store unchanged;
  each of the rejections leaves the state as it was.
\<close>

theorem quantity_never_negative:
  "((k, it) \<in> set (items (product_run pops)) \<longrightarrow> 0 \<le> quantity it)
   \<and> ((k', it') \<in> set (items_by_key (db (market_run mops))) \<longrightarrow> 0 \<le> quantity it')
   \<and> (a_item_quantity a < 0 \<longrightarrow> (\<exists>e. register_item pdb sid a now = (Inl e, pdb)))
   \<and> (a_item_quantity a < 0
        \<longrightarrow> (\<exists>e. seller_register_item_for_sale st token a now = (Inl e, st)))
   \<and> (map_of (items pdb) iid = Some it0 \<and> n > quantity it0
        \<longrightarrow> (\<exists>e. update_units_remove pdb sid iid n = (Inl e, pdb)))
   \<and> (get_item d iid = Some it1 \<and> n > quantity it1
        \<longrightarrow> (\<exists>e. remove_units_for_sale d iid n = (Inl e, d)))
   \<and> (get_item (db st) iid = Some it2 \<and> (iid, q) \<in> set (cart_of st bid) \<and> quantity it2 < q
        \<longrightarrow> (\<exists>e. fst (do_purchase st bid tid now) = Inl e
                 \<and> db (snd (do_purchase st bid tid now)) = db st))"
proof -
  have p: "(k, it) \<in> set (items (product_run pops)) \<longrightarrow> 0 \<le> quantity it"
    using product_inv_run[of pops] by (auto simp: product_inv_def)
  have m: "(k', it') \<in> set (items_by_key (db (market_run mops))) \<longrightarrow> 0 \<le> quantity it'"
    using market_inv_run[of mops] by (auto simp: market_inv_def db_inv_def)
  show ?thesis
    using p m register_item_negative[of a pdb sid now]
      seller_register_negative[of a st token now]
      update_units_remove_too_many[of pdb iid it0 n sid]
      remove_units_too_many[of d iid it1 n]
      do_purchase_insufficient[of st iid it2 q bid tid now]
    by blast
qed

lemma stock_facts:
  "items (product_run stock_product_ops) = [(stock_id, stock_item 0)]"
  "items_by_key (db (market_run stock_market_ops)) = [(stock_id, stock_item 0)]"
  "a_item_quantity (stock_attrs (- 1)) = - 1"
  "map_of (items (product_run stock_product_ops)) stock_id = Some (stock_item 0)"
  "get_item (db (market_run short_market_ops)) stock_id = Some (stock_item 2)"
  "cart_of (market_run short_market_ops) 1 = [(stock_id, 3)]"
  "quantity (stock_item 2) = 2" "quantity (stock_item 0) = 0"
  by code_simp+

theorem quantity_never_negative_witness:
  "items (product_run stock_product_ops) = [(stock_id, stock_item 0)]
   \<and> items_by_key (db (market_run stock_market_ops)) = [(stock_id, stock_item 0)]
   \<and> 0 \<le> quantity (stock_item 0)
   \<and> (\<exists>e. register_item (product_run stock_product_ops) 1 (stock_attrs (- 1)) 9
             = (Inl e, product_run stock_product_ops))
   \<and> (\<exists>e. seller_register_item_for_sale (market_run short_market_ops) ''s1'' (stock_attrs (- 1)) 9
             = (Inl e, market_run short_market_ops))
   \<and> (\<exists>e. update_units_remove (product_run stock_product_ops) 1 stock_id 1
             = (Inl e, product_run stock_product_ops))
   \<and> (\<exists>e. remove_units_for_sale (db (market_run short_market_ops)) stock_id 3
             = (Inl e, db (market_run short_market_ops)))
   \<and> (\<exists>e. fst (do_purchase (market_run short_market_ops) 1 ''txn_1'' 9) = Inl e
          \<and> db (snd (do_purchase (market_run short_market_ops) 1 ''txn_1'' 9))
              = db (market_run short_market_ops))"
  using quantity_never_negative[where k = stock_id and it = "stock_item 0" and pops = stock_product_ops
      and k' = stock_id and it' = "stock_item 0" and mops = stock_market_ops
      and a = "stock_attrs (- 1)" and pdb = "product_run stock_product_ops" and sid = 1 and now = 9
      and st = "market_run short_market_ops" and token = "''s1''"
      and iid = stock_id and ?it0.0 = "stock_item 0" and n = 1
      and d = "db (market_run short_market_ops)" and ?it1.0 = "stock_item 2"
      and ?it2.0 = "stock_item 2" and q = 3 and bid = 1 and tid = "''txn_1''"]
    quantity_never_negative[where n = 3 and iid = stock_id
      and d = "db (market_run short_market_ops)" and ?it1.0 = "stock_item 2"]
  by (simp add: stock_facts)

lemma do_purchase_result:
  assumes inv: "market_inv st"
  shows "(get_buyer (db st) bid = None \<and> do_purchase st bid tid now = (Inl BuyerNotFound, st))
       \<or> (get_buyer (db st) bid \<noteq> None \<and> cart_of st bid = []
           \<and> do_purchase st bid tid now = (Inl CartEmpty, cleared st bid))
       \<or> (get_buyer (db st) bid \<noteq> None \<and> cart_of st bid \<noteq> []
           \<and> (\<exists>e. validate_cart (db st) (cart_of st bid) = Some e
                  \<and> do_purchase st bid tid now = (Inl e, cleared st bid)))
       \<or> (get_buyer (db st) bid \<noteq> None \<and> cart_of st bid \<noteq> []
           \<and> validate_cart (db st) (cart_of st bid) = None
           \<and> (\<exists>txn d'. do_purchase st bid tid now = (Inr txn, (cleared st bid)\<lparr>db := d'\<rparr>)
                  \<and> txn_id txn = tid \<and> txn_buyer_id txn = bid
                  \<and> transactions_by_id d' = (transactions_by_id (db st))(tid \<mapsto> txn)))"
proof (cases "get_buyer (db st) bid")
  case None
  then show ?thesis by (simp add: do_purchase_fail_early)
next
  case (Some b)
  then have b: "get_buyer (db st) bid \<noteq> None" by simp
  show ?thesis
  proof (cases "cart_of st bid = []")
    case True
    then show ?thesis using b by (simp add: do_purchase_fail_early)
  next
    case ne: False
    show ?thesis
    proof (cases "validate_cart (db st) (cart_of st bid)")
      case (Some e)
      then show ?thesis using b ne by (simp add: do_purchase_fail_early)
    next
      case None
      then show ?thesis using b ne do_purchase_success[OF inv b ne None, of tid now] by blast
    qed
  qed
qed

text \<open>
  C5 (as amended). In every reachable state of the single-process server, a failed
  \<open>_do_purchase\<close> leaves the store (items, counters, transactions, saved carts) and the
  sessions unchanged and touches no other buyer's cart; when the buyer does not exist the
  whole state is unchanged, otherwise the buyer's active cart is empty afterwards, since the
  cart is copied and cleared before it is validated. A successful purchase records the
  returned transaction under its id and empties the buyer's cart. The purchase succeeds
  exactly when the buyer exists, the cart is not empty and every line validates.
\<close>

theorem checkout_atomic:
  assumes reach: "st = market_run ops"
  shows "(do_purchase st bid tid now = (Inl e, st')
           \<longrightarrow> db st' = db st \<and> sessions st' = sessions st
               \<and> (\<forall>b. b \<noteq> bid \<longrightarrow> carts st' b = carts st b)
               \<and> (if get_buyer (db st) bid = None then st' = st
                   else carts st' bid = Some []))
       \<and> (do_purchase st bid tid now = (Inr txn, st')
           \<longrightarrow> transactions_by_id (db st') = (transactions_by_id (db st))(tid \<mapsto> txn)
               \<and> txn_id txn = tid \<and> txn_buyer_id txn = bid
               \<and> sessions st' = sessions st \<and> carts st' = (carts st)(bid \<mapsto> []))
       \<and> ((\<exists>t s. do_purchase st bid tid now = (Inr t, s))
           \<longleftrightarrow> (get_buyer (db st) bid \<noteq> None \<and> cart_of st bid \<noteq> []
                \<and> validate_cart (db st) (cart_of st bid) = None))"
proof -
  have inv: "market_inv st" unfolding reach by (rule market_inv_run)
  from do_purchase_result[OF inv, of bid tid now] show ?thesis
    by (elim disjE conjE exE) (auto simp: cleared_def)
qed

lemma short_facts:
  "fst (do_purchase (market_run short_market_ops) 1 ''txn_1'' 9) = Inl InsufficientInventory"
  "get_buyer (db (market_run short_market_ops)) 1 \<noteq> None"
  "cart_of (market_run (butlast short_market_ops)) 1 \<noteq> []"
  "validate_cart (db (market_run (butlast short_market_ops))) (cart_of (market_run (butlast short_market_ops)) 1) = None"
  "get_buyer (db (market_run (butlast short_market_ops))) 1 \<noteq> None"
  by code_simp+

theorem checkout_atomic_witness:
  "fst (do_purchase (market_run short_market_ops) 1 ''txn_1'' 9) = Inl InsufficientInventory
   \<and> db (snd (do_purchase (market_run short_market_ops) 1 ''txn_1'' 9)) = db (market_run short_market_ops)
   \<and> carts (snd (do_purchase (market_run short_market_ops) 1 ''txn_1'' 9)) 1 = Some []
   \<and> (\<exists>t s. do_purchase (market_run (butlast short_market_ops)) 1 ''txn_1'' 9 = (Inr t, s))"
proof -
  let ?S = "market_run short_market_ops"
  have d: "do_purchase ?S 1 ''txn_1'' 9 = (Inl InsufficientInventory, snd (do_purchase ?S 1 ''txn_1'' 9))"
    using short_facts(1) by (metis prod.collapse)
  show ?thesis
    using checkout_atomic[where st = ?S and ops = short_market_ops and bid = 1 and tid = "''txn_1''"
        and now = 9 and e = InsufficientInventory and st' = "snd (do_purchase ?S 1 ''txn_1'' 9)"] d
      checkout_atomic[where st = "market_run (butlast short_market_ops)"
        and ops = "butlast short_market_ops" and bid = 1 and tid = "''txn_1''" and now = 9]
    by (simp add: short_facts)
qed

text \<open>
  C5 as stated fails for the active cart: the buyer's cart holds three lamps, two are in
  stock, the purchase fails with insufficient inventory, and the cart displayed afterwards
  is empty.
\<close>

theorem checkout_atomic_counterexample:
  "buyer_display_cart (market_run short_market_ops) ''b1'' = Inr [(stock_id, 3)]
   \<and> fst (buyer_make_purchase (market_run short_market_ops) ''b1'' ''txn_1'' 9)
       = Inl InsufficientInventory
   \<and> buyer_display_cart (snd (buyer_make_purchase (market_run short_market_ops) ''b1'' ''txn_1'' 9)) ''b1''
       = Inr []"
  by code_simp

section \<open>Carts: quantities of at least one, and the saved cart\<close>















lemma buyer_session_user:
  assumes "buyer_session cdb t now = (Some s', cdb0)" "c_sessions cdb t = Some s"
  shows "user_id s' = user_id s"
  using assms
  by (auto simp: buyer_session_def touch_or_expire_def Let_def split: option.splits if_splits)

lemma cart_save_effect:
  assumes save: "cart_save cdb t now = (Inr c, cdb1)" and s: "c_sessions cdb t = Some s"
  shows "fst (cart_get cdb t now) = Inr c"
    "\<exists>a. saved_carts cdb1 (user_id s) = Some a \<and> dict_heap cdb1 a = c"
    "timeout_seconds cdb1 = timeout_seconds cdb"
proof -
  obtain r cdb0 where b: "buyer_session cdb t now = (r, cdb0)" by (cases "buyer_session cdb t now")
  from save b obtain s' where r: "r = Some s'"
    by (cases r) (auto simp: cart_save_def)
  have u: "user_id s' = user_id s" using buyer_session_user[of cdb t now s' cdb0 s] b r s by simp
  let ?c = "case session_carts cdb0 t of None \<Rightarrow> [] | Some a \<Rightarrow> dict_heap cdb0 a"
  from save b r have c: "c = ?c"
    and cdb1: "cdb1 = (snd (new_dict cdb0 ?c))\<lparr>saved_carts :=
                  (saved_carts (snd (new_dict cdb0 ?c)))(user_id s' \<mapsto> fst (new_dict cdb0 ?c))\<rparr>"
    by (auto simp: cart_save_def Let_def split: prod.splits)
  show "fst (cart_get cdb t now) = Inr c" using b r c by (simp add: cart_get_def)
  show "\<exists>a. saved_carts cdb1 (user_id s) = Some a \<and> dict_heap cdb1 a = c"
    unfolding cdb1 using u c by (simp add: new_dict_def)
  show "timeout_seconds cdb1 = timeout_seconds cdb"
    unfolding cdb1 using buyer_session_frame(4)[OF b] by (simp add: new_dict_def)
qed

lemma customer_restore:
  assumes save: "cart_save cdb t now1 = (Inr c, cdb1)"
    and s: "c_sessions cdb t = Some s"
    and rb: "strip (lower role_in) = ''buyer''"
    and l: "login (logout cdb1 t) role_in u pw t' now2 = (Inr (user_id s, tk), cdb3)"
    and live: "now3 - now2 < real_of_int (timeout_seconds cdb)"
  shows "fst (cart_get cdb t now1) = Inr c \<and> snd (session_view cdb3 t') = Some c
         \<and> fst (cart_get cdb3 t' now3) = Inr c"
proof -
  note e = cart_save_effect[OF save s]
  from e(2) obtain a where a: "saved_carts cdb1 (user_id s) = Some a" "dict_heap cdb1 a = c" by blast
  let ?L = "logout cdb1 t"
  have La: "saved_carts ?L (user_id s) = Some a" "dict_heap ?L a = c"
    "timeout_seconds ?L = timeout_seconds cdb"
    using a e(3) by (simp_all add: logout_def)
  from login_effect[OF l] have
    sc: "session_carts cdb3 = (session_carts ?L)(t' \<mapsto> next_addr ?L)"
    and dh: "dict_heap cdb3 = (dict_heap ?L)(next_addr ?L := c)"
    and tm: "timeout_seconds cdb3 = timeout_seconds ?L"
    and cs: "c_sessions cdb3 = (c_sessions ?L)(t' \<mapsto>
               \<lparr>c_role = ''buyer'', user_id = user_id s, c_created_at = now2, last_activity = now2\<rparr>)"
    using rb La by auto
  have v: "session_view cdb3 t'
     = (Some \<lparr>c_role = ''buyer'', user_id = user_id s, c_created_at = now2, last_activity = now2\<rparr>,
        Some c)"
    by (simp add: session_view_def sc dh cs)
  have "fst (cart_get cdb3 t' now3) = Inr c"
    unfolding cart_get_fst v using live tm La(3) by simp
  then show ?thesis using e(1) v by simp
qed

lemma cart_pos_filter_id: "cart_pos c \<Longrightarrow> filter (\<lambda>kv. snd kv > 0) c = c"
  unfolding cart_pos_def by (induction c) auto

lemma buyer_login_success:
  assumes "buyer_login st bido name pwh token now = (Inr r, st')"
  shows "\<exists>b. st' = buyer_login_ok st b token now"
  using assms
  by (auto simp: buyer_login_def split: option.splits list.splits if_splits)

lemma buyer_login_ok_effect:
  "db (buyer_login_ok st b token now) = db st"
  "carts (buyer_login_ok st b token now) = (carts st)(b_id b \<mapsto> load_saved_cart (db st) (b_id b))"
  "sessions (buyer_login_ok st b token now)
     = (sessions st)(token \<mapsto> \<lparr>principal_id = b_id b, role = ''buyer'', session_created_at = now\<rparr>)"
  by (simp_all add: buyer_login_ok_def create_session_def Let_def)

lemma buyer_logout_db: "db (buyer_logout st token) = db st"
  by (auto simp: buyer_logout_def delete_session_def Let_def split: option.splits)

lemma market_restore:
  assumes inv: "market_inv st"
    and save: "buyer_save_cart st token = (Inr mc, st1)"
    and sess: "require_buyer_session st token = Some (tok0, bid)"
    and l: "buyer_login (buyer_logout st1 token) bido name pwh token' now = (Inr r, st3)"
    and sess': "require_buyer_session st3 token' = Some (tok1, bid)"
  shows "buyer_display_cart st token = Inr mc \<and> buyer_display_cart st3 token' = Inr mc"
proof -
  from save sess have mc: "mc = cart_of st bid" and st1: "st1 = st\<lparr>db := save_cart (db st) bid mc\<rparr>"
    by (auto simp: buyer_save_cart_def cart_of_def Let_def)
  have d1: "buyer_display_cart st token = Inr mc"
    using sess mc by (simp add: buyer_display_cart_def cart_of_def)
  have pos: "cart_pos mc" unfolding mc using inv by (rule market_inv_cart_of)
  let ?st2 = "buyer_logout st1 token"
  have saved: "load_saved_cart (db ?st2) bid = mc"
    unfolding buyer_logout_db st1
    by (simp add: load_saved_cart_def save_cart_def cart_pos_filter_id[OF pos])
  from buyer_login_success[OF l] obtain b where st3: "st3 = buyer_login_ok ?st2 b token' now" ..
  have ne: "token' \<noteq> []"
    using sess' by (auto simp: require_buyer_session_def get_session_def split: if_splits)
  have "b_id b = bid"
    using sess' ne unfolding st3
    by (simp add: require_buyer_session_def get_session_def buyer_login_ok_effect)
  then have "carts st3 bid = Some mc"
    unfolding st3 using saved by (simp add: buyer_login_ok_effect)
  then have "buyer_display_cart st3 token' = Inr mc"
    using sess' by (simp add: buyer_display_cart_def)
  then show ?thesis using d1 by simp
qed

text \<open>
  C9. A buyer saves the cart while the active cart is \<open>c\<close>, logs out and logs in again
  as the same buyer: the new session's active cart is \<open>c\<close> exactly. In the customer
  store the cart is read through the new token before the new session expires; in the
  single-process server it is the cart displayed for the new token, in every reachable
  state.
\<close>

theorem saved_cart_restored:
  "(cart_save cdb t now1 = (Inr c, cdb1) \<and> c_sessions cdb t = Some s
      \<and> strip (lower role_in) = ''buyer''
      \<and> login (logout cdb1 t) role_in u pw t' now2 = (Inr (user_id s, tk), cdb3)
      \<and> now3 - now2 < real_of_int (timeout_seconds cdb)
     \<longrightarrow> fst (cart_get cdb t now1) = Inr c \<and> snd (session_view cdb3 t') = Some c
         \<and> fst (cart_get cdb3 t' now3) = Inr c)
   \<and> (buyer_save_cart (market_run mops) token = (Inr mc, st1)
      \<and> require_buyer_session (market_run mops) token = Some (tok0, bid)
      \<and> buyer_login (buyer_logout st1 token) bido name pwh token' now = (Inr r, st3)
      \<and> require_buyer_session st3 token' = Some (tok1, bid)
     \<longrightarrow> buyer_display_cart (market_run mops) token = Inr mc
         \<and> buyer_display_cart st3 token' = Inr mc)"
  using customer_restore[of cdb t now1 c cdb1 s role_in u pw t' now2 tk cdb3 now3]
    market_restore[OF market_inv_run, of mops token mc st1 tok0 bid bido name pwh token' now r st3 tok1]
  by blast

lemma saved_facts:
  "fst (cart_save (customer_run 3600 saved_ops) ''t1'' 120) = Inr [(''A'', 2)]"
  "c_sessions (customer_run 3600 saved_ops) ''t1'' = Some saved_session"
  "strip (lower ''buyer'') = ''buyer''"
  "fst (login (logout (snd (cart_save (customer_run 3600 saved_ops) ''t1'' 120)) ''t1'')
         ''buyer'' (UStr ''alice'') ''pw1'' ''t2'' 130) = Inr (1, ''t2'')"
  "user_id saved_session = 1"
  "timeout_seconds (customer_run 3600 saved_ops) = 3600"
  "fst (buyer_save_cart (market_run saved_market_ops) ''b1'') = Inr [(stock_id, 2)]"
  "require_buyer_session (market_run saved_market_ops) ''b1'' = Some (''b1'', 1)"
  "fst (buyer_login (buyer_logout (snd (buyer_save_cart (market_run saved_market_ops) ''b1'')) ''b1'')
         None ''bea'' ''1f3a'' ''b2'' 5) = Inr (1, ''b2'')"
  "require_buyer_session
     (snd (buyer_login (buyer_logout (snd (buyer_save_cart (market_run saved_market_ops) ''b1'')) ''b1'')
         None ''bea'' ''1f3a'' ''b2'' 5)) ''b2'' = Some (''b2'', 1)"
  by code_simp+

theorem saved_cart_restored_witness:
  "fst (cart_save (customer_run 3600 saved_ops) ''t1'' 120) = Inr [(''A'', 2)]
   \<and> fst (login (logout (snd (cart_save (customer_run 3600 saved_ops) ''t1'' 120)) ''t1'')
         ''buyer'' (UStr ''alice'') ''pw1'' ''t2'' 130) = Inr (1, ''t2'')
   \<and> fst (cart_get (customer_run 3600 saved_ops) ''t1'' 120) = Inr [(''A'', 2)]
   \<and> fst (cart_get
        (snd (login (logout (snd (cart_save (customer_run 3600 saved_ops) ''t1'' 120)) ''t1'')
           ''buyer'' (UStr ''alice'') ''pw1'' ''t2'' 130)) ''t2'' 140) = Inr [(''A'', 2)]
   \<and> fst (buyer_save_cart (market_run saved_market_ops) ''b1'') = Inr [(stock_id, 2)]
   \<and> fst (buyer_login (buyer_logout (snd (buyer_save_cart (market_run saved_market_ops) ''b1'')) ''b1'')
         None ''bea'' ''1f3a'' ''b2'' 5) = Inr (1, ''b2'')
   \<and> buyer_display_cart (market_run saved_market_ops) ''b1'' = Inr [(stock_id, 2)]
   \<and> buyer_display_cart
        (snd (buyer_login (buyer_logout (snd (buyer_save_cart (market_run saved_market_ops) ''b1'')) ''b1'')
           None ''bea'' ''1f3a'' ''b2'' 5)) ''b2'' = Inr [(stock_id, 2)]"
proof -
  let ?D = "customer_run 3600 saved_ops"
  let ?D1 = "snd (cart_save ?D ''t1'' 120)"
  let ?D3 = "snd (login (logout ?D1 ''t1'') ''buyer'' (UStr ''alice'') ''pw1'' ''t2'' 130)"
  let ?S = "market_run saved_market_ops"
  let ?S1 = "snd (buyer_save_cart ?S ''b1'')"
  let ?S3 = "snd (buyer_login (buyer_logout ?S1 ''b1'') None ''bea'' ''1f3a'' ''b2'' 5)"
  have a: "cart_save ?D ''t1'' 120 = (Inr [(''A'', 2)], ?D1)"
    using saved_facts(1) by (simp add: prod_eq_iff)
  have b: "login (logout ?D1 ''t1'') ''buyer'' (UStr ''alice'') ''pw1'' ''t2'' 130
             = (Inr (user_id saved_session, ''t2''), ?D3)"
    using saved_facts(4,5) by (simp add: prod_eq_iff)
  have c: "buyer_save_cart ?S ''b1'' = (Inr [(stock_id, 2)], ?S1)"
    using saved_facts(7) by (simp add: prod_eq_iff)
  have d: "buyer_login (buyer_logout ?S1 ''b1'') None ''bea'' ''1f3a'' ''b2'' 5 = (Inr (1, ''b2''), ?S3)"
    using saved_facts(9) by (simp add: prod_eq_iff)
  show ?thesis
    using saved_cart_restored[where cdb = ?D and t = "''t1''" and ?now1.0 = 120 and c = "[(''A'', 2)]"
        and ?cdb1.0 = ?D1 and s = saved_session and role_in = "''buyer''" and u = "UStr ''alice''"
        and pw = "''pw1''" and t' = "''t2''" and ?now2.0 = 130 and tk = "''t2''" and ?cdb3.0 = ?D3
        and ?now3.0 = 140 and mops = saved_market_ops and token = "''b1''" and mc = "[(stock_id, 2)]"
        and ?st1.0 = ?S1 and ?tok0.0 = "''b1''" and bid = 1 and bido = None and name = "''bea''"
        and pwh = "''1f3a''" and token' = "''b2''" and now = 5 and r = "(1, ''b2'')" and ?st3.0 = ?S3
        and ?tok1.0 = "''b2''"]
      a b c d saved_facts
    by simp
qed

section \<open>Carts and the sessions of one buyer\<close>

lemma shared_display:
  assumes "require_buyer_session st m1 = Some (x1, bid)" "require_buyer_session st m2 = Some (x2, bid)"
  shows "buyer_display_cart st m2 = buyer_display_cart st m1"
  using assms by (simp add: buyer_display_cart_def)

lemma require_buyer_session_carts:
  "require_buyer_session (st\<lparr>carts := cs\<rparr>) m = require_buyer_session st m"
  by (simp add: require_buyer_session_def get_session_def)

lemma shared_add:
  assumes s1: "require_buyer_session st m1 = Some (x1, bid)"
    and s2: "require_buyer_session st m2 = Some (x2, bid)"
    and a: "buyer_add_item_to_cart st m1 iid n = (Inr (b, c), st')"
  shows "b = bid \<and> buyer_display_cart st' m2 = Inr c \<and> db st' = db st"
proof -
  from a s1 have "b = bid \<and> st' = st\<lparr>carts := (carts st)(bid \<mapsto> c)\<rparr>"
    by (auto simp: buyer_add_item_to_cart_def Let_def split: option.splits if_splits)
  then show ?thesis using s2
    by (simp add: buyer_display_cart_def require_buyer_session_carts)
qed

lemma shared_remove:
  assumes s1: "require_buyer_session st m1 = Some (x1, bid)"
    and s2: "require_buyer_session st m2 = Some (x2, bid)"
    and a: "buyer_remove_item_from_cart st m1 iid n = (Inr (b, c), st')"
  shows "b = bid \<and> buyer_display_cart st' m2 = Inr c \<and> db st' = db st"
proof -
  from a s1 have "b = bid \<and> st' = st\<lparr>carts := (carts st)(bid \<mapsto> c)\<rparr>"
    by (auto simp: buyer_remove_item_from_cart_def Let_def split: option.splits if_splits)
  then show ?thesis using s2
    by (simp add: buyer_display_cart_def require_buyer_session_carts)
qed

lemma shared_clear:
  assumes s1: "require_buyer_session st m1 = Some (x1, bid)"
    and s2: "require_buyer_session st m2 = Some (x2, bid)"
  shows "buyer_display_cart (snd (buyer_clear_cart st m1)) m2 = Inr []
         \<and> db (snd (buyer_clear_cart st m1)) = db st"
  using s1 s2
  by (simp add: buyer_clear_cart_def buyer_display_cart_def require_buyer_session_carts)

lemma login_replaces_cart:
  assumes l: "buyer_login st bido name pwh token now = (Inr r, st')"
    and s: "require_buyer_session st' token = Some (x, bid)"
    and s': "require_buyer_session st' m = Some (x', bid)"
  shows "buyer_display_cart st' m = Inr (load_saved_cart (db st) bid) \<and> db st' = db st"
proof -
  from buyer_login_success[OF l] obtain b where st': "st' = buyer_login_ok st b token now" ..
  have ne: "token \<noteq> []"
    using s by (auto simp: require_buyer_session_def get_session_def split: if_splits)
  have b: "b_id b = bid"
    using s ne unfolding st'
    by (simp add: require_buyer_session_def get_session_def buyer_login_ok_effect)
  have "carts st' bid = Some (load_saved_cart (db st) bid)"
    unfolding st' using b by (simp add: buyer_login_ok_effect)
  then have "buyer_display_cart st' m = Inr (load_saved_cart (db st) bid)"
    using s' by (simp add: buyer_display_cart_def)
  then show ?thesis unfolding st' by (simp add: buyer_login_ok_effect)
qed

text \<open>
  C6 (as amended). In the customer store active carts are isolated per session: in every
  reachable store, a cart mutation (add, remove, clear) performed with token \<open>t1\<close>
  leaves what \<open>cart_get\<close> answers for any other token \<open>t2\<close>, and every saved cart,
  unchanged; and a successful login stores for the new token a dictionary object at an
  address that no other session and no saved cart holds, whose contents are the buyer's
  saved cart (empty if there is none, and for a seller), and leaves the saved carts as
  they were. In the single-process server the active cart is keyed by buyer id, so the
  sessions of one buyer share it: in every state, two sessions \<open>m1\<close> and \<open>m2\<close> of one
  buyer display the same cart; the cart that an add or a remove through \<open>m1\<close> returns is
  the cart displayed through \<open>m2\<close> afterwards, and a clear through \<open>m1\<close> empties the
  cart displayed through \<open>m2\<close>; and a successful login replaces the cart that every
  session of that buyer displays by the buyer's saved cart (empty if there is none). None
  of these operations changes the store, so the saved cart stays as it was.
\<close>

theorem session_carts_isolated:
  assumes reach: "cdb = customer_run tmo ops" and diff: "t2 \<noteq> t1"
  shows "fst (cart_get (snd (cart_add cdb t1 k q now)) t2 now') = fst (cart_get cdb t2 now')
       \<and> fst (cart_get (snd (cart_remove cdb t1 k q now)) t2 now') = fst (cart_get cdb t2 now')
       \<and> fst (cart_get (snd (cart_clear cdb t1 now)) t2 now') = fst (cart_get cdb t2 now')
       \<and> saved_view (snd (cart_add cdb t1 k q now)) b = saved_view cdb b
       \<and> saved_view (snd (cart_remove cdb t1 k q now)) b = saved_view cdb b
       \<and> saved_view (snd (cart_clear cdb t1 now)) b = saved_view cdb b
       \<and> (login cdb r u pw token now = (Inr (uid, tk), cdb')
           \<longrightarrow> (\<exists>a. session_carts cdb' token = Some a
                  \<and> dict_heap cdb' a = (if strip (lower r) = ''seller'' then []
                                         else case saved_view cdb uid of None \<Rightarrow> [] | Some c \<Rightarrow> c)
                  \<and> (\<forall>t'. t' \<noteq> token \<longrightarrow> session_carts cdb' t' \<noteq> Some a)
                  \<and> (\<forall>b. saved_carts cdb' b \<noteq> Some a)
                  \<and> (\<forall>b. saved_view cdb' b = saved_view cdb b)))
       \<and> (require_buyer_session st m1 = Some (x1, bid) \<and> require_buyer_session st m2 = Some (x2, bid)
           \<longrightarrow> buyer_display_cart st m2 = buyer_display_cart st m1
              \<and> (buyer_add_item_to_cart st m1 iid n = (Inr (b1, c1), st1)
                  \<longrightarrow> b1 = bid \<and> buyer_display_cart st1 m2 = Inr c1 \<and> db st1 = db st)
              \<and> (buyer_remove_item_from_cart st m1 iid n = (Inr (b2, c2), st2)
                  \<longrightarrow> b2 = bid \<and> buyer_display_cart st2 m2 = Inr c2 \<and> db st2 = db st)
              \<and> buyer_display_cart (snd (buyer_clear_cart st m1)) m2 = Inr []
              \<and> db (snd (buyer_clear_cart st m1)) = db st)
       \<and> (buyer_login st bido name pwh mtoken mnow = (Inr res, st3)
           \<and> require_buyer_session st3 mtoken = Some (x3, bid)
           \<and> require_buyer_session st3 m3 = Some (x4, bid)
           \<longrightarrow> buyer_display_cart st3 m3 = Inr (load_saved_cart (db st) bid) \<and> db st3 = db st)"
proof -
  have na: "no_alias cdb" using customer_inv_run[of tmo ops] reach by (simp add: customer_inv_def)
  note a = cart_add_inv[OF na, of t1 k q now]
  note r = cart_remove_inv[OF na, of t1 k q now]
  note c = cart_clear_inv[OF na, of t1 now]
  have "fst (cart_get (snd (cart_add cdb t1 k q now)) t2 now') = fst (cart_get cdb t2 now')"
    using a diff by (intro cart_get_others_same[of t1]) simp_all
  moreover have "fst (cart_get (snd (cart_remove cdb t1 k q now)) t2 now') = fst (cart_get cdb t2 now')"
    using r diff by (intro cart_get_others_same[of t1]) simp_all
  moreover have "fst (cart_get (snd (cart_clear cdb t1 now)) t2 now') = fst (cart_get cdb t2 now')"
    using c diff by (intro cart_get_others_same[of t1]) simp_all
  moreover have "saved_view (snd (cart_add cdb t1 k q now)) b = saved_view cdb b"
    "saved_view (snd (cart_remove cdb t1 k q now)) b = saved_view cdb b"
    "saved_view (snd (cart_clear cdb t1 now)) b = saved_view cdb b"
    using a r c by (simp_all add: others_same_def)
  moreover have "login cdb r u pw token now = (Inr (uid, tk), cdb')
           \<longrightarrow> (\<exists>a. session_carts cdb' token = Some a
                  \<and> dict_heap cdb' a = (if strip (lower r) = ''seller'' then []
                                         else case saved_view cdb uid of None \<Rightarrow> [] | Some c \<Rightarrow> c)
                  \<and> (\<forall>t'. t' \<noteq> token \<longrightarrow> session_carts cdb' t' \<noteq> Some a)
                  \<and> (\<forall>b. saved_carts cdb' b \<noteq> Some a)
                  \<and> (\<forall>b. saved_view cdb' b = saved_view cdb b))"
    using login_fresh_cart[OF na] by blast
  moreover have "require_buyer_session st m1 = Some (x1, bid) \<and> require_buyer_session st m2 = Some (x2, bid)
           \<longrightarrow> buyer_display_cart st m2 = buyer_display_cart st m1
              \<and> (buyer_add_item_to_cart st m1 iid n = (Inr (b1, c1), st1)
                  \<longrightarrow> b1 = bid \<and> buyer_display_cart st1 m2 = Inr c1 \<and> db st1 = db st)
              \<and> (buyer_remove_item_from_cart st m1 iid n = (Inr (b2, c2), st2)
                  \<longrightarrow> b2 = bid \<and> buyer_display_cart st2 m2 = Inr c2 \<and> db st2 = db st)
              \<and> buyer_display_cart (snd (buyer_clear_cart st m1)) m2 = Inr []
              \<and> db (snd (buyer_clear_cart st m1)) = db st"
    using shared_display[of st m1 x1 bid m2 x2] shared_add[of st m1 x1 bid m2 x2 iid n b1 c1 st1]
      shared_remove[of st m1 x1 bid m2 x2 iid n b2 c2 st2] shared_clear[of st m1 x1 bid m2 x2]
    by blast
  moreover have "buyer_login st bido name pwh mtoken mnow = (Inr res, st3)
           \<and> require_buyer_session st3 mtoken = Some (x3, bid)
           \<and> require_buyer_session st3 m3 = Some (x4, bid)
           \<longrightarrow> buyer_display_cart st3 m3 = Inr (load_saved_cart (db st) bid) \<and> db st3 = db st"
    using login_replaces_cart[of st bido name pwh mtoken mnow res st3 x3 bid m3 x4] by blast
  ultimately show ?thesis by blast
qed

lemma two_sessions_facts:
  "fst (cart_get (customer_run 300 two_sessions_ops) ''t2'' 150) = Inr [(''1:1'', 2)]"
  "fst (cart_get (customer_run 300 two_sessions_ops) ''t1'' 150) = Inr [(''1:1'', 2)]"
  "fst (cart_get (snd (cart_add (customer_run 300 two_sessions_ops) ''t1'' ''1:1'' 3 140)) ''t1'' 150)
     = Inr [(''1:1'', 5)]"
  "fst (cart_get (snd (cart_clear (customer_run 300 two_sessions_ops) ''t1'' 140)) ''t1'' 150)
     = Inr []"
  "saved_view (customer_run 300 two_sessions_ops) 1 = Some [(''1:1'', 2)]"
  "fst (login (customer_run 300 two_sessions_ops) ''buyer'' (UInt 1) ''pw1'' ''t3'' 140) = Inr (1, ''t3'')"
  "strip (lower ''buyer'') = ''buyer''"
  by code_simp+

lemma shared_cart_facts:
  "require_buyer_session (market_run shared_cart_ops) ''b1'' = Some (''b1'', 1)"
  "require_buyer_session (market_run shared_cart_ops) ''b2'' = Some (''b2'', 1)"
  "buyer_display_cart (market_run shared_cart_ops) ''b1'' = Inr [(shared_item, 2)]"
  "fst (buyer_add_item_to_cart (market_run shared_cart_ops) ''b1'' shared_item 1)
     = Inr (1, [(shared_item, 3)])"
  "fst (buyer_remove_item_from_cart (market_run shared_cart_ops) ''b1'' shared_item 1)
     = Inr (1, [(shared_item, 1)])"
  "fst (buyer_login (market_run shared_cart_ops) (Some 1) [] ''1f3a'' ''b3'' 7) = Inr (1, ''b3'')"
  "require_buyer_session
     (snd (buyer_login (market_run shared_cart_ops) (Some 1) [] ''1f3a'' ''b3'' 7)) ''b3''
     = Some (''b3'', 1)"
  "require_buyer_session
     (snd (buyer_login (market_run shared_cart_ops) (Some 1) [] ''1f3a'' ''b3'' 7)) ''b1''
     = Some (''b1'', 1)"
  "load_saved_cart (db (market_run shared_cart_ops)) 1 = [(shared_item, 3)]"
  by code_simp+

theorem session_carts_isolated_witness:
  "fst (cart_get (snd (cart_add (customer_run 300 two_sessions_ops) ''t1'' ''1:1'' 3 140)) ''t1'' 150)
     = Inr [(''1:1'', 5)]
   \<and> fst (cart_get (snd (cart_add (customer_run 300 two_sessions_ops) ''t1'' ''1:1'' 3 140)) ''t2'' 150)
     = Inr [(''1:1'', 2)]
   \<and> fst (cart_get (snd (cart_remove (customer_run 300 two_sessions_ops) ''t1'' ''1:1'' 3 140)) ''t2'' 150)
     = Inr [(''1:1'', 2)]
   \<and> fst (cart_get (snd (cart_clear (customer_run 300 two_sessions_ops) ''t1'' 140)) ''t2'' 150)
     = Inr [(''1:1'', 2)]
   \<and> saved_view (snd (cart_add (customer_run 300 two_sessions_ops) ''t1'' ''1:1'' 3 140)) 1
     = Some [(''1:1'', 2)]
   \<and> (\<exists>a. session_carts (snd (login (customer_run 300 two_sessions_ops) ''buyer'' (UInt 1) ''pw1'' ''t3'' 140)) ''t3''
              = Some a
          \<and> dict_heap (snd (login (customer_run 300 two_sessions_ops) ''buyer'' (UInt 1) ''pw1'' ''t3'' 140)) a
              = [(''1:1'', 2)]
          \<and> (\<forall>t'. t' \<noteq> ''t3'' \<longrightarrow>
                session_carts (snd (login (customer_run 300 two_sessions_ops) ''buyer'' (UInt 1) ''pw1'' ''t3'' 140)) t'
                  \<noteq> Some a)
          \<and> (\<forall>b. saved_carts (snd (login (customer_run 300 two_sessions_ops) ''buyer'' (UInt 1) ''pw1'' ''t3'' 140)) b
                  \<noteq> Some a))
   \<and> buyer_display_cart (market_run shared_cart_ops) ''b1'' = Inr [(shared_item, 2)]
   \<and> buyer_display_cart (market_run shared_cart_ops) ''b2'' = Inr [(shared_item, 2)]
   \<and> buyer_display_cart
        (snd (buyer_add_item_to_cart (market_run shared_cart_ops) ''b1'' shared_item 1)) ''b2''
       = Inr [(shared_item, 3)]
   \<and> buyer_display_cart
        (snd (buyer_remove_item_from_cart (market_run shared_cart_ops) ''b1'' shared_item 1)) ''b2''
       = Inr [(shared_item, 1)]
   \<and> buyer_display_cart (snd (buyer_clear_cart (market_run shared_cart_ops) ''b1'')) ''b2'' = Inr []
   \<and> load_saved_cart (db (market_run shared_cart_ops)) 1 = [(shared_item, 3)]
   \<and> buyer_display_cart
        (snd (buyer_login (market_run shared_cart_ops) (Some 1) [] ''1f3a'' ''b3'' 7)) ''b1''
       = Inr [(shared_item, 3)]"
proof -
  let ?C = "customer_run 300 two_sessions_ops"
  let ?S = "market_run shared_cart_ops"
  let ?S1 = "snd (buyer_add_item_to_cart ?S ''b1'' shared_item 1)"
  let ?S2 = "snd (buyer_remove_item_from_cart ?S ''b1'' shared_item 1)"
  let ?S3 = "snd (buyer_login ?S (Some 1) [] ''1f3a'' ''b3'' 7)"
  have l: "login ?C ''buyer'' (UInt 1) ''pw1'' ''t3'' 140
             = (Inr (1, ''t3''), snd (login ?C ''buyer'' (UInt 1) ''pw1'' ''t3'' 140))"
    using two_sessions_facts(6) by (metis prod.collapse)
  have a: "buyer_add_item_to_cart ?S ''b1'' shared_item 1 = (Inr (1, [(shared_item, 3)]), ?S1)"
    using shared_cart_facts(4) by (simp add: prod_eq_iff)
  have r: "buyer_remove_item_from_cart ?S ''b1'' shared_item 1 = (Inr (1, [(shared_item, 1)]), ?S2)"
    using shared_cart_facts(5) by (simp add: prod_eq_iff)
  have g: "buyer_login ?S (Some 1) [] ''1f3a'' ''b3'' 7 = (Inr (1, ''b3''), ?S3)"
    using shared_cart_facts(6) by (simp add: prod_eq_iff)
  show ?thesis
    using session_carts_isolated[where cdb = ?C and tmo = 300 and ops = two_sessions_ops
        and ?t2.0 = "''t2''" and ?t1.0 = "''t1''" and k = "''1:1''" and q = 3 and now = 140
        and now' = 150 and b = 1 and r = "''buyer''" and u = "UInt 1" and pw = "''pw1''"
        and token = "''t3''" and uid = 1 and tk = "''t3''"
        and cdb' = "snd (login ?C ''buyer'' (UInt 1) ''pw1'' ''t3'' 140)"
        and st = ?S and ?m1.0 = "''b1''" and ?m2.0 = "''b2''" and ?x1.0 = "''b1''" and ?x2.0 = "''b2''"
        and bid = 1 and iid = shared_item and n = 1 and ?b1.0 = 1 and ?c1.0 = "[(shared_item, 3)]"
        and ?st1.0 = ?S1 and ?b2.0 = 1 and ?c2.0 = "[(shared_item, 1)]" and ?st2.0 = ?S2
        and bido = "Some 1" and name = "[]" and pwh = "''1f3a''" and mtoken = "''b3''" and mnow = 7
        and res = "(1, ''b3'')" and ?st3.0 = ?S3 and ?x3.0 = "''b3''" and ?m3.0 = "''b1''"
        and ?x4.0 = "''b1''"] l a r g
    by (auto simp: two_sessions_facts shared_cart_facts)
qed

text \<open>
  C6 as stated fails in the single-process server, whose active carts are keyed by buyer
  id: with two sessions b1 and b2 of one buyer, adding two units through b1 changes the
  cart displayed through b2 from empty to those two units.
\<close>

theorem session_carts_isolated_counterexample:
  "require_buyer_session (market_run two_sessions_market_ops) ''b1'' = Some (''b1'', 1)
   \<and> require_buyer_session (market_run two_sessions_market_ops) ''b2'' = Some (''b2'', 1)
   \<and> buyer_display_cart (market_run two_sessions_market_ops) ''b2'' = Inr []
   \<and> buyer_display_cart
        (snd (buyer_add_item_to_cart (market_run two_sessions_market_ops) ''b1''
                \<lparr>category = 1, number = 1\<rparr> 2)) ''b2''
       = Inr [(\<lparr>category = 1, number = 1\<rparr>, 2)]"
  by code_simp

end
